theory Spec2Isabelle
  imports Complex_Main "HOL-Library.Monad_Syntax"
begin

unbundle bit_operations_syntax

section \<open>Data model\<close>

text \<open>
  The repository holds two builds of one BASIC interpreter: the classic build
  (the file that defines \<open>eval_comparison\<close>, \<open>eval_and_expr\<close> and \<open>eval_or_expr\<close>,
  with limits 1024/256/128/64/32/256) and the optimised build \<open>basic.c\<close> (binary
  search with a lookup cache, limits 512/128/64/32/16/128).  Definitions without a
  prefix follow the classic build; definitions prefixed \<open>opt_\<close> follow \<open>basic.c\<close>
  where its text differs.

  A C \<open>double\<close> is represented by a real number: rounding, infinities and NaN are
  not represented.  A C \<open>int\<close> is an integer between \<open>INT_MIN\<close> and \<open>INT_MAX\<close>
  (32 bits): the two places where the source produces an \<open>int\<close> from unbounded
  input, \<open>atoi\<close> and the conversion \<open>(int)x\<close> of a double, are modelled with their
  behaviour outside that range (\<open>c_atoi\<close>, \<open>to_int\<close>); the counters and indices the
  source computes from them stay far inside it.  A C string is a list of
  characters without the terminating NUL.  The cursor \<open>char **p\<close> into a line is the text from the cursor
  to the end of the line; the null cursor is \<open>None\<close>.
\<close>

datatype value_type = VAL_NUM | VAL_STR

record "value" =
  type :: value_type
  num :: real
  str :: string

record line =
  number :: int
  line_text :: string

record var =
  name1 :: char
  name2 :: char
  is_string :: bool
  is_array :: bool
  size :: int
  scalar :: "value"
  array :: "value list"

text \<open>
  A \<open>struct value *\<close> is the index of its variable in the table together with
  the slot inside that variable.
\<close>

datatype slot = Scalar nat | Elem nat nat

record gosub_frame =
  g_line_index :: int
  g_position :: string

record for_frame =
  f_name1 :: char
  f_name2 :: char
  f_is_string :: bool
  f_end_value :: real
  f_step :: real
  f_line_index :: int
  f_resume_pos :: string
  f_var :: "slot option"

text \<open>
  The process state: the static variables of the source, the three standard
  streams, and what the host supplies (the text \<open>sprintf\<close> produces for \<open>%g\<close>, the
  pseudo-random sequence behind \<open>rand\<close>, and the contents of memory that
  \<open>realloc\<close> hands out without initialising it).  The two cache variables exist
  in \<open>basic.c\<close> only.
\<close>

record state =
  program_lines :: "line list"
  vars :: "var list"
  gosub_stack :: "gosub_frame list"
  for_stack :: "for_frame list"
  current_line :: int
  statement_pos :: "string option"
  halted :: bool
  print_col :: int
  last_lookup_num :: int
  last_lookup_idx :: int
  out :: string
  err :: string
  inp :: string
  rand_seed :: nat
  rand_calls :: nat
  host_g :: "real \<Rightarrow> string"
  host_rand :: "nat \<Rightarrow> nat \<Rightarrow> real"
  host_fresh :: "nat \<Rightarrow> value"

definition line_count :: "state \<Rightarrow> int" where
  "line_count st = int (length (program_lines st))"

definition var_count :: "state \<Rightarrow> int" where
  "var_count st = int (length (vars st))"

definition gosub_top :: "state \<Rightarrow> int" where
  "gosub_top st = int (length (gosub_stack st))"

definition for_top :: "state \<Rightarrow> int" where
  "for_top st = int (length (for_stack st))"

section \<open>Host library\<close>

text \<open>
  The C library functions the source calls, restricted to the ``C'' locale.
  \<open>atof\<close> is modelled for decimal text (optional white space, sign, digits,
  fraction, exponent); it returns 0 when no number starts the text.
\<close>

definition c_isdigit :: "char \<Rightarrow> bool" where
  "c_isdigit c \<longleftrightarrow> c \<in> set ''0123456789''"

definition c_isalpha :: "char \<Rightarrow> bool" where
  "c_isalpha c \<longleftrightarrow>
     c \<in> set ''ABCDEFGHIJKLMNOPQRSTUVWXYZ'' \<or> c \<in> set ''abcdefghijklmnopqrstuvwxyz''"

definition c_isspace :: "char \<Rightarrow> bool" where
  "c_isspace c \<longleftrightarrow> c \<in> {CHR '' '', CHR 0x09, CHR 0x0A, CHR 0x0B, CHR 0x0C, CHR 0x0D}"

definition c_toupper :: "char \<Rightarrow> char" where
  "c_toupper c =
     (case map_of (zip ''abcdefghijklmnopqrstuvwxyz'' ''ABCDEFGHIJKLMNOPQRSTUVWXYZ'') c of
        Some u \<Rightarrow> u
      | None \<Rightarrow> c)"

definition digit_val :: "char \<Rightarrow> nat" where
  "digit_val c = of_char c - 48"

definition digits_val :: "string \<Rightarrow> nat" where
  "digits_val ds = foldl (\<lambda>a c. 10 * a + digit_val c) 0 ds"

definition take_sign :: "string \<Rightarrow> bool \<times> string" where
  "take_sign s =
     (case s of
        c # r \<Rightarrow> if c = CHR ''-'' then (True, r) else if c = CHR ''+'' then (False, r)
                 else (False, s)
      | [] \<Rightarrow> (False, s))"

definition c_atof :: "string \<Rightarrow> real" where
  "c_atof s =
     (let (neg, s1) = take_sign (dropWhile c_isspace s);
          ip = takeWhile c_isdigit s1;
          s2 = dropWhile c_isdigit s1;
          fp = (case s2 of c # r \<Rightarrow> if c = CHR ''.'' then takeWhile c_isdigit r else [] | [] \<Rightarrow> []);
          s3 = (case s2 of c # r \<Rightarrow> if c = CHR ''.'' then dropWhile c_isdigit r else s2
                | [] \<Rightarrow> s2);
          m = real (digits_val ip) + real (digits_val fp) / 10 ^ length fp;
          (eneg, s4) = (case s3 of c # r \<Rightarrow>
                          if c = CHR ''e'' \<or> c = CHR ''E'' then take_sign r else (False, [])
                        | [] \<Rightarrow> (False, []));
          ex = digits_val (takeWhile c_isdigit s4);
          v = (if eneg then m / 10 ^ ex else m * 10 ^ ex)
      in if ip = [] \<and> fp = [] then 0 else if neg then - v else v)"

text \<open>The ranges of \<open>int\<close> (32 bits) and \<open>long\<close> (64 bits).\<close>

definition INT_MIN :: int where
  "INT_MIN = - 2147483648"

definition INT_MAX :: int where
  "INT_MAX = 2147483647"

definition LONG_MIN :: int where
  "LONG_MIN = - 9223372036854775808"

definition LONG_MAX :: int where
  "LONG_MAX = 9223372036854775807"

text \<open>
  The conversion of a \<open>long\<close> to \<open>int\<close> keeps the low 32 bits, read in two's
  complement.
\<close>

definition wrap_int :: "int \<Rightarrow> int" where
  "wrap_int n = (n + 2147483648) mod 4294967296 - 2147483648"

text \<open>
  \<open>strtol\<close> in base 10: optional white space, sign, digits; a value outside the
  range of \<open>long\<close> is replaced by the nearest bound.  \<open>atoi\<close> is \<open>strtol\<close> converted
  to \<open>int\<close> (the C standard leaves \<open>atoi\<close> undefined outside the range of \<open>int\<close>;
  this is what the GNU C library does).
\<close>

definition digits_int :: "string \<Rightarrow> int" where
  "digits_int ds = foldl (\<lambda>a c. 10 * a + int (digit_val c)) 0 ds"

definition c_strtol :: "string \<Rightarrow> int" where
  "c_strtol s =
     (let (neg, s1) = take_sign (dropWhile c_isspace s);
          v = digits_int (takeWhile c_isdigit s1)
      in if neg then max (- v) LONG_MIN else min v LONG_MAX)"

definition c_atoi :: "string \<Rightarrow> int" where
  "c_atoi s = wrap_int (c_strtol s)"

text \<open>Truncation toward zero.\<close>

definition trunc_zero :: "real \<Rightarrow> int" where
  "trunc_zero x = (if x < 0 then - \<lfloor>- x\<rfloor> else \<lfloor>x\<rfloor>)"

text \<open>
  \<open>(int)x\<close> on a double: truncation toward zero when the truncated value fits an
  \<open>int\<close>.  Outside that range the C standard leaves the conversion undefined;
  the conversion instruction of x86-64 then gives \<open>INT_MIN\<close>, and so does the
  model.
\<close>

definition to_int :: "real \<Rightarrow> int" where
  "to_int x =
     (let t = trunc_zero x in if INT_MIN \<le> t \<and> t \<le> INT_MAX then t else INT_MIN)"

text \<open>
  \<open>(unsigned int)x\<close> on a double, as x86-64 computes it: the low 32 bits of the
  truncated value when that fits a \<open>long\<close>.
\<close>

definition to_uint :: "real \<Rightarrow> nat" where
  "to_uint x =
     (let t = trunc_zero x in if LONG_MIN \<le> t \<and> t \<le> LONG_MAX then nat (t mod 4294967296) else 0)"

text \<open>C's \<open>%\<close> on integers: the remainder has the sign of the dividend.\<close>

definition c_rem :: "int \<Rightarrow> int \<Rightarrow> int" where
  "c_rem a b = (if a < 0 then - ((- a) mod \<bar>b\<bar>) else a mod \<bar>b\<bar>)"

text \<open>\<open>pow\<close>: integral exponents by repeated multiplication, others through \<open>powr\<close>.\<close>

definition c_pow :: "real \<Rightarrow> real \<Rightarrow> real" where
  "c_pow x y =
     (if y = of_int \<lfloor>y\<rfloor> then (if 0 \<le> y then x ^ nat \<lfloor>y\<rfloor> else 1 / x ^ nat (- \<lfloor>y\<rfloor>))
      else x powr y)"

text \<open>\<open>strstr\<close>: the offset of the first occurrence of the needle.\<close>

fun c_strstr :: "string \<Rightarrow> string \<Rightarrow> nat option" where
  "c_strstr [] needle = (if needle = [] then Some 0 else None)"
| "c_strstr (h # hs) needle =
     (if take (length needle) (h # hs) = needle then Some 0
      else map_option Suc (c_strstr hs needle))"

text \<open>\<open>strcmp\<close>: the sign of the first difference, bytes compared as unsigned.\<close>

fun c_strcmp :: "string \<Rightarrow> string \<Rightarrow> int" where
  "c_strcmp [] [] = 0"
| "c_strcmp [] (b # bs) = -1"
| "c_strcmp (a # as) [] = 1"
| "c_strcmp (a # as) (b # bs) =
     (if a = b then c_strcmp as bs
      else if (of_char a :: nat) < of_char b then -1 else 1)"

text \<open>
  \<open>fgets(buf, size, f)\<close>: at most \<open>size - 1\<close> bytes, stopping after a newline;
  \<open>None\<close> at end of file.
\<close>

definition c_fgets :: "nat \<Rightarrow> string \<Rightarrow> (string \<times> string) option" where
  "c_fgets sz s =
     (if s = [] then None
      else (let l = takeWhile (\<lambda>c. c \<noteq> CHR 0x0A) s;
                k = (if length l < length s then length l + 1 else length l);
                m = min k (sz - 1)
            in Some (take m s, drop m s)))"

section \<open>Lexical helpers\<close>

definition peek :: "string \<Rightarrow> char" where
  "peek p = (case p of [] \<Rightarrow> CHR 0x00 | c # _ \<Rightarrow> c)"

definition is_blank :: "char \<Rightarrow> bool" where
  "is_blank c \<longleftrightarrow> c = CHR '' '' \<or> c = CHR 0x09"

definition trim_newline :: "string \<Rightarrow> string" where
  "trim_newline s = takeWhile (\<lambda>c. c \<noteq> CHR 0x0A) s"

definition skip_spaces :: "string \<Rightarrow> string" where
  "skip_spaces p = dropWhile is_blank p"

definition skip_digits :: "string \<Rightarrow> string" where
  "skip_digits p = dropWhile c_isdigit p"

definition skip_opt_sign :: "string \<Rightarrow> string" where
  "skip_opt_sign q = (if peek q = CHR ''+'' \<or> peek q = CHR ''-'' then tl q else q)"

text \<open>
  The part of \<open>parse_number_literal\<close> both builds share, entered after the sign
  and the leading digits: fraction and exponent.  It returns what is left.
\<close>

definition skip_frac_exp :: "string \<Rightarrow> string" where
  "skip_frac_exp q0 =
     (let q1 = (if peek q0 = CHR ''.'' then skip_digits (tl q0) else q0) in
      if peek q1 = CHR ''e'' \<or> peek q1 = CHR ''E'' then
        (let e = skip_opt_sign (tl q1) in
         if c_isdigit (peek e) then skip_digits e else q1)
      else q1)"

definition parse_number_literal :: "string \<Rightarrow> (real \<times> string) option" where
  "parse_number_literal s =
     (let q = skip_frac_exp (skip_digits (skip_opt_sign s));
          len = length s - length q
      in if len = 0 \<or> (len = 1 \<and> (peek s = CHR ''+'' \<or> peek s = CHR ''-'')) then None
         else Some (c_atof (take (min len 63) s), q))"

definition opt_parse_number_literal :: "string \<Rightarrow> (real \<times> string) option" where
  "opt_parse_number_literal s =
     (let q0 = skip_opt_sign s in
      if \<not> c_isdigit (peek q0) then None
      else
        (let q = skip_frac_exp (skip_digits q0);
             len = length s - length q
         in if len = 0 \<or> (len = 1 \<and> (peek s = CHR ''+'' \<or> peek s = CHR ''-'')) then None
            else Some (c_atof (take (min len 127) s), q)))"

definition kw_prefix :: "string \<Rightarrow> string \<Rightarrow> bool" where
  "kw_prefix p kw \<longleftrightarrow> length kw \<le> length p \<and> map c_toupper (take (length kw) p) = kw"

definition starts_with_kw :: "string \<Rightarrow> string \<Rightarrow> bool" where
  "starts_with_kw p kw \<longleftrightarrow>
     kw_prefix p kw \<and>
     (let c = peek (drop (length kw) p)
      in c = CHR 0x00 \<or> c = CHR '' '' \<or> c = CHR 0x09 \<or> c = CHR '':'' \<or> c = CHR ''(''
         \<or> c = CHR ''$'')"

definition starts_with_kw_dollar :: "string \<Rightarrow> string \<Rightarrow> bool" where
  "starts_with_kw_dollar p kw \<longleftrightarrow> kw_prefix p kw"

definition opt_starts_with_kw :: "string \<Rightarrow> string \<Rightarrow> bool" where
  "opt_starts_with_kw p kw \<longleftrightarrow>
     kw_prefix p kw \<and>
     (let c = peek (drop (length kw) p)
      in c = CHR 0x00 \<or> c = CHR '' '' \<or> c = CHR 0x09 \<or> c = CHR '':'' \<or> c = CHR ''('')"

definition is_ident_char :: "char \<Rightarrow> bool" where
  "is_ident_char c \<longleftrightarrow> c_isalpha c \<or> c_isdigit c \<or> c = CHR ''$''"

definition read_identifier :: "string \<Rightarrow> nat \<Rightarrow> string \<times> string" where
  "read_identifier p buf_size =
     (let i = min (length (takeWhile is_ident_char p)) (buf_size - 1)
      in (take i p, drop i p))"

definition name_equals :: "string \<Rightarrow> string \<Rightarrow> bool" where
  "name_equals a b \<longleftrightarrow> map c_toupper a = b"

definition uppercase_name :: "string \<Rightarrow> char \<times> char \<times> bool" where
  "uppercase_name src =
     (let is_str = (src \<noteq> [] \<and> last src = CHR ''$'');
          len = (if is_str then length src - 1 else length src)
      in ((if len > 0 then c_toupper (src ! 0) else CHR '' ''),
          (if len > 1 then c_toupper (src ! 1) else CHR '' ''),
          is_str))"

section \<open>Values, errors and printing\<close>

definition MAX_LINES :: int where "MAX_LINES = 1024"
definition MAX_LINE_LEN :: nat where "MAX_LINE_LEN = 256"
definition MAX_VARS :: int where "MAX_VARS = 128"
definition MAX_GOSUB :: int where "MAX_GOSUB = 64"
definition MAX_FOR :: int where "MAX_FOR = 32"
definition MAX_STR_LEN :: nat where "MAX_STR_LEN = 256"
definition DEFAULT_ARRAY_SIZE :: int where "DEFAULT_ARRAY_SIZE = 11"
definition PRINT_WIDTH :: int where "PRINT_WIDTH = 80"

definition OPT_MAX_LINES :: int where "OPT_MAX_LINES = 512"
definition OPT_MAX_LINE_LEN :: nat where "OPT_MAX_LINE_LEN = 128"
definition OPT_MAX_VARS :: int where "OPT_MAX_VARS = 64"
definition OPT_MAX_GOSUB :: int where "OPT_MAX_GOSUB = 32"
definition OPT_MAX_FOR :: int where "OPT_MAX_FOR = 16"
definition OPT_MAX_STR_LEN :: nat where "OPT_MAX_STR_LEN = 128"

definition make_num :: "real \<Rightarrow> value" where
  "make_num v = \<lparr>type = VAL_NUM, num = v, str = []\<rparr>"

definition make_str :: "string \<Rightarrow> value" where
  "make_str s = \<lparr>type = VAL_STR, num = 0, str = take (MAX_STR_LEN - 1) s\<rparr>"

definition opt_make_str :: "string \<Rightarrow> value" where
  "opt_make_str s = \<lparr>type = VAL_STR, num = 0, str = take (OPT_MAX_STR_LEN - 1) s\<rparr>"

text \<open>What \<open>calloc\<close> and \<open>memset(.., 0, ..)\<close> leave in a \<open>struct value\<close>.\<close>

definition zero_value :: "value" where
  "zero_value = \<lparr>type = VAL_NUM, num = 0, str = []\<rparr>"

definition runtime_error :: "string \<Rightarrow> state \<Rightarrow> state" where
  "runtime_error msg st = st\<lparr>err := err st @ ''Error: '' @ msg @ [CHR 0x0A], halted := True\<rparr>"

text \<open>\<open>%d\<close>: the decimal digits of an integer.\<close>

fun dec_nat :: "nat \<Rightarrow> string" where
  "dec_nat n =
     (if n < 10 then [''0123456789'' ! n] else dec_nat (n div 10) @ [''0123456789'' ! (n mod 10)])"

declare dec_nat.simps [simp del]

definition dec_int :: "int \<Rightarrow> string" where
  "dec_int i = (if i < 0 then CHR ''-'' # dec_nat (nat (- i)) else dec_nat (nat i))"

definition opt_runtime_error :: "string \<Rightarrow> state \<Rightarrow> state" where
  "opt_runtime_error msg st =
     (if current_line st \<ge> 0 \<and> current_line st < line_count st then
        st\<lparr>err := err st @ ''Error at line ''
                    @ dec_int (number (program_lines st ! nat (current_line st)))
                    @ '': '' @ msg @ [CHR 0x0A],
           halted := True\<rparr>
      else st\<lparr>err := err st @ ''Error: '' @ msg @ [CHR 0x0A], halted := True\<rparr>)"

definition ensure_num :: "value \<Rightarrow> state \<Rightarrow> state" where
  "ensure_num v st = (if type v \<noteq> VAL_NUM then runtime_error ''Numeric value required'' st else st)"

definition ensure_str :: "value \<Rightarrow> state \<Rightarrow> state" where
  "ensure_str v st = (if type v \<noteq> VAL_STR then runtime_error ''String value required'' st else st)"

definition opt_ensure_num :: "value \<Rightarrow> state \<Rightarrow> state" where
  "opt_ensure_num v st =
     (if type v \<noteq> VAL_NUM then opt_runtime_error ''Numeric value required'' st else st)"

definition opt_ensure_str :: "value \<Rightarrow> state \<Rightarrow> state" where
  "opt_ensure_str v st =
     (if type v \<noteq> VAL_STR then opt_runtime_error ''String value required'' st else st)"

definition put_char :: "char \<Rightarrow> state \<Rightarrow> state" where
  "put_char c st = st\<lparr>out := out st @ [c]\<rparr>"

fun print_spaces_loop :: "nat \<Rightarrow> state \<Rightarrow> state" where
  "print_spaces_loop 0 st = st"
| "print_spaces_loop (Suc k) st =
     (let st1 = put_char CHR '' '' st;
          st2 = st1\<lparr>print_col := print_col st1 + 1\<rparr>;
          st3 = (if print_col st2 \<ge> PRINT_WIDTH
                 then (put_char CHR 0x0A st2)\<lparr>print_col := 0\<rparr> else st2)
      in print_spaces_loop k st3)"

definition print_spaces :: "int \<Rightarrow> state \<Rightarrow> state" where
  "print_spaces count st = print_spaces_loop (nat count) st"

fun print_chars :: "string \<Rightarrow> state \<Rightarrow> state" where
  "print_chars [] st = st"
| "print_chars (c # s) st =
     (let st1 = put_char c st;
          st2 = (if c = CHR 0x0A then st1\<lparr>print_col := 0\<rparr>
                 else (let st3 = st1\<lparr>print_col := print_col st1 + 1\<rparr>
                       in if print_col st3 \<ge> PRINT_WIDTH
                          then (put_char CHR 0x0A st3)\<lparr>print_col := 0\<rparr> else st3))
      in print_chars s st2)"

definition print_value :: "value \<Rightarrow> state \<Rightarrow> state" where
  "print_value v st =
     (if type v = VAL_STR then print_chars (str v) st
      else (let buf = host_g st (num v)
            in st\<lparr>out := out st @ buf, print_col := print_col st + int (length buf)\<rparr>))"

section \<open>Variable store\<close>

text \<open>
  \<open>malloc\<close>, \<open>calloc\<close> and \<open>realloc\<close> are taken to succeed.  \<open>calloc\<close> returns
  zeroed elements; the elements \<open>realloc\<close> adds hold whatever the host left there
  (\<open>host_fresh\<close>) until the program writes them.
\<close>

fun find_var :: "var list \<Rightarrow> nat \<Rightarrow> char \<Rightarrow> char \<Rightarrow> bool \<Rightarrow> nat option" where
  "find_var [] i n1 n2 s = None"
| "find_var (v # vs) i n1 n2 s =
     (if name1 v = n1 \<and> name2 v = n2 \<and> is_string v = s then Some i
      else find_var vs (Suc i) n1 n2 s)"

definition set_var :: "nat \<Rightarrow> var \<Rightarrow> state \<Rightarrow> state" where
  "set_var i v st = st\<lparr>vars := (vars st)[i := v]\<rparr>"

definition new_var :: "char \<Rightarrow> char \<Rightarrow> bool \<Rightarrow> bool \<Rightarrow> int \<Rightarrow> (string \<Rightarrow> value) \<Rightarrow> var" where
  "new_var n1 n2 is_str want_array array_size mk_str =
     \<lparr>name1 = n1, name2 = n2, is_string = is_str, is_array = want_array,
      size = (if want_array then array_size else 0),
      scalar = (if is_str then mk_str [] else make_num 0),
      array = (if want_array then replicate (nat array_size) zero_value else [])\<rparr>"

definition find_or_create_var ::
    "char \<Rightarrow> char \<Rightarrow> bool \<Rightarrow> bool \<Rightarrow> int \<Rightarrow> state \<Rightarrow> nat option \<times> state" where
  "find_or_create_var n1 n2 is_str want_array array_size st =
     (case find_var (vars st) 0 n1 n2 is_str of
        Some i \<Rightarrow>
          (let v = vars st ! i in
           if want_array \<and> \<not> is_array v then
             (Some i, set_var i (v\<lparr>is_array := True, size := array_size,
                                    array := replicate (nat array_size) zero_value\<rparr>) st)
           else if want_array \<and> array_size > size v then
             (Some i, set_var i (v\<lparr>array := array v @ map (host_fresh st) [nat (size v)..<nat array_size],
                                    size := array_size\<rparr>) st)
           else (Some i, st))
      | None \<Rightarrow>
          if var_count st \<ge> MAX_VARS then (None, runtime_error ''Variable table full'' st)
          else (Some (length (vars st)),
                st\<lparr>vars := vars st @ [new_var n1 n2 is_str want_array array_size make_str]\<rparr>))"

text \<open>\<open>basic.c\<close> clears the elements it adds when it grows an array.\<close>

definition opt_find_or_create_var ::
    "char \<Rightarrow> char \<Rightarrow> bool \<Rightarrow> bool \<Rightarrow> int \<Rightarrow> state \<Rightarrow> nat option \<times> state" where
  "opt_find_or_create_var n1 n2 is_str want_array array_size st =
     (case find_var (vars st) 0 n1 n2 is_str of
        Some i \<Rightarrow>
          (let v = vars st ! i in
           if want_array \<and> \<not> is_array v then
             (Some i, set_var i (v\<lparr>is_array := True, size := array_size,
                                    array := replicate (nat array_size) zero_value\<rparr>) st)
           else if want_array \<and> array_size > size v then
             (Some i, set_var i (v\<lparr>array := array v @ replicate (nat (array_size - size v)) zero_value,
                                    size := array_size\<rparr>) st)
           else (Some i, st))
      | None \<Rightarrow>
          if var_count st \<ge> OPT_MAX_VARS then (None, opt_runtime_error ''Variable table full'' st)
          else (Some (length (vars st)),
                st\<lparr>vars := vars st @ [new_var n1 n2 is_str want_array array_size opt_make_str]\<rparr>))"

fun get_slot :: "state \<Rightarrow> slot \<Rightarrow> value" where
  "get_slot st (Scalar i) = scalar (vars st ! i)"
| "get_slot st (Elem i k) = array (vars st ! i) ! k"

fun set_slot :: "slot \<Rightarrow> value \<Rightarrow> state \<Rightarrow> state" where
  "set_slot (Scalar i) x st = set_var i ((vars st ! i)\<lparr>scalar := x\<rparr>) st"
| "set_slot (Elem i k) x st = set_var i ((vars st ! i)\<lparr>array := (array (vars st ! i))[k := x]\<rparr>) st"

text \<open>
  The tail of \<open>get_var_reference\<close>, entered once the variable is found: its own
  growth path (with \<open>memset\<close>), the choice of the slot, and the reset of a slot
  whose tag disagrees with the name.
\<close>

definition select_slot ::
    "nat \<Rightarrow> bool \<Rightarrow> bool \<Rightarrow> int \<Rightarrow> (string \<Rightarrow> value) \<Rightarrow> state \<Rightarrow> slot \<times> state" where
  "select_slot i is_arr is_str array_index mk_str st =
     (let v = vars st ! i;
          (valp, st1) =
            (if \<not> is_arr then (Scalar i, st)
             else if array_index \<ge> size v then
               (Elem i (nat array_index),
                set_var i (v\<lparr>array := array v @ replicate (nat (array_index + 1 - size v)) zero_value,
                             size := array_index + 1\<rparr>) st)
             else (Elem i (nat array_index), st))
      in if is_str \<and> type (get_slot st1 valp) \<noteq> VAL_STR then (valp, set_slot valp (mk_str []) st1)
         else if \<not> is_str \<and> type (get_slot st1 valp) \<noteq> VAL_NUM
              then (valp, set_slot valp (make_num 0) st1)
         else (valp, st1))"

section \<open>Expression evaluator (classic build)\<close>

text \<open>
  Every evaluator takes the cursor and the state and returns the value, the
  cursor after the expression and the new state.  An error sets \<open>halted\<close> and
  evaluation goes on, as in the source.  The mutual recursion is bounded by a
  fuel argument; \<open>None\<close> means the fuel ran out.  Division by zero, and the
  library functions outside their real domain, give what the real-number
  operations give there; the source yields an infinity or a NaN.
\<close>

type_synonym 'a res = "('a \<times> string \<times> state) option"

definition quoted :: "string \<Rightarrow> string" where
  "quoted s = [CHR 0x27] @ s @ [CHR 0x27]"

definition close_paren :: "string \<Rightarrow> string" where
  "close_paren p = (if peek p = CHR '')'' then tl p else p)"

definition is_function_name :: "string \<Rightarrow> bool" where
  "is_function_name p \<longleftrightarrow>
     list_ex (starts_with_kw p)
       [''SIN'', ''COS'', ''TAN'', ''ATN'', ''ABS'', ''INT'', ''SQR'', ''SGN'', ''EXP'', ''LOG'',
        ''RND'', ''LEN'', ''VAL'', ''ASC'', ''TAB'', ''NOT'', ''FRE'', ''POS'', ''INSTR'']
     \<or> list_ex (starts_with_kw_dollar p) [''STR$'', ''CHR$'', ''LEFT$'', ''RIGHT$'', ''MID$'']"

text \<open>\<open>TAB\<close>: the column is reduced modulo the width, then reached with spaces.\<close>

definition tab_to :: "int \<Rightarrow> state \<Rightarrow> state" where
  "tab_to t st =
     (let target0 = c_rem t PRINT_WIDTH;
          target = (if target0 < 0 then target0 + PRINT_WIDTH else target0);
          (cur, st1) = (if target < print_col st then (0, put_char CHR 0x0A st) else (print_col st, st))
      in st1\<lparr>out := out st1 @ replicate (nat (target - cur)) CHR '' '',
              print_col := (if cur < target then target else cur)\<rparr>)"

text \<open>
  The functions of one argument in \<open>eval_function\<close>, in the order of the source;
  \<open>None\<close> when the name is none of them.
\<close>

definition eval_function1 :: "string \<Rightarrow> value \<Rightarrow> string \<Rightarrow> state \<Rightarrow> value res" where
  "eval_function1 name arg p st =
     (if name_equals name ''SIN'' then Some (make_num (sin (num arg)), close_paren p, ensure_num arg st)
      else if name_equals name ''COS'' then Some (make_num (cos (num arg)), close_paren p, ensure_num arg st)
      else if name_equals name ''TAN'' then Some (make_num (tan (num arg)), close_paren p, ensure_num arg st)
      else if name_equals name ''ATN'' then Some (make_num (arctan (num arg)), close_paren p, ensure_num arg st)
      else if name_equals name ''ABS'' then Some (make_num \<bar>num arg\<bar>, close_paren p, ensure_num arg st)
      else if name_equals name ''INT'' then
        Some (make_num (of_int \<lfloor>num arg\<rfloor>), close_paren p, ensure_num arg st)
      else if name_equals name ''SQR'' then Some (make_num (sqrt (num arg)), close_paren p, ensure_num arg st)
      else if name_equals name ''SGN'' then
        Some ((if num arg > 0 then make_num 1 else if num arg < 0 then make_num (- 1) else make_num 0),
              close_paren p, ensure_num arg st)
      else if name_equals name ''EXP'' then Some (make_num (exp (num arg)), close_paren p, ensure_num arg st)
      else if name_equals name ''LOG'' then Some (make_num (ln (num arg)), close_paren p, ensure_num arg st)
      else if name_equals name ''RND'' then
        (let st1 = ensure_num arg st;
             st2 = (if num arg < 0 then st1\<lparr>rand_seed := to_uint (- num arg), rand_calls := 0\<rparr>
                    else st1)
         in Some (make_num (host_rand st2 (rand_seed st2) (rand_calls st2)), close_paren p,
                  st2\<lparr>rand_calls := rand_calls st2 + 1\<rparr>))
      else if name_equals name ''LEN'' then
        Some (make_num (real (length (str arg))), close_paren p, ensure_str arg st)
      else if name_equals name ''VAL'' then
        Some (make_num (c_atof (str arg)), close_paren p, ensure_str arg st)
      else if name_equals name ''STR$'' then
        Some (make_str (host_g st (num arg)), close_paren p, ensure_num arg st)
      else if name_equals name ''CHR$'' then
        (let c = (char_of (to_int (num arg) AND 255) :: char)
         in Some (make_str (if c = CHR 0x00 then [] else [c]), close_paren p, ensure_num arg st))
      else if name_equals name ''ASC'' then
        Some ((if str arg = [] then make_num 0 else make_num (real (of_char (hd (str arg)) :: nat))),
              close_paren p, ensure_str arg st)
      else if name_equals name ''NOT'' then
        Some (make_num (of_int (NOT (to_int (num arg)))), close_paren p, ensure_num arg st)
      else if name_equals name ''FRE'' then Some (make_num 32768, close_paren p, st)
      else if name_equals name ''POS'' then
        Some (make_num (of_int (print_col st + 1)), close_paren p, st)
      else if name_equals name ''TAB'' then
        Some (make_str [], close_paren p, tab_to (to_int (num arg)) (ensure_num arg st))
      else None)"

text \<open>
  What \<open>LEFT$\<close>, \<open>RIGHT$\<close>, \<open>MID$\<close> (with its optional third argument) and \<open>INSTR\<close>
  compute once their arguments are evaluated, and what \<open>+\<close> does to two values
  when one of them is a string (\<open>strncat\<close> into the left buffer).
\<close>

definition fn_left :: "value \<Rightarrow> value \<Rightarrow> value" where
  "fn_left arg len_val =
     (let len0 = to_int (num len_val);
          slen = int (length (str arg));
          len1 = (if len0 < 0 then 0 else len0);
          len = (if len1 > slen then slen else len1)
      in make_str (take (nat len) (str arg)))"

definition fn_right :: "value \<Rightarrow> value \<Rightarrow> value" where
  "fn_right arg len_val =
     (let len0 = to_int (num len_val);
          slen = int (length (str arg));
          len1 = (if len0 < 0 then 0 else len0);
          len = (if len1 > slen then slen else len1);
          start = slen - len
      in make_str (drop (nat start) (str arg)))"

definition fn_mid :: "value \<Rightarrow> value \<Rightarrow> value option \<Rightarrow> value" where
  "fn_mid arg start_val len_opt =
     (let start0 = to_int (num start_val);
          slen = int (length (str arg));
          len0 = (case len_opt of Some len_val \<Rightarrow> to_int (num len_val) | None \<Rightarrow> slen);
          start = (if start0 < 1 then 1 else start0) - 1
      in if start \<ge> slen then make_str []
         else (let len1 = (if len0 < 0 then 0 else len0);
                   len = (if start + len1 > slen then slen - start else len1)
               in make_str (take (nat len) (drop (nat start) (str arg)))))"

definition fn_instr :: "value \<Rightarrow> value \<Rightarrow> value" where
  "fn_instr arg needle_val =
     (case c_strstr (str arg) (str needle_val) of
        Some off \<Rightarrow> make_num (real (off + 1))
      | None \<Rightarrow> make_num 0)"

definition concat_values :: "value \<Rightarrow> value \<Rightarrow> value" where
  "concat_values left right =
     left\<lparr>str := str left @ take (MAX_STR_LEN - length (str left) - 1) (str right)\<rparr>"

definition neg_one_if :: "bool \<Rightarrow> value" where
  "neg_one_if b = make_num (if b then - 1 else 0)"

text \<open>
  \<open>eval_function\<close> and \<open>get_var_reference\<close> call the evaluator of a whole
  expression for their arguments; it is the parameter \<open>ev\<close>.
\<close>

type_synonym evaluator = "string \<Rightarrow> state \<Rightarrow> value res"

definition eval_function :: "evaluator \<Rightarrow> string \<Rightarrow> string \<Rightarrow> state \<Rightarrow> value res" where
  "eval_function ev name p0 st =
     (let p1 = skip_spaces (snd (read_identifier p0 16)) in
      if peek p1 \<noteq> CHR ''('' then
        Some (make_num 0, p1, runtime_error (''Function requires '' @ quoted ''('') st)
      else do {
        (arg, p2, st1) \<leftarrow> ev (tl p1) st;
        let p = skip_spaces p2;
        case eval_function1 name arg p st1 of
          Some r \<Rightarrow> Some r
        | None \<Rightarrow>
            if name_equals name ''LEFT$'' then
              (let st2 = ensure_str arg st1; q = skip_spaces p in
               if peek q \<noteq> CHR '','' then
                 Some (make_str [], q, runtime_error ''LEFT$ requires two arguments'' st2)
               else do {
                 (len_val, q1, st3) \<leftarrow> ev (tl q) st2;
                 Some (fn_left arg len_val, close_paren (skip_spaces q1), ensure_num len_val st3)
               })
            else if name_equals name ''RIGHT$'' then
              (let st2 = ensure_str arg st1; q = skip_spaces p in
               if peek q \<noteq> CHR '','' then
                 Some (make_str [], q, runtime_error ''RIGHT$ requires two arguments'' st2)
               else do {
                 (len_val, q1, st3) \<leftarrow> ev (tl q) st2;
                 Some (fn_right arg len_val, close_paren (skip_spaces q1), ensure_num len_val st3)
               })
            else if name_equals name ''MID$'' then
              (let st2 = ensure_str arg st1; q = skip_spaces p in
               if peek q \<noteq> CHR '','' then
                 Some (make_str [], q, runtime_error ''MID$ requires at least two arguments'' st2)
               else do {
                 (start_val, q1, st3) \<leftarrow> ev (tl q) st2;
                 let st4 = ensure_num start_val st3;
                 let q2 = skip_spaces q1;
                 if peek q2 = CHR '','' then do {
                   (len_val, q3, st5) \<leftarrow> ev (tl q2) st4;
                   Some (fn_mid arg start_val (Some len_val), close_paren (skip_spaces q3),
                         ensure_num len_val st5)
                 } else Some (fn_mid arg start_val None, close_paren (skip_spaces q2), st4)
               })
            else if name_equals name ''INSTR'' then
              (let st2 = ensure_str arg st1; q = skip_spaces p in
               if peek q \<noteq> CHR '','' then
                 Some (make_num 0, q, runtime_error ''INSTR requires two arguments'' st2)
               else do {
                 (needle_val, q1, st3) \<leftarrow> ev (tl q) st2;
                 Some (fn_instr arg needle_val, close_paren (skip_spaces q1), ensure_str needle_val st3)
               })
            else Some (make_num 0, p, runtime_error ''Unknown function'' st1)
      })"

text \<open>
  \<open>get_var_reference\<close> returns the slot (or the null pointer) together with
  the two flags it writes through \<open>is_array_out\<close> and \<open>is_string_out\<close>.
\<close>

definition get_var_reference ::
    "evaluator \<Rightarrow> string \<Rightarrow> state \<Rightarrow> (slot option \<times> bool \<times> bool) res" where
  "get_var_reference ev p0 st =
     (let p1 = skip_spaces p0 in
      if \<not> c_isalpha (peek p1) then
        Some ((None, False, False), p1, runtime_error ''Expected variable'' st)
      else
        (let (namebuf, p2) = read_identifier p1 16;
             (n1, n2, is_str) = uppercase_name namebuf;
             p3 = skip_spaces p2
         in if peek p3 = CHR ''('' then do {
              (idx_val, p4, st1) \<leftarrow> ev (tl p3) st;
              let st2 = ensure_num idx_val st1;
              let p5 = skip_spaces p4;
              if peek p5 \<noteq> CHR '')'' then
                Some ((None, True, is_str), p5, runtime_error (''Missing '' @ quoted '')'') st2)
              else
                (let array_index = to_int (num idx_val + 0.00001) in
                 if array_index < 0 then
                   Some ((None, True, is_str), tl p5, runtime_error ''Negative array index'' st2)
                 else
                   (let array_size = (if array_index + 1 < DEFAULT_ARRAY_SIZE
                                      then DEFAULT_ARRAY_SIZE else array_index + 1)
                    in case find_or_create_var n1 n2 is_str True array_size st2 of
                         (None, st3) \<Rightarrow> Some ((None, True, is_str), tl p5, st3)
                       | (Some i, st3) \<Rightarrow>
                           (let (valp, st4) = select_slot i True is_str array_index make_str st3
                            in Some ((Some valp, True, is_str), tl p5, st4))))
            }
            else
              (case find_or_create_var n1 n2 is_str False 0 st of
                 (None, st3) \<Rightarrow> Some ((None, False, is_str), p3, st3)
               | (Some i, st3) \<Rightarrow>
                   (let (valp, st4) = select_slot i False is_str (- 1) make_str st3
                    in Some ((Some valp, False, is_str), p3, st4)))))"

text \<open>
  The levels of the grammar.  Each takes \<open>ev\<close> and a fuel that bounds its own
  recursion (the unary sign, the right operand of \<open>^\<close>, the \<open>for (;;)\<close> loops).
\<close>

fun eval_factor :: "evaluator \<Rightarrow> nat \<Rightarrow> string \<Rightarrow> state \<Rightarrow> value res" where
  "eval_factor ev 0 p st = None"
| "eval_factor ev (Suc n) p0 st =
     (let p = skip_spaces p0 in
      if peek p = CHR ''('' then do {
        (v, p1, st1) \<leftarrow> ev (tl p) st;
        let p2 = skip_spaces p1;
        if peek p2 = CHR '')'' then Some (v, tl p2, st1)
        else Some (v, p2, runtime_error (''Missing '' @ quoted '')'') st1)
      }
      else if peek p = CHR 0x22 then
        (let i = min (length (takeWhile (\<lambda>c. c \<noteq> CHR 0x22) (tl p))) (MAX_STR_LEN - 1);
             buf = take i (tl p);
             p1 = drop i (tl p)
         in if peek p1 = CHR 0x22 then Some (make_str buf, tl p1, st)
            else Some (make_str buf, p1, runtime_error ''Unterminated string'' st))
      else if c_isalpha (peek p) then
        (if is_function_name p then eval_function ev (fst (read_identifier p 16)) p st
         else do {
           ((vp, is_arr, is_str), p1, st1) \<leftarrow> get_var_reference ev p st;
           case vp of
             None \<Rightarrow> Some (make_num 0, p1, st1)
           | Some r \<Rightarrow> Some (get_slot st1 r, p1, st1)
         })
      else if peek p = CHR ''+'' \<or> peek p = CHR ''-'' then do {
        (inner, p1, st1) \<leftarrow> eval_factor ev n (tl p) st;
        let st2 = ensure_num inner st1;
        Some ((if peek p = CHR ''-'' then inner\<lparr>num := - num inner\<rparr> else inner), p1, st2)
      }
      else
        (case parse_number_literal p of
           Some (x, q) \<Rightarrow> Some (make_num x, q, st)
         | None \<Rightarrow> Some (make_num 0, p, runtime_error ''Syntax error in expression'' st)))"

fun eval_power :: "evaluator \<Rightarrow> nat \<Rightarrow> string \<Rightarrow> state \<Rightarrow> value res" where
  "eval_power ev 0 p st = None"
| "eval_power ev (Suc n) p st = do {
     (left, p1, st1) \<leftarrow> eval_factor ev (Suc n) (skip_spaces p) st;
     let p2 = skip_spaces p1;
     if peek p2 = CHR ''^'' then do {
       (right, p3, st2) \<leftarrow> eval_power ev n (tl p2) st1;
       let st3 = ensure_num right (ensure_num left st2);
       Some (left\<lparr>num := c_pow (num left) (num right)\<rparr>, p3, st3)
     } else Some (left, p2, st1)
   }"

fun eval_term_loop :: "evaluator \<Rightarrow> nat \<Rightarrow> nat \<Rightarrow> value \<Rightarrow> string \<Rightarrow> state \<Rightarrow> value res" where
  "eval_term_loop ev m 0 left p st = None"
| "eval_term_loop ev m (Suc n) left p0 st =
     (let p = skip_spaces p0 in
      if peek p = CHR ''*'' \<or> peek p = CHR ''/'' then do {
        (right, p1, st1) \<leftarrow> eval_power ev m (tl p) st;
        let st2 = ensure_num right (ensure_num left st1);
        eval_term_loop ev m n
          (left\<lparr>num := (if peek p = CHR ''*'' then num left * num right else num left / num right)\<rparr>)
          p1 st2
      } else Some (left, p, st))"

definition eval_term :: "evaluator \<Rightarrow> nat \<Rightarrow> string \<Rightarrow> state \<Rightarrow> value res" where
  "eval_term ev n p st = do {
     (left, p1, st1) \<leftarrow> eval_power ev n (skip_spaces p) st;
     eval_term_loop ev n n left p1 st1
   }"

fun eval_expr_loop :: "evaluator \<Rightarrow> nat \<Rightarrow> nat \<Rightarrow> value \<Rightarrow> string \<Rightarrow> state \<Rightarrow> value res" where
  "eval_expr_loop ev m 0 left p st = None"
| "eval_expr_loop ev m (Suc n) left p0 st =
     (let p = skip_spaces p0 in
      if peek p = CHR ''+'' \<or> peek p = CHR ''-'' then do {
        (right, p1, st1) \<leftarrow> eval_term ev m (tl p) st;
        if peek p = CHR ''+'' then
          (if type left = VAL_STR \<or> type right = VAL_STR then
             eval_expr_loop ev m n (concat_values left right) p1 (ensure_str right (ensure_str left st1))
           else eval_expr_loop ev m n (left\<lparr>num := num left + num right\<rparr>) p1 st1)
        else
          eval_expr_loop ev m n (left\<lparr>num := num left - num right\<rparr>) p1
            (ensure_num right (ensure_num left st1))
      } else Some (left, p, st))"

definition eval_expr :: "evaluator \<Rightarrow> nat \<Rightarrow> string \<Rightarrow> state \<Rightarrow> value res" where
  "eval_expr ev n p st = do {
     (left, p1, st1) \<leftarrow> eval_term ev n (skip_spaces p) st;
     eval_expr_loop ev n n left p1 st1
   }"

definition eval_comparison :: "evaluator \<Rightarrow> nat \<Rightarrow> string \<Rightarrow> state \<Rightarrow> value res" where
  "eval_comparison ev n p st = do {
     (left, p1, st1) \<leftarrow> eval_expr ev n (skip_spaces p) st;
     let p2 = skip_spaces p1;
     let op1 = peek p2;
     let op2 = peek (tl p2);
     if op1 = CHR ''<'' \<and> op2 = CHR ''>'' then do {
       (right, p3, st2) \<leftarrow> eval_expr ev n (drop 2 p2) st1;
       if type left = VAL_STR \<or> type right = VAL_STR then
         Some (neg_one_if (c_strcmp (str left) (str right) \<noteq> 0), p3,
               ensure_str right (ensure_str left st2))
       else Some (neg_one_if (num left \<noteq> num right), p3, st2)
     }
     else if op1 = CHR ''<'' \<and> op2 = CHR ''='' then do {
       (right, p3, st2) \<leftarrow> eval_expr ev n (drop 2 p2) st1;
       Some (neg_one_if (num left \<le> num right), p3, ensure_num right (ensure_num left st2))
     }
     else if op1 = CHR ''>'' \<and> op2 = CHR ''='' then do {
       (right, p3, st2) \<leftarrow> eval_expr ev n (drop 2 p2) st1;
       Some (neg_one_if (num left \<ge> num right), p3, ensure_num right (ensure_num left st2))
     }
     else if op1 = CHR ''<'' then do {
       (right, p3, st2) \<leftarrow> eval_expr ev n (tl p2) st1;
       if type left = VAL_STR \<or> type right = VAL_STR then
         Some (neg_one_if (c_strcmp (str left) (str right) < 0), p3,
               ensure_str right (ensure_str left st2))
       else Some (neg_one_if (num left < num right), p3, st2)
     }
     else if op1 = CHR ''>'' then do {
       (right, p3, st2) \<leftarrow> eval_expr ev n (tl p2) st1;
       if type left = VAL_STR \<or> type right = VAL_STR then
         Some (neg_one_if (c_strcmp (str left) (str right) > 0), p3,
               ensure_str right (ensure_str left st2))
       else Some (neg_one_if (num left > num right), p3, st2)
     }
     else if op1 = CHR ''='' then do {
       (right, p3, st2) \<leftarrow> eval_expr ev n (tl p2) st1;
       if type left = VAL_STR \<or> type right = VAL_STR then
         Some (neg_one_if (c_strcmp (str left) (str right) = 0), p3,
               ensure_str right (ensure_str left st2))
       else Some (neg_one_if (num left = num right), p3, st2)
     }
     else Some (left, p2, st1)
   }"

fun eval_and_loop :: "evaluator \<Rightarrow> nat \<Rightarrow> nat \<Rightarrow> value \<Rightarrow> string \<Rightarrow> state \<Rightarrow> value res" where
  "eval_and_loop ev m 0 left p st = None"
| "eval_and_loop ev m (Suc n) left p0 st =
     (let p = skip_spaces p0 in
      if starts_with_kw p ''AND'' then do {
        (right, p1, st1) \<leftarrow> eval_comparison ev m (drop 3 p) st;
        let st2 = ensure_num right (ensure_num left st1);
        eval_and_loop ev m n (left\<lparr>num := of_int (to_int (num left) AND to_int (num right))\<rparr>) p1 st2
      } else Some (left, p, st))"

definition eval_and_expr :: "evaluator \<Rightarrow> nat \<Rightarrow> string \<Rightarrow> state \<Rightarrow> value res" where
  "eval_and_expr ev n p st = do {
     (left, p1, st1) \<leftarrow> eval_comparison ev n (skip_spaces p) st;
     eval_and_loop ev n n left p1 st1
   }"

fun eval_or_loop :: "evaluator \<Rightarrow> nat \<Rightarrow> nat \<Rightarrow> value \<Rightarrow> string \<Rightarrow> state \<Rightarrow> value res" where
  "eval_or_loop ev m 0 left p st = None"
| "eval_or_loop ev m (Suc n) left p0 st =
     (let p = skip_spaces p0 in
      if starts_with_kw p ''OR'' then do {
        (right, p1, st1) \<leftarrow> eval_and_expr ev m (drop 2 p) st;
        let st2 = ensure_num right (ensure_num left st1);
        eval_or_loop ev m n (left\<lparr>num := of_int (to_int (num left) OR to_int (num right))\<rparr>) p1 st2
      } else Some (left, p, st))"

text \<open>
  \<open>eval_or_expr\<close> with fuel \<open>n\<close>: the fuel bounds the nesting of parentheses,
  arguments and subscripts, and at each depth the recursion of the levels above.
\<close>

fun eval_or_expr :: "nat \<Rightarrow> string \<Rightarrow> state \<Rightarrow> value res" where
  "eval_or_expr 0 p st = None"
| "eval_or_expr (Suc n) p st = do {
     (left, p1, st1) \<leftarrow> eval_and_expr (eval_or_expr n) (Suc n) (skip_spaces p) st;
     eval_or_loop (eval_or_expr n) (Suc n) (Suc n) left p1 st1
   }"

section \<open>Line lookup\<close>

text \<open>Classic build: \<open>find_line_index\<close> scans the store from index 0.\<close>

fun find_line_scan :: "line list \<Rightarrow> int \<Rightarrow> int \<Rightarrow> int" where
  "find_line_scan [] i n = -1"
| "find_line_scan (l # ls) i n = (if number l = n then i else find_line_scan ls (i + 1) n)"

definition find_line_index :: "int \<Rightarrow> state \<Rightarrow> int" where
  "find_line_index n st = find_line_scan (program_lines st) 0 n"

text \<open>
  \<open>basic.c\<close>: the cache is consulted first; otherwise the \<open>while (low <= high)\<close>
  loop halves the interval, and a hit stores the pair in the cache.  \<open>low\<close> starts
  at 0 and never decreases, so \<open>low + high\<close> is not negative inside the loop and
  C's division agrees with \<open>div\<close>.
\<close>

function opt_find_loop :: "int \<Rightarrow> int \<Rightarrow> int \<Rightarrow> state \<Rightarrow> int \<times> state" where
  "opt_find_loop n low high st =
     (if low \<le> high then
        (let mid = (low + high) div 2 in
         if number (program_lines st ! nat mid) = n then
           (mid, st\<lparr>last_lookup_num := n, last_lookup_idx := mid\<rparr>)
         else if number (program_lines st ! nat mid) < n then opt_find_loop n (mid + 1) high st
         else opt_find_loop n low (mid - 1) st)
      else (-1, st))"
  by pat_completeness auto
termination
  by (relation "measure (\<lambda>(n, low, high, st). nat (high - low + 1))") auto

declare opt_find_loop.simps [simp del]

definition opt_find_line_index :: "int \<Rightarrow> state \<Rightarrow> int \<times> state" where
  "opt_find_line_index n st =
     (if n = last_lookup_num st then (last_lookup_idx st, st)
      else opt_find_loop n 0 (line_count st - 1) st)"

text \<open>A sequence of lookups, each starting from the cache the previous one left.\<close>

fun opt_lookups :: "int list \<Rightarrow> state \<Rightarrow> int list \<times> state" where
  "opt_lookups [] st = ([], st)"
| "opt_lookups (n # ns) st =
     (let (r, st1) = opt_find_line_index n st;
          (rs, st2) = opt_lookups ns st1
      in (r # rs, st2))"

text \<open>
  The store a successful load of \<open>basic.c\<close> leaves: at most 512 lines, every
  number within 0..65535 (the loader rejects the others), strictly increasing
  after \<open>sort_program\<close>.
\<close>

definition loaded_store :: "line list \<Rightarrow> bool" where
  "loaded_store ls \<longleftrightarrow>
     length ls \<le> 512 \<and> list_all (\<lambda>l. 0 \<le> number l \<and> number l \<le> 65535) ls \<and>
     sorted_wrt (<) (map number ls)"

section \<open>Statements (classic build)\<close>

text \<open>
  \<open>run_program\<close> calls \<open>execute_statement(&statement_pos)\<close>: the cursor \<open>*p\<close> of a
  statement is the global \<open>statement_pos\<close> itself.  A statement therefore takes
  the cursor and returns the state alone; the cursor it leaves is the
  \<open>statement_pos\<close> of that state, and \<open>statement_pos = NULL\<close> overwrites it.
\<close>

definition set_pos :: "string \<Rightarrow> state \<Rightarrow> state" where
  "set_pos p st = st\<lparr>statement_pos := Some p\<rparr>"

text \<open>The \<open>int\<close> a C comparison yields.\<close>

definition c_bool :: "bool \<Rightarrow> int" where
  "c_bool b = (if b then 1 else 0)"

definition eval_condition :: "nat \<Rightarrow> string \<Rightarrow> state \<Rightarrow> int res" where
  "eval_condition n p st = do {
     (result, p1, st1) \<leftarrow> eval_or_expr n (skip_spaces p) st;
     if type result = VAL_STR then Some (c_bool (length (str result) > 0), p1, st1)
     else Some (c_bool (num result \<noteq> 0), p1, st1)
   }"

definition statement_rem :: "string \<Rightarrow> state \<Rightarrow> state" where
  "statement_rem p st = set_pos [] st"

fun statement_print_loop :: "nat \<Rightarrow> nat \<Rightarrow> bool \<Rightarrow> string \<Rightarrow> state \<Rightarrow> (bool \<times> string \<times> state) option" where
  "statement_print_loop m 0 newline p st = None"
| "statement_print_loop m (Suc n) newline p0 st =
     (let p = skip_spaces p0 in
      if peek p = CHR 0x00 \<or> peek p = CHR '':'' then Some (newline, p, st)
      else do {
        (v, p1, st1) \<leftarrow> eval_or_expr m p st;
        let st2 = print_value v st1;
        let p2 = skip_spaces p1;
        if peek p2 = CHR '';'' then statement_print_loop m n False (tl p2) st2
        else if peek p2 = CHR '','' then
          (let zone = 10;
               nextcol0 = ((print_col st2 div zone) + 1) * zone;
               nextcol = (if nextcol0 < print_col st2 then print_col st2 else nextcol0)
           in statement_print_loop m n False (tl p2) (print_spaces (nextcol - print_col st2) st2))
        else Some (True, p2, st2)
      })"

definition statement_print :: "nat \<Rightarrow> string \<Rightarrow> state \<Rightarrow> state option" where
  "statement_print n p st = do {
     (newline, p1, st1) \<leftarrow> statement_print_loop n n True p st;
     Some (set_pos p1 (if newline then (put_char CHR 0x0A st1)\<lparr>print_col := 0\<rparr> else st1))
   }"

fun statement_input_loop :: "nat \<Rightarrow> nat \<Rightarrow> string \<Rightarrow> bool \<Rightarrow> string \<Rightarrow> state \<Rightarrow> state option" where
  "statement_input_loop m 0 prompt first_prompt p st = None"
| "statement_input_loop m (Suc n) prompt first_prompt p0 st =
     (let p = skip_spaces p0 in
      if peek p = CHR 0x00 \<or> peek p = CHR '':'' then Some (set_pos p st)
      else if \<not> c_isalpha (peek p) then
        Some (set_pos p (runtime_error ''Expected variable in INPUT'' st))
      else do {
        ((vp, is_arr, is_str), p1, st1) \<leftarrow> get_var_reference (eval_or_expr m) p st;
        case vp of
          None \<Rightarrow> Some (set_pos p1 st1)
        | Some r \<Rightarrow>
            (let st2 = st1\<lparr>out := out st1 @ (if prompt \<noteq> [] \<and> first_prompt then prompt else [])
                                  @ ''? ''\<rparr>
             in case c_fgets MAX_LINE_LEN (inp st2) of
                  None \<Rightarrow> Some (set_pos p1 (runtime_error ''Unexpected end of input'' st2))
                | Some (linebuf, rest) \<Rightarrow>
                    (let st3 = st2\<lparr>inp := rest\<rparr>;
                         st4 = set_slot r (if is_str then make_str (trim_newline linebuf)
                                           else make_num (c_atof (trim_newline linebuf))) st3;
                         p2 = skip_spaces p1
                     in if peek p2 = CHR '','' then statement_input_loop m n prompt False (tl p2) st4
                        else Some (set_pos p2 st4)))
      })"

definition statement_input :: "nat \<Rightarrow> string \<Rightarrow> state \<Rightarrow> state option" where
  "statement_input n p0 st =
     (let p = skip_spaces p0 in
      if peek p = CHR 0x22 then do {
        (s, p1, st1) \<leftarrow> eval_factor (eval_or_expr n) (Suc n) p st;
        let st2 = ensure_str s st1;
        let p2 = skip_spaces p1;
        statement_input_loop n n (take (MAX_STR_LEN - 1) (str s)) True
          (if peek p2 = CHR '';'' \<or> peek p2 = CHR '','' then tl p2 else p2) st2
      }
      else statement_input_loop n n [] True p st)"

definition statement_let :: "nat \<Rightarrow> string \<Rightarrow> state \<Rightarrow> state option" where
  "statement_let n p st = do {
     ((vp, is_arr, is_str), p1, st1) \<leftarrow> get_var_reference (eval_or_expr n) p st;
     case vp of
       None \<Rightarrow> Some (set_pos p1 st1)
     | Some r \<Rightarrow>
         (let p2 = skip_spaces p1 in
          if peek p2 \<noteq> CHR ''='' then
            Some (set_pos p2 (runtime_error (''Expected '' @ quoted ''='') st1))
          else do {
            (rhs, p3, st2) \<leftarrow> eval_or_expr n (tl p2) st1;
            if is_str then Some (set_pos p3 (set_slot r (rhs\<lparr>type := VAL_STR\<rparr>) (ensure_str rhs st2)))
            else Some (set_pos p3 (set_slot r (rhs\<lparr>type := VAL_NUM\<rparr>) (ensure_num rhs st2)))
          })
   }"

definition statement_goto :: "string \<Rightarrow> state \<Rightarrow> state" where
  "statement_goto p0 st =
     (let p = skip_spaces p0;
          line_number = c_atoi p;
          st1 = set_pos (skip_digits p) st;
          st2 = st1\<lparr>current_line := find_line_index line_number st1\<rparr>
      in if current_line st2 < 0 then runtime_error ''Target line not found'' st2
         else st2\<lparr>statement_pos := None\<rparr>)"

definition statement_gosub :: "string \<Rightarrow> state \<Rightarrow> state" where
  "statement_gosub p0 st =
     (if gosub_top st \<ge> MAX_GOSUB then set_pos p0 (runtime_error ''GOSUB stack overflow'' st)
      else
        (let p = skip_spaces p0;
             target = c_atoi p;
             return_pos = skip_digits p;
             st1 = set_pos return_pos st;
             st2 = st1\<lparr>gosub_stack := gosub_stack st1 @
                        [\<lparr>g_line_index = current_line st1, g_position = return_pos\<rparr>]\<rparr>;
             st3 = st2\<lparr>current_line := find_line_index target st2\<rparr>
         in if current_line st3 < 0 then runtime_error ''Target line not found'' st3
            else st3\<lparr>statement_pos := None\<rparr>))"

definition statement_return :: "string \<Rightarrow> state \<Rightarrow> state" where
  "statement_return p st =
     (if gosub_top st \<le> 0 then set_pos p (runtime_error ''RETURN without GOSUB'' st)
      else
        (let fr = last (gosub_stack st)
         in st\<lparr>gosub_stack := butlast (gosub_stack st),
               current_line := g_line_index fr,
               statement_pos := Some (g_position fr)\<rparr>))"

definition statement_if :: "nat \<Rightarrow> string \<Rightarrow> state \<Rightarrow> state option" where
  "statement_if n p0 st = do {
     (cond_true, p1, st1) \<leftarrow> eval_condition n p0 st;
     let p2 = skip_spaces p1;
     if \<not> starts_with_kw p2 ''THEN'' then Some (set_pos p2 (runtime_error ''Missing THEN'' st1))
     else
       (let p3 = skip_spaces (drop 4 p2) in
        if cond_true = 0 then Some (set_pos [] st1)
        else if c_isdigit (peek p3) then
          (let target = c_atoi p3;
               st2 = set_pos (skip_digits p3) st1;
               st3 = st2\<lparr>current_line := find_line_index target st2\<rparr>
           in if current_line st3 < 0 then Some (runtime_error ''Target line not found'' st3)
              else Some (st3\<lparr>statement_pos := None\<rparr>))
        else Some (set_pos (skip_spaces p3) st1))
   }"

text \<open>
  The search of \<open>statement_for\<close> through the variable table for the owner of
  the slot \<open>vp\<close>, comparing addresses.
\<close>

fun owner_of :: "var list \<Rightarrow> nat \<Rightarrow> slot \<Rightarrow> nat option" where
  "owner_of [] i vp = None"
| "owner_of (v # vs) i vp =
     (if (case vp of Scalar j \<Rightarrow> j = i | Elem j k \<Rightarrow> j = i \<and> is_array v \<and> int k < size v)
      then Some i else owner_of vs (Suc i) vp)"

definition statement_for :: "nat \<Rightarrow> string \<Rightarrow> state \<Rightarrow> state option" where
  "statement_for n p0 st =
     (if for_top st \<ge> MAX_FOR then Some (set_pos p0 (runtime_error ''FOR stack overflow'' st))
      else do {
        ((vp, is_arr, is_str), p1, st1) \<leftarrow> get_var_reference (eval_or_expr n) p0 st;
        case vp of
          None \<Rightarrow> Some (set_pos p1 st1)
        | Some r \<Rightarrow>
            if is_arr then Some (set_pos p1 (runtime_error ''FOR variable must be scalar'' st1))
            else if is_str then Some (set_pos p1 (runtime_error ''FOR variable must be numeric'' st1))
            else
              (let p2 = skip_spaces p1 in
               if peek p2 \<noteq> CHR ''='' then
                 Some (set_pos p2 (runtime_error (''Expected '' @ quoted ''='' @ '' in FOR'') st1))
               else do {
                 (startv, p3, st2) \<leftarrow> eval_or_expr n (tl p2) st1;
                 let st3 = ensure_num startv st2;
                 let p4 = skip_spaces p3;
                 if \<not> starts_with_kw p4 ''TO'' then
                   Some (set_pos p4 (runtime_error ''Expected TO in FOR'' st3))
                 else do {
                   (endv, p5, st4) \<leftarrow> eval_or_expr n (drop 2 p4) st3;
                   let st5 = ensure_num endv st4;
                   let p6 = skip_spaces p5;
                   (stepv, p7, st6) \<leftarrow>
                     (if starts_with_kw p6 ''STEP'' then do {
                        (sv, q, s1) \<leftarrow> eval_or_expr n (drop 4 p6) st5;
                        Some (sv, q, ensure_num sv s1)
                      } else Some (make_num 1, p6, st5));
                   let st7 = set_slot r startv st6;
                   let (fn1, fn2) =
                     (case (if var_count st7 > 0 then owner_of (vars st7) 0 r else None) of
                        Some i \<Rightarrow> (name1 (vars st7 ! i), name2 (vars st7 ! i))
                      | None \<Rightarrow> (CHR '' '', CHR '' ''));
                   Some (set_pos p7
                     (st7\<lparr>for_stack := for_stack st7 @
                        [\<lparr>f_name1 = fn1, f_name2 = fn2, f_is_string = is_str,
                          f_end_value = num endv, f_step = num stepv,
                          f_line_index = current_line st7, f_resume_pos = p7,
                          f_var = Some r\<rparr>]\<rparr>))
                 }
               })
      })"

text \<open>The downward search of \<open>statement_next\<close>, from \<open>for_top - 1\<close> to 0.\<close>

fun find_for_frame :: "for_frame list \<Rightarrow> nat \<Rightarrow> string \<Rightarrow> char \<Rightarrow> char \<Rightarrow> int" where
  "find_for_frame fs 0 namebuf n1 n2 = - 1"
| "find_for_frame fs (Suc i) namebuf n1 n2 =
     (if namebuf = [] \<or> (f_name1 (fs ! i) = n1 \<and> f_name2 (fs ! i) = n2) then int i
      else find_for_frame fs i namebuf n1 n2)"

text \<open>The test of \<open>statement_next\<close> on the loop variable after the step is added.\<close>

definition loop_continues :: "for_frame \<Rightarrow> real \<Rightarrow> bool" where
  "loop_continues fr x \<longleftrightarrow>
     (f_step fr \<ge> 0 \<and> x \<le> f_end_value fr) \<or> (f_step fr < 0 \<and> x \<ge> f_end_value fr)"

text \<open>
  The first lines of \<open>statement_next\<close>: the identifier after \<open>NEXT\<close>, empty when
  no letter follows, and the cursor after it.
\<close>

definition next_ident :: "nat \<Rightarrow> string \<Rightarrow> string \<times> string" where
  "next_ident buf_size p0 =
     (let p = skip_spaces p0 in if c_isalpha (peek p) then read_identifier p buf_size else ([], p))"

definition statement_next :: "string \<Rightarrow> state \<Rightarrow> state" where
  "statement_next p0 st =
     (let (namebuf, p1) = next_ident 16 p0;
          (n1, n2, is_str) = uppercase_name namebuf;
          st1 = set_pos p1 st;
          i = find_for_frame (for_stack st1) (length (for_stack st1)) namebuf n1 n2
      in if i < 0 then runtime_error ''NEXT without FOR'' st1
         else
           (let st2 = st1\<lparr>for_stack := take (nat (i + 1)) (for_stack st1)\<rparr>;
                fr = for_stack st2 ! nat i
            in case f_var fr of
                 None \<Rightarrow> runtime_error ''Loop variable missing'' st2
               | Some vp \<Rightarrow>
                   (let v = get_slot st2 vp;
                        st3 = set_slot vp (v\<lparr>num := num v + f_step fr\<rparr>) st2;
                        x = num (get_slot st3 vp)
                    in if loop_continues fr x
                       then st3\<lparr>current_line := f_line_index fr, statement_pos := Some (f_resume_pos fr)\<rparr>
                       else st3\<lparr>for_stack := butlast (for_stack st3)\<rparr>)))"

fun statement_dim_loop :: "nat \<Rightarrow> nat \<Rightarrow> string \<Rightarrow> state \<Rightarrow> state option" where
  "statement_dim_loop m 0 p st = None"
| "statement_dim_loop m (Suc n) p0 st =
     (let p = skip_spaces p0 in
      if \<not> c_isalpha (peek p) then Some (set_pos p (runtime_error ''Expected array name'' st))
      else
        (let (namebuf, p1) = read_identifier p 16;
             (n1, n2, is_str) = uppercase_name namebuf;
             p2 = skip_spaces p1
         in if peek p2 \<noteq> CHR ''('' then Some (set_pos p2 (runtime_error ''DIM requires size'' st))
            else do {
              (sizev, p3, st1) \<leftarrow> eval_or_expr m (tl p2) st;
              let st2 = ensure_num sizev st1;
              let sz = to_int (num sizev) + 1;
              if sz \<le> 0 then Some (set_pos p3 (runtime_error ''Invalid array size'' st2))
              else
                (let p4 = skip_spaces p3 in
                 if peek p4 \<noteq> CHR '')'' then
                   Some (set_pos p4 (runtime_error (''Missing '' @ quoted '')'') st2))
                 else
                   (let st3 = snd (find_or_create_var n1 n2 is_str True sz st2);
                        p5 = skip_spaces (tl p4)
                    in if peek p5 = CHR '','' then statement_dim_loop m n (tl p5) st3
                       else Some (set_pos p5 st3)))
            }))"

definition statement_dim :: "nat \<Rightarrow> string \<Rightarrow> state \<Rightarrow> state option" where
  "statement_dim n p st = statement_dim_loop n n p st"

text \<open>\<open>SLEEP\<close> changes nothing but the clock: \<open>do_sleep_ticks\<close> only waits.\<close>

definition statement_sleep :: "nat \<Rightarrow> string \<Rightarrow> state \<Rightarrow> state option" where
  "statement_sleep n p0 st =
     (let p = skip_spaces p0 in
      if peek p = CHR ''('' then do {
        (v, p1, st1) \<leftarrow> eval_or_expr n (tl p) st;
        let p2 = skip_spaces p1;
        if peek p2 = CHR '')'' then Some (set_pos (tl p2) (ensure_num v st1))
        else Some (set_pos p2 (runtime_error (''Missing '' @ quoted '')'') st1))
      }
      else do {
        (v, p1, st1) \<leftarrow> eval_or_expr n p st;
        Some (set_pos p1 (ensure_num v st1))
      })"

definition execute_statement :: "nat \<Rightarrow> string \<Rightarrow> state \<Rightarrow> state option" where
  "execute_statement n p0 st =
     (let p = skip_spaces p0 in
      if peek p = CHR 0x00 then Some (set_pos p st)
      else if starts_with_kw p ''REM'' then Some (statement_rem p st)
      else if peek p = CHR 0x27 then Some (statement_rem p st)
      else if starts_with_kw p ''PRINT'' \<or> peek p = CHR ''?'' then
        statement_print n (if peek p = CHR ''?'' then tl p else drop 5 p) st
      else if starts_with_kw p ''INPUT'' then statement_input n (drop 5 p) st
      else if starts_with_kw p ''LET'' then statement_let n (drop 3 p) st
      else if starts_with_kw p ''GOTO'' then Some (statement_goto (drop 4 p) st)
      else if starts_with_kw p ''GOSUB'' then Some (statement_gosub (drop 5 p) st)
      else if starts_with_kw p ''RETURN'' then Some (statement_return (drop 6 p) st)
      else if starts_with_kw p ''IF'' then statement_if n (drop 2 p) st
      else if starts_with_kw p ''FOR'' then statement_for n (drop 3 p) st
      else if starts_with_kw p ''NEXT'' then Some (statement_next (drop 4 p) st)
      else if starts_with_kw p ''DIM'' then statement_dim n (drop 3 p) st
      else if starts_with_kw p ''SLEEP'' then statement_sleep n (drop 5 p) st
      else if starts_with_kw p ''END'' \<or> starts_with_kw p ''STOP'' then
        Some (set_pos [] (st\<lparr>halted := True\<rparr>))
      else if c_isalpha (peek p) then statement_let n p st
      else Some (set_pos p (runtime_error ''Unknown statement'' st)))"

section \<open>Driver, loader and entry point (classic build)\<close>

text \<open>
  One iteration of the \<open>while\<close> loop of \<open>run_program\<close>, entered with the loop
  condition true.  The loop itself is bounded by fuel, since a BASIC program
  need not stop; each statement gets the fuel \<open>m\<close>.
\<close>

definition run_step :: "nat \<Rightarrow> state \<Rightarrow> state option" where
  "run_step m st =
     (let p0 = (case statement_pos st of
                  None \<Rightarrow> line_text (program_lines st ! nat (current_line st))
                | Some q \<Rightarrow> q);
          p = skip_spaces p0
      in if peek p = CHR 0x00 then
           Some (st\<lparr>current_line := current_line st + 1, statement_pos := None\<rparr>)
         else do {
           st2 \<leftarrow> execute_statement m p (set_pos p st);
           if halted st2 then Some st2
           else
             (case statement_pos st2 of
                None \<Rightarrow> Some st2
              | Some q \<Rightarrow>
                  (let q1 = skip_spaces q in
                   if peek q1 = CHR '':'' then Some (set_pos (tl q1) st2)
                   else if peek q1 = CHR 0x00 then
                     Some (st2\<lparr>current_line := current_line st2 + 1, statement_pos := None\<rparr>)
                   else Some (set_pos q1 st2)))
         })"

fun run_loop :: "nat \<Rightarrow> nat \<Rightarrow> state \<Rightarrow> state option" where
  "run_loop m 0 st = None"
| "run_loop m (Suc n) st =
     (if \<not> halted st \<and> current_line st \<ge> 0 \<and> current_line st < line_count st then do {
        st1 \<leftarrow> run_step m st;
        run_loop m n st1
      } else Some st)"

definition run_program :: "nat \<Rightarrow> state \<Rightarrow> state option" where
  "run_program n st =
     run_loop n n (st\<lparr>halted := False, current_line := 0, statement_pos := None, print_col := 0\<rparr>)"

fun replace_line :: "line list \<Rightarrow> int \<Rightarrow> string \<Rightarrow> line list option" where
  "replace_line [] n t = None"
| "replace_line (l # ls) n t =
     (if number l = n then Some (l\<lparr>line_text := t\<rparr> # ls)
      else map_option ((#) l) (replace_line ls n t))"

definition add_or_replace_line :: "int \<Rightarrow> string \<Rightarrow> state \<Rightarrow> state" where
  "add_or_replace_line n t st =
     (case replace_line (program_lines st) n t of
        Some ls \<Rightarrow> st\<lparr>program_lines := ls\<rparr>
      | None \<Rightarrow>
          if line_count st \<ge> MAX_LINES then runtime_error ''Program too large'' st
          else st\<lparr>program_lines := program_lines st @ [\<lparr>number = n, line_text = t\<rparr>]\<rparr>)"

text \<open>\<open>sort_program\<close>: for each \<open>i\<close>, every later \<open>j\<close> with a smaller number is swapped in.\<close>

fun sort_inner :: "nat \<Rightarrow> nat \<Rightarrow> nat \<Rightarrow> line list \<Rightarrow> line list" where
  "sort_inner 0 i j ls = ls"
| "sort_inner (Suc k) i j ls =
     sort_inner k i (Suc j)
       (if number (ls ! j) < number (ls ! i) then ls[i := ls ! j, j := ls ! i] else ls)"

fun sort_outer :: "nat \<Rightarrow> nat \<Rightarrow> line list \<Rightarrow> line list" where
  "sort_outer 0 i ls = ls"
| "sort_outer (Suc k) i ls = sort_outer k (Suc i) (sort_inner (length ls - Suc i) i (Suc i) ls)"

definition sort_program :: "state \<Rightarrow> state" where
  "sort_program st = st\<lparr>program_lines := sort_outer (length (program_lines st)) 0 (program_lines st)\<rparr>"

definition skip_bom :: "string \<Rightarrow> string" where
  "skip_bom p = (if take 3 p = [CHR 0xEF, CHR 0xBB, CHR 0xBF] then drop 3 p else p)"

text \<open>
  \<open>load_program\<close> reads the file chunk by chunk, as \<open>fgets\<close> delivers it;
  \<open>exit(1)\<close> is the result \<open>Inl\<close> with the exit code and the state at that
  moment.  A file is the text it holds; a path that cannot be opened has none.
\<close>

lemma c_fgets_shorter:
  assumes "c_fgets sz f = Some (raw, rest)" and "1 < sz"
  shows "length rest < length f"
proof -
  let ?l = "takeWhile (\<lambda>c. c \<noteq> CHR 0x0A) f"
  let ?k = "if length ?l < length f then length ?l + 1 else length ?l"
  from assms(1) have ne: "f \<noteq> []" and rest: "rest = drop (min ?k (sz - 1)) f"
    by (auto simp: c_fgets_def Let_def split: if_splits)
  have "length ?l \<le> length f" by (rule length_takeWhile_le)
  with ne have "0 < ?k" by (cases "length ?l < length f") auto
  with assms(2) have "0 < min ?k (sz - 1)" by simp
  with ne rest show ?thesis by simp
qed

function load_lines :: "string \<Rightarrow> state \<Rightarrow> (int \<times> state) + state" where
  "load_lines f st =
     (case c_fgets MAX_LINE_LEN f of
        None \<Rightarrow> Inr st
      | Some (raw, rest) \<Rightarrow>
          (let linebuf = trim_newline raw;
               p = skip_bom (skip_spaces linebuf)
           in if peek p = CHR 0x00 then load_lines rest st
              else if \<not> c_isdigit (peek p) then
                Inl (1, st\<lparr>err := err st @ ''Line missing number: '' @ linebuf @ [CHR 0x0A]\<rparr>)
              else
                (let n = c_atoi p;
                     p1 = skip_spaces (dropWhile (\<lambda>c. \<not> c_isspace c) p)
                 in load_lines rest (add_or_replace_line n p1 st))))"
  by pat_completeness auto
termination
  by (relation "measure (\<lambda>(f, st). length f)")
     (auto simp: MAX_LINE_LEN_def dest: c_fgets_shorter)

declare load_lines.simps [simp del]

definition load_program :: "string \<Rightarrow> string option \<Rightarrow> state \<Rightarrow> (int \<times> state) + state" where
  "load_program path file st =
     (case file of
        None \<Rightarrow> Inl (1, st\<lparr>err := err st @ ''Cannot open '' @ path @ [CHR 0x0A]\<rparr>)
      | Some f \<Rightarrow>
          (case load_lines f st of
             Inl e \<Rightarrow> Inl e
           | Inr st1 \<Rightarrow> Inr (sort_program st1)))"

text \<open>
  The state at program start: the static initialisers of the source, the text
  waiting on standard input, and the host.
\<close>

definition initial_state ::
    "string \<Rightarrow> (real \<Rightarrow> string) \<Rightarrow> (nat \<Rightarrow> nat \<Rightarrow> real) \<Rightarrow> (nat \<Rightarrow> value) \<Rightarrow> state" where
  "initial_state stdin_text g rnd fresh =
     \<lparr>program_lines = [], vars = [], gosub_stack = [], for_stack = [], current_line = 0,
      statement_pos = None, halted = False, print_col = 0,
      last_lookup_num = - 1, last_lookup_idx = - 1,
      out = [], err = [], inp = stdin_text, rand_seed = 1, rand_calls = 0,
      host_g = g, host_rand = rnd, host_fresh = fresh\<rparr>"

text \<open>
  \<open>main\<close>: the argument vector, the file system, the start state; it returns
  the exit code and the final state, or \<open>None\<close> when the run outlasts the fuel.
\<close>

definition main :: "nat \<Rightarrow> string list \<Rightarrow> (string \<Rightarrow> string option) \<Rightarrow> state \<Rightarrow> (int \<times> state) option" where
  "main fuel argv fs st =
     (if length argv < 2 then Some (1, st\<lparr>err := err st @ ''Usage: '' @ hd argv @ '' <program.bas>'' @ [CHR 0x0A]\<rparr>)
      else
        (case load_program (argv ! 1) (fs (argv ! 1)) st of
           Inl e \<Rightarrow> Some e
         | Inr st1 \<Rightarrow> do {
             st2 \<leftarrow> run_program fuel st1;
             Some (0, st2)
           }))"

section \<open>Expression evaluator (\<open>basic.c\<close>)\<close>

text \<open>
  \<open>basic.c\<close> has the levels \<open>eval_factor\<close>, \<open>eval_power\<close>, \<open>eval_term\<close> and
  \<open>eval_expr\<close> only: \<open>eval_expr\<close> is the evaluator of a whole expression, and
  relational operators are read by \<open>eval_condition\<close> alone.
\<close>

definition opt_concat_values :: "value \<Rightarrow> value \<Rightarrow> value" where
  "opt_concat_values left right =
     left\<lparr>str := str left @ take (OPT_MAX_STR_LEN - length (str left) - 1) (str right)\<rparr>"

definition opt_is_function_name :: "string \<Rightarrow> bool" where
  "opt_is_function_name p \<longleftrightarrow>
     list_ex (opt_starts_with_kw p)
       [''SIN'', ''COS'', ''TAN'', ''ABS'', ''INT'', ''SQR'', ''SGN'', ''EXP'', ''LOG'', ''RND'',
        ''LEN'', ''VAL'', ''STR'', ''CHR'', ''ASC'', ''TAB'']"

definition opt_eval_function :: "evaluator \<Rightarrow> string \<Rightarrow> string \<Rightarrow> state \<Rightarrow> value res" where
  "opt_eval_function ev name p0 st =
     (let p1 = skip_spaces (snd (read_identifier p0 8)) in
      if peek p1 \<noteq> CHR ''('' then
        Some (make_num 0, p1, opt_runtime_error (''Function requires '' @ quoted ''('') st)
      else do {
        (arg, p2, st0) \<leftarrow> ev (tl p1) st;
        let p3 = skip_spaces p2;
        let p = (if peek p3 = CHR '')'' then tl p3 else p3);
        let st1 = (if peek p3 = CHR '')'' then st0
                   else opt_runtime_error (''Missing '' @ quoted '')'') st0);
        if name_equals name ''ABS'' then Some (make_num \<bar>num arg\<bar>, p, opt_ensure_num arg st1)
        else if name_equals name ''INT'' then
          Some (make_num (of_int \<lfloor>num arg\<rfloor>), p, opt_ensure_num arg st1)
        else if name_equals name ''SQR'' then Some (make_num (sqrt (num arg)), p, opt_ensure_num arg st1)
        else if name_equals name ''SGN'' then
          Some (make_num (if num arg > 0 then 1 else if num arg < 0 then - 1 else 0), p,
                opt_ensure_num arg st1)
        else if name_equals name ''SIN'' then Some (make_num (sin (num arg)), p, opt_ensure_num arg st1)
        else if name_equals name ''COS'' then Some (make_num (cos (num arg)), p, opt_ensure_num arg st1)
        else if name_equals name ''TAN'' then Some (make_num (tan (num arg)), p, opt_ensure_num arg st1)
        else if name_equals name ''EXP'' then Some (make_num (exp (num arg)), p, opt_ensure_num arg st1)
        else if name_equals name ''LOG'' then Some (make_num (ln (num arg)), p, opt_ensure_num arg st1)
        else if name_equals name ''RND'' then
          (let st2 = opt_ensure_num arg st1;
               st3 = (if num arg < 0 then st2\<lparr>rand_seed := to_uint (- num arg), rand_calls := 0\<rparr>
                      else st2)
           in Some (make_num (host_rand st3 (rand_seed st3) (rand_calls st3)), p,
                    st3\<lparr>rand_calls := rand_calls st3 + 1\<rparr>))
        else if name_equals name ''LEN'' then
          Some (make_num (real (length (str arg))), p, opt_ensure_str arg st1)
        else if name_equals name ''VAL'' then
          Some (make_num (c_atof (str arg)), p, opt_ensure_str arg st1)
        else if name_equals name ''STR'' \<or> name_equals name ''STR$'' then
          Some (opt_make_str (host_g st1 (num arg)), p, opt_ensure_num arg st1)
        else if name_equals name ''CHR'' \<or> name_equals name ''CHR$'' then
          (let c = (char_of (to_int (num arg) AND 255) :: char)
           in Some (opt_make_str (if c = CHR 0x00 then [] else [c]), p, opt_ensure_num arg st1))
        else if name_equals name ''ASC'' then
          Some (make_num (if str arg = [] then 0 else real (of_char (hd (str arg)) :: nat)), p,
                opt_ensure_str arg st1)
        else if name_equals name ''TAB'' then
          Some (opt_make_str [], p, tab_to (to_int (num arg)) (opt_ensure_num arg st1))
        else Some (make_num 0, p, opt_runtime_error ''Unknown function'' st1)
      })"

definition opt_get_var_reference ::
    "evaluator \<Rightarrow> string \<Rightarrow> state \<Rightarrow> (slot option \<times> bool \<times> bool) res" where
  "opt_get_var_reference ev p0 st =
     (let p1 = skip_spaces p0 in
      if \<not> c_isalpha (peek p1) then
        Some ((None, False, False), p1, opt_runtime_error ''Expected variable'' st)
      else
        (let (namebuf, p2) = read_identifier p1 8;
             (n1, n2, is_str) = uppercase_name namebuf;
             p3 = skip_spaces p2
         in if peek p3 = CHR ''('' then do {
              (idx_val, p4, st1) \<leftarrow> ev (tl p3) st;
              let st2 = opt_ensure_num idx_val st1;
              let p5 = skip_spaces p4;
              if peek p5 \<noteq> CHR '')'' then
                Some ((None, True, is_str), p5, opt_runtime_error (''Missing '' @ quoted '')'') st2)
              else
                (let array_index = to_int (num idx_val + 0.00001) in
                 if array_index < 0 then
                   Some ((None, True, is_str), tl p5, opt_runtime_error ''Negative array index'' st2)
                 else
                   (let array_size = (if array_index + 1 < DEFAULT_ARRAY_SIZE
                                      then DEFAULT_ARRAY_SIZE else array_index + 1)
                    in case opt_find_or_create_var n1 n2 is_str True array_size st2 of
                         (None, st3) \<Rightarrow> Some ((None, True, is_str), tl p5, st3)
                       | (Some i, st3) \<Rightarrow>
                           (let (valp, st4) = select_slot i True is_str array_index opt_make_str st3
                            in Some ((Some valp, True, is_str), tl p5, st4))))
            }
            else
              (case opt_find_or_create_var n1 n2 is_str False 0 st of
                 (None, st3) \<Rightarrow> Some ((None, False, is_str), p3, st3)
               | (Some i, st3) \<Rightarrow>
                   (let (valp, st4) = select_slot i False is_str (- 1) opt_make_str st3
                    in Some ((Some valp, False, is_str), p3, st4)))))"

fun opt_eval_factor :: "evaluator \<Rightarrow> nat \<Rightarrow> string \<Rightarrow> state \<Rightarrow> value res" where
  "opt_eval_factor ev 0 p st = None"
| "opt_eval_factor ev (Suc n) p0 st =
     (let p = skip_spaces p0 in
      if peek p = CHR ''('' then do {
        (v, p1, st1) \<leftarrow> ev (tl p) st;
        let p2 = skip_spaces p1;
        if peek p2 = CHR '')'' then Some (v, tl p2, st1)
        else Some (v, p2, opt_runtime_error (''Missing '' @ quoted '')'') st1)
      }
      else if peek p = CHR 0x22 then
        (let i = min (length (takeWhile (\<lambda>c. c \<noteq> CHR 0x22) (tl p))) (OPT_MAX_STR_LEN - 1);
             buf = take i (tl p);
             p1 = drop i (tl p)
         in if peek p1 = CHR 0x22 then Some (opt_make_str buf, tl p1, st)
            else Some (opt_make_str buf, p1, opt_runtime_error ''Unterminated string'' st))
      else if c_isalpha (peek p) then
        (if opt_is_function_name p then opt_eval_function ev (fst (read_identifier p 8)) p st
         else do {
           ((vp, is_arr, is_str), p1, st1) \<leftarrow> opt_get_var_reference ev p st;
           case vp of
             None \<Rightarrow> Some (make_num 0, p1, st1)
           | Some r \<Rightarrow> Some (get_slot st1 r, p1, st1)
         })
      else if peek p = CHR ''+'' \<or> peek p = CHR ''-'' then do {
        (inner, p1, st1) \<leftarrow> opt_eval_factor ev n (tl p) st;
        let st2 = opt_ensure_num inner st1;
        Some ((if peek p = CHR ''-'' then inner\<lparr>num := - num inner\<rparr> else inner), p1, st2)
      }
      else
        (case opt_parse_number_literal p of
           Some (x, q) \<Rightarrow> Some (make_num x, q, st)
         | None \<Rightarrow> Some (make_num 0, p, opt_runtime_error ''Syntax error in expression'' st)))"

fun opt_eval_power :: "evaluator \<Rightarrow> nat \<Rightarrow> string \<Rightarrow> state \<Rightarrow> value res" where
  "opt_eval_power ev 0 p st = None"
| "opt_eval_power ev (Suc n) p st = do {
     (left, p1, st1) \<leftarrow> opt_eval_factor ev (Suc n) (skip_spaces p) st;
     let p2 = skip_spaces p1;
     if peek p2 = CHR ''^'' then do {
       (right, p3, st2) \<leftarrow> opt_eval_power ev n (tl p2) st1;
       let st3 = opt_ensure_num right (opt_ensure_num left st2);
       Some (left\<lparr>num := c_pow (num left) (num right)\<rparr>, p3, st3)
     } else Some (left, p2, st1)
   }"

fun opt_eval_term_loop :: "evaluator \<Rightarrow> nat \<Rightarrow> nat \<Rightarrow> value \<Rightarrow> string \<Rightarrow> state \<Rightarrow> value res" where
  "opt_eval_term_loop ev m 0 left p st = None"
| "opt_eval_term_loop ev m (Suc n) left p0 st =
     (let p = skip_spaces p0 in
      if peek p = CHR ''*'' \<or> peek p = CHR ''/'' then do {
        (right, p1, st1) \<leftarrow> opt_eval_power ev m (tl p) st;
        let st2 = opt_ensure_num right (opt_ensure_num left st1);
        opt_eval_term_loop ev m n
          (left\<lparr>num := (if peek p = CHR ''*'' then num left * num right else num left / num right)\<rparr>)
          p1 st2
      } else Some (left, p, st))"

definition opt_eval_term :: "evaluator \<Rightarrow> nat \<Rightarrow> string \<Rightarrow> state \<Rightarrow> value res" where
  "opt_eval_term ev n p st = do {
     (left, p1, st1) \<leftarrow> opt_eval_power ev n (skip_spaces p) st;
     opt_eval_term_loop ev n n left p1 st1
   }"

fun opt_eval_expr_loop :: "evaluator \<Rightarrow> nat \<Rightarrow> nat \<Rightarrow> value \<Rightarrow> string \<Rightarrow> state \<Rightarrow> value res" where
  "opt_eval_expr_loop ev m 0 left p st = None"
| "opt_eval_expr_loop ev m (Suc n) left p0 st =
     (let p = skip_spaces p0 in
      if peek p = CHR ''+'' \<or> peek p = CHR ''-'' then do {
        (right, p1, st1) \<leftarrow> opt_eval_term ev m (tl p) st;
        if peek p = CHR ''+'' then
          (if type left = VAL_STR \<or> type right = VAL_STR then
             opt_eval_expr_loop ev m n (opt_concat_values left right) p1
               (opt_ensure_str right (opt_ensure_str left st1))
           else opt_eval_expr_loop ev m n (left\<lparr>num := num left + num right\<rparr>) p1 st1)
        else
          opt_eval_expr_loop ev m n (left\<lparr>num := num left - num right\<rparr>) p1
            (opt_ensure_num right (opt_ensure_num left st1))
      } else Some (left, p, st))"

fun opt_eval_expr :: "nat \<Rightarrow> string \<Rightarrow> state \<Rightarrow> value res" where
  "opt_eval_expr 0 p st = None"
| "opt_eval_expr (Suc n) p st = do {
     (left, p1, st1) \<leftarrow> opt_eval_term (opt_eval_expr n) (Suc n) (skip_spaces p) st;
     opt_eval_expr_loop (opt_eval_expr n) (Suc n) (Suc n) left p1 st1
   }"

definition opt_eval_condition :: "nat \<Rightarrow> string \<Rightarrow> state \<Rightarrow> int res" where
  "opt_eval_condition n p st = do {
     (left, p1, st1) \<leftarrow> opt_eval_expr n (skip_spaces p) st;
     let p2 = skip_spaces p1;
     let op1 = peek p2;
     let op2 = peek (tl p2);
     if op1 = CHR ''<'' \<and> op2 = CHR ''>'' then do {
       (right, p3, st2) \<leftarrow> opt_eval_expr n (drop 2 p2) st1;
       if type left = VAL_STR \<or> type right = VAL_STR then
         Some (c_bool (c_strcmp (str left) (str right) \<noteq> 0), p3,
               opt_ensure_str right (opt_ensure_str left st2))
       else Some (c_bool (num left \<noteq> num right), p3, st2)
     }
     else if op1 = CHR ''<'' \<and> op2 = CHR ''='' then do {
       (right, p3, st2) \<leftarrow> opt_eval_expr n (drop 2 p2) st1;
       Some (c_bool (num left \<le> num right), p3, opt_ensure_num right (opt_ensure_num left st2))
     }
     else if op1 = CHR ''>'' \<and> op2 = CHR ''='' then do {
       (right, p3, st2) \<leftarrow> opt_eval_expr n (drop 2 p2) st1;
       Some (c_bool (num left \<ge> num right), p3, opt_ensure_num right (opt_ensure_num left st2))
     }
     else if op1 = CHR ''<'' \<or> op1 = CHR ''>'' \<or> op1 = CHR ''='' then do {
       (right, p3, st2) \<leftarrow> opt_eval_expr n (tl p2) st1;
       if type left = VAL_STR \<or> type right = VAL_STR then
         (let result = c_strcmp (str left) (str right)
          in Some ((if op1 = CHR ''<'' then c_bool (result < 0)
                    else if op1 = CHR ''>'' then c_bool (result > 0) else c_bool (result = 0)),
                   p3, opt_ensure_str right (opt_ensure_str left st2)))
       else
         Some ((if op1 = CHR ''<'' then c_bool (num left < num right)
                else if op1 = CHR ''>'' then c_bool (num left > num right)
                else c_bool (num left = num right)), p3, st2)
     }
     else if type left = VAL_STR then Some (c_bool (length (str left) > 0), p2, st1)
     else Some (c_bool (num left \<noteq> 0), p2, st1)
   }"

section \<open>Statements, driver and entry point (\<open>basic.c\<close>)\<close>

fun opt_statement_print_loop :: "nat \<Rightarrow> nat \<Rightarrow> bool \<Rightarrow> string \<Rightarrow> state \<Rightarrow> (bool \<times> string \<times> state) option" where
  "opt_statement_print_loop m 0 newline p st = None"
| "opt_statement_print_loop m (Suc n) newline p0 st =
     (let p = skip_spaces p0 in
      if peek p = CHR 0x00 \<or> peek p = CHR '':'' then Some (newline, p, st)
      else do {
        (v, p1, st1) \<leftarrow> opt_eval_expr m p st;
        let st2 = print_value v st1;
        let p2 = skip_spaces p1;
        if peek p2 = CHR '';'' then opt_statement_print_loop m n False (tl p2) st2
        else if peek p2 = CHR '','' then
          opt_statement_print_loop m n False (tl p2)
            (print_spaces (((print_col st2 div 10) + 1) * 10 - print_col st2) st2)
        else Some (True, p2, st2)
      })"

definition opt_statement_print :: "nat \<Rightarrow> string \<Rightarrow> state \<Rightarrow> state option" where
  "opt_statement_print n p st = do {
     (newline, p1, st1) \<leftarrow> opt_statement_print_loop n n True p st;
     Some (set_pos p1 (if newline then (put_char CHR 0x0A st1)\<lparr>print_col := 0\<rparr> else st1))
   }"

fun opt_statement_input_loop :: "nat \<Rightarrow> nat \<Rightarrow> string \<Rightarrow> bool \<Rightarrow> string \<Rightarrow> state \<Rightarrow> state option" where
  "opt_statement_input_loop m 0 prompt first_prompt p st = None"
| "opt_statement_input_loop m (Suc n) prompt first_prompt p0 st =
     (let p = skip_spaces p0 in
      if peek p = CHR 0x00 \<or> peek p = CHR '':'' then Some (set_pos p st)
      else if \<not> c_isalpha (peek p) then
        Some (set_pos p (opt_runtime_error ''Expected variable in INPUT'' st))
      else do {
        ((vp, is_arr, is_str), p1, st1) \<leftarrow> opt_get_var_reference (opt_eval_expr m) p st;
        case vp of
          None \<Rightarrow> Some (set_pos p1 st1)
        | Some r \<Rightarrow>
            (let st2 = st1\<lparr>out := out st1 @ (if prompt \<noteq> [] \<and> first_prompt then prompt else [])
                                  @ ''? ''\<rparr>
             in case c_fgets OPT_MAX_LINE_LEN (inp st2) of
                  None \<Rightarrow> Some (set_pos p1 (opt_runtime_error ''Unexpected end of input'' st2))
                | Some (linebuf, rest) \<Rightarrow>
                    (let st3 = st2\<lparr>inp := rest\<rparr>;
                         st4 = set_slot r (if is_str then opt_make_str (trim_newline linebuf)
                                           else make_num (c_atof (trim_newline linebuf))) st3;
                         p2 = skip_spaces p1
                     in if peek p2 = CHR '','' then opt_statement_input_loop m n prompt False (tl p2) st4
                        else Some (set_pos p2 st4)))
      })"

definition opt_statement_input :: "nat \<Rightarrow> string \<Rightarrow> state \<Rightarrow> state option" where
  "opt_statement_input n p0 st =
     (let p = skip_spaces p0 in
      if peek p = CHR 0x22 then do {
        (s, p1, st1) \<leftarrow> opt_eval_factor (opt_eval_expr n) (Suc n) p st;
        let st2 = opt_ensure_str s st1;
        let p2 = skip_spaces p1;
        opt_statement_input_loop n n (take (OPT_MAX_STR_LEN - 1) (str s)) True
          (if peek p2 = CHR '';'' \<or> peek p2 = CHR '','' then tl p2 else p2) st2
      }
      else opt_statement_input_loop n n [] True p st)"

definition opt_statement_let :: "nat \<Rightarrow> string \<Rightarrow> state \<Rightarrow> state option" where
  "opt_statement_let n p st = do {
     ((vp, is_arr, is_str), p1, st1) \<leftarrow> opt_get_var_reference (opt_eval_expr n) p st;
     case vp of
       None \<Rightarrow> Some (set_pos p1 st1)
     | Some r \<Rightarrow>
         (let p2 = skip_spaces p1 in
          if peek p2 \<noteq> CHR ''='' then
            Some (set_pos p2 (opt_runtime_error (''Expected '' @ quoted ''='') st1))
          else do {
            (rhs, p3, st2) \<leftarrow> opt_eval_expr n (tl p2) st1;
            if is_str then Some (set_pos p3 (set_slot r rhs (opt_ensure_str rhs st2)))
            else Some (set_pos p3 (set_slot r rhs (opt_ensure_num rhs st2)))
          })
   }"

definition opt_statement_goto :: "string \<Rightarrow> state \<Rightarrow> state" where
  "opt_statement_goto p0 st =
     (let p = skip_spaces p0;
          line_number = c_atoi p;
          st1 = set_pos (skip_digits p) st;
          (idx, st2) = opt_find_line_index line_number st1;
          st3 = st2\<lparr>current_line := idx\<rparr>
      in if current_line st3 < 0 then opt_runtime_error ''Target line not found'' st3
         else st3\<lparr>statement_pos := None\<rparr>)"

definition opt_statement_gosub :: "string \<Rightarrow> state \<Rightarrow> state" where
  "opt_statement_gosub p0 st =
     (if gosub_top st \<ge> OPT_MAX_GOSUB then set_pos p0 (opt_runtime_error ''GOSUB stack overflow'' st)
      else
        (let p = skip_spaces p0;
             target = c_atoi p;
             return_pos = skip_digits p;
             st1 = set_pos return_pos st;
             st2 = st1\<lparr>gosub_stack := gosub_stack st1 @
                        [\<lparr>g_line_index = current_line st1, g_position = return_pos\<rparr>]\<rparr>;
             (idx, st3) = opt_find_line_index target st2;
             st4 = st3\<lparr>current_line := idx\<rparr>
         in if current_line st4 < 0 then opt_runtime_error ''Target line not found'' st4
            else st4\<lparr>statement_pos := None\<rparr>))"

definition opt_statement_return :: "string \<Rightarrow> state \<Rightarrow> state" where
  "opt_statement_return p st =
     (if gosub_top st \<le> 0 then set_pos p (opt_runtime_error ''RETURN without GOSUB'' st)
      else
        (let fr = last (gosub_stack st)
         in st\<lparr>gosub_stack := butlast (gosub_stack st),
               current_line := g_line_index fr,
               statement_pos := Some (g_position fr)\<rparr>))"

definition opt_statement_if :: "nat \<Rightarrow> string \<Rightarrow> state \<Rightarrow> state option" where
  "opt_statement_if n p0 st = do {
     (cond_true, p1, st1) \<leftarrow> opt_eval_condition n p0 st;
     let p2 = skip_spaces p1;
     if \<not> opt_starts_with_kw p2 ''THEN'' then Some (set_pos p2 (opt_runtime_error ''Missing THEN'' st1))
     else
       (let p3 = skip_spaces (drop 4 p2) in
        if cond_true = 0 then Some (set_pos [] st1)
        else if c_isdigit (peek p3) then
          (let target = c_atoi p3;
               st2 = set_pos (skip_digits p3) st1;
               (idx, st3) = opt_find_line_index target st2;
               st4 = st3\<lparr>current_line := idx\<rparr>
           in if current_line st4 < 0 then Some (opt_runtime_error ''Target line not found'' st4)
              else Some (st4\<lparr>statement_pos := None\<rparr>))
        else Some (set_pos (skip_spaces p3) st1))
   }"

definition opt_statement_for :: "nat \<Rightarrow> string \<Rightarrow> state \<Rightarrow> state option" where
  "opt_statement_for n p0 st =
     (if for_top st \<ge> OPT_MAX_FOR then Some (set_pos p0 (opt_runtime_error ''FOR stack overflow'' st))
      else do {
        ((vp, is_arr, is_str), p1, st1) \<leftarrow> opt_get_var_reference (opt_eval_expr n) p0 st;
        case vp of
          None \<Rightarrow> Some (set_pos p1 st1)
        | Some r \<Rightarrow>
            if is_arr then Some (set_pos p1 (opt_runtime_error ''FOR variable must be scalar'' st1))
            else if is_str then Some (set_pos p1 (opt_runtime_error ''FOR variable must be numeric'' st1))
            else
              (let p2 = skip_spaces p1 in
               if peek p2 \<noteq> CHR ''='' then
                 Some (set_pos p2 (opt_runtime_error (''Expected '' @ quoted ''='' @ '' in FOR'') st1))
               else do {
                 (startv, p3, st2) \<leftarrow> opt_eval_expr n (tl p2) st1;
                 let st3 = opt_ensure_num startv st2;
                 let p4 = skip_spaces p3;
                 if \<not> opt_starts_with_kw p4 ''TO'' then
                   Some (set_pos p4 (opt_runtime_error ''Expected TO in FOR'' st3))
                 else do {
                   (endv, p5, st4) \<leftarrow> opt_eval_expr n (drop 2 p4) st3;
                   let st5 = opt_ensure_num endv st4;
                   let p6 = skip_spaces p5;
                   (stepv, p7, st6) \<leftarrow>
                     (if opt_starts_with_kw p6 ''STEP'' then do {
                        (sv, q, s1) \<leftarrow> opt_eval_expr n (drop 4 p6) st5;
                        Some (sv, q, opt_ensure_num sv s1)
                      } else Some (make_num 1, p6, st5));
                   let st7 = set_slot r startv st6;
                   let (fn1, fn2) =
                     (case owner_of (vars st7) 0 r of
                        Some i \<Rightarrow> (name1 (vars st7 ! i), name2 (vars st7 ! i))
                      | None \<Rightarrow> (CHR '' '', CHR '' ''));
                   Some (set_pos p7
                     (st7\<lparr>for_stack := for_stack st7 @
                        [\<lparr>f_name1 = fn1, f_name2 = fn2, f_is_string = is_str,
                          f_end_value = num endv, f_step = num stepv,
                          f_line_index = current_line st7, f_resume_pos = p7,
                          f_var = Some r\<rparr>]\<rparr>))
                 }
               })
      })"

definition opt_statement_next :: "string \<Rightarrow> state \<Rightarrow> state" where
  "opt_statement_next p0 st =
     (let (namebuf, p1) = next_ident 8 p0;
          (n1, n2, is_str) = uppercase_name namebuf;
          st1 = set_pos p1 st;
          i = find_for_frame (for_stack st1) (length (for_stack st1)) namebuf n1 n2
      in if i < 0 then opt_runtime_error ''NEXT without FOR'' st1
         else
           (let st2 = st1\<lparr>for_stack := take (nat (i + 1)) (for_stack st1)\<rparr>;
                fr = for_stack st2 ! nat i
            in case f_var fr of
                 None \<Rightarrow> opt_runtime_error ''Loop variable missing'' st2
               | Some vp \<Rightarrow>
                   (let v = get_slot st2 vp;
                        st3 = set_slot vp (v\<lparr>num := num v + f_step fr\<rparr>) st2;
                        x = num (get_slot st3 vp)
                    in if loop_continues fr x
                       then st3\<lparr>current_line := f_line_index fr, statement_pos := Some (f_resume_pos fr)\<rparr>
                       else st3\<lparr>for_stack := butlast (for_stack st3)\<rparr>)))"

fun opt_statement_dim_loop :: "nat \<Rightarrow> nat \<Rightarrow> string \<Rightarrow> state \<Rightarrow> state option" where
  "opt_statement_dim_loop m 0 p st = None"
| "opt_statement_dim_loop m (Suc n) p0 st =
     (let p = skip_spaces p0 in
      if \<not> c_isalpha (peek p) then Some (set_pos p (opt_runtime_error ''Expected array name'' st))
      else
        (let (namebuf, p1) = read_identifier p 8;
             (n1, n2, is_str) = uppercase_name namebuf;
             p2 = skip_spaces p1
         in if peek p2 \<noteq> CHR ''('' then Some (set_pos p2 (opt_runtime_error ''DIM requires size'' st))
            else do {
              (sizev, p3, st1) \<leftarrow> opt_eval_expr m (tl p2) st;
              let st2 = opt_ensure_num sizev st1;
              let sz = to_int (num sizev) + 1;
              if sz \<le> 0 then Some (set_pos p3 (opt_runtime_error ''Invalid array size'' st2))
              else
                (let p4 = skip_spaces p3 in
                 if peek p4 \<noteq> CHR '')'' then
                   Some (set_pos p4 (opt_runtime_error (''Missing '' @ quoted '')'') st2))
                 else
                   (let st3 = snd (opt_find_or_create_var n1 n2 is_str True sz st2);
                        p5 = skip_spaces (tl p4)
                    in if peek p5 = CHR '','' then opt_statement_dim_loop m n (tl p5) st3
                       else Some (set_pos p5 st3)))
            }))"

definition opt_statement_dim :: "nat \<Rightarrow> string \<Rightarrow> state \<Rightarrow> state option" where
  "opt_statement_dim n p st = opt_statement_dim_loop n n p st"

definition opt_statement_end :: "string \<Rightarrow> state \<Rightarrow> state" where
  "opt_statement_end p st = set_pos [] (st\<lparr>halted := True\<rparr>)"

definition opt_execute_statement :: "nat \<Rightarrow> string \<Rightarrow> state \<Rightarrow> state option" where
  "opt_execute_statement n p0 st =
     (let p = skip_spaces p0 in
      if peek p = CHR 0x00 then Some (set_pos p st)
      else if opt_starts_with_kw p ''REM'' \<or> peek p = CHR 0x27 then Some (statement_rem p st)
      else if opt_starts_with_kw p ''PRINT'' \<or> peek p = CHR ''?'' then
        opt_statement_print n (if peek p = CHR ''?'' then tl p else drop 5 p) st
      else if opt_starts_with_kw p ''INPUT'' then opt_statement_input n (drop 5 p) st
      else if opt_starts_with_kw p ''LET'' then opt_statement_let n (drop 3 p) st
      else if opt_starts_with_kw p ''GOTO'' then Some (opt_statement_goto (drop 4 p) st)
      else if opt_starts_with_kw p ''GOSUB'' then Some (opt_statement_gosub (drop 5 p) st)
      else if opt_starts_with_kw p ''RETURN'' then Some (opt_statement_return (drop 6 p) st)
      else if opt_starts_with_kw p ''IF'' then opt_statement_if n (drop 2 p) st
      else if opt_starts_with_kw p ''FOR'' then opt_statement_for n (drop 3 p) st
      else if opt_starts_with_kw p ''NEXT'' then Some (opt_statement_next (drop 4 p) st)
      else if opt_starts_with_kw p ''DIM'' then opt_statement_dim n (drop 3 p) st
      else if opt_starts_with_kw p ''END'' \<or> opt_starts_with_kw p ''STOP'' then
        Some (opt_statement_end p st)
      else if c_isalpha (peek p) then opt_statement_let n p st
      else Some (set_pos p (opt_runtime_error ''Unknown statement'' st)))"

definition opt_run_step :: "nat \<Rightarrow> state \<Rightarrow> state option" where
  "opt_run_step m st =
     (let p0 = (case statement_pos st of
                  None \<Rightarrow> line_text (program_lines st ! nat (current_line st))
                | Some q \<Rightarrow> q);
          p = skip_spaces p0
      in if peek p = CHR 0x00 then
           Some (st\<lparr>current_line := current_line st + 1, statement_pos := None\<rparr>)
         else do {
           st2 \<leftarrow> opt_execute_statement m p (set_pos p st);
           if halted st2 then Some st2
           else
             (case statement_pos st2 of
                None \<Rightarrow> Some st2
              | Some q \<Rightarrow>
                  (let q1 = skip_spaces q in
                   if peek q1 = CHR '':'' then Some (set_pos (tl q1) st2)
                   else if peek q1 = CHR 0x00 then
                     Some (st2\<lparr>current_line := current_line st2 + 1, statement_pos := None\<rparr>)
                   else Some (set_pos q1 st2)))
         })"

fun opt_run_loop :: "nat \<Rightarrow> nat \<Rightarrow> state \<Rightarrow> state option" where
  "opt_run_loop m 0 st = None"
| "opt_run_loop m (Suc n) st =
     (if \<not> halted st \<and> current_line st \<ge> 0 \<and> current_line st < line_count st then do {
        st1 \<leftarrow> opt_run_step m st;
        opt_run_loop m n st1
      } else Some st)"

definition opt_run_program :: "nat \<Rightarrow> state \<Rightarrow> state option" where
  "opt_run_program n st =
     opt_run_loop n n (st\<lparr>halted := False, current_line := 0, statement_pos := None, print_col := 0\<rparr>)"

text \<open>
  \<open>dupstr_local\<close> of \<open>basic.c\<close> refuses a text of 128 bytes or more; the text it
  is given is part of a 128-byte \<open>fgets\<close> buffer, so it always copies.
\<close>

definition opt_add_or_replace_line :: "int \<Rightarrow> string \<Rightarrow> state \<Rightarrow> state" where
  "opt_add_or_replace_line n t st =
     (case replace_line (program_lines st) n t of
        Some ls \<Rightarrow> st\<lparr>program_lines := ls\<rparr>
      | None \<Rightarrow>
          if line_count st \<ge> OPT_MAX_LINES then opt_runtime_error ''Program too large'' st
          else st\<lparr>program_lines := program_lines st @ [\<lparr>number = n, line_text = t\<rparr>]\<rparr>)"

function opt_load_lines :: "string \<Rightarrow> state \<Rightarrow> (int \<times> state) + state" where
  "opt_load_lines f st =
     (case c_fgets OPT_MAX_LINE_LEN f of
        None \<Rightarrow> Inr st
      | Some (raw, rest) \<Rightarrow>
          if length raw \<ge> OPT_MAX_LINE_LEN - 1 \<and> raw ! (OPT_MAX_LINE_LEN - 2) \<noteq> CHR 0x0A then
            Inl (1, st\<lparr>err := err st @ ''Line too long (max '' @ dec_nat OPT_MAX_LINE_LEN
                                  @ '' chars)'' @ [CHR 0x0A]\<rparr>)
          else
            (let linebuf = trim_newline raw;
                 p = skip_bom (skip_spaces linebuf)
             in if peek p = CHR 0x00 then opt_load_lines rest st
                else if \<not> c_isdigit (peek p) then
                  Inl (1, st\<lparr>err := err st @ ''Line missing number: '' @ linebuf @ [CHR 0x0A]\<rparr>)
                else
                  (let n = c_atoi p in
                   if n < 0 \<or> n > 65535 then
                     Inl (1, st\<lparr>err := err st @ ''Line number out of range: '' @ dec_int n
                                           @ [CHR 0x0A]\<rparr>)
                   else
                     (let p1 = skip_spaces (dropWhile (\<lambda>c. \<not> c_isspace c) p)
                      in opt_load_lines rest (opt_add_or_replace_line n p1 st)))))"
  by pat_completeness auto
termination
  by (relation "measure (\<lambda>(f, st). length f)")
     (auto simp: OPT_MAX_LINE_LEN_def dest: c_fgets_shorter)

declare opt_load_lines.simps [simp del]

definition opt_load_program :: "string \<Rightarrow> string option \<Rightarrow> state \<Rightarrow> (int \<times> state) + state" where
  "opt_load_program path file st =
     (case file of
        None \<Rightarrow> Inl (1, st\<lparr>err := err st @ ''Cannot open '' @ path @ [CHR 0x0A]\<rparr>)
      | Some f \<Rightarrow>
          (case opt_load_lines f st of
             Inl e \<Rightarrow> Inl e
           | Inr st1 \<Rightarrow> Inr (sort_program st1)))"

text \<open>\<open>cleanup_program\<close> frees the lines and the arrays and resets the two counts.\<close>

definition opt_cleanup_program :: "state \<Rightarrow> state" where
  "opt_cleanup_program st = st\<lparr>program_lines := [], vars := []\<rparr>"

definition opt_main :: "nat \<Rightarrow> string list \<Rightarrow> (string \<Rightarrow> string option) \<Rightarrow> state \<Rightarrow> (int \<times> state) option" where
  "opt_main fuel argv fs st =
     (if length argv < 2 then Some (1, st\<lparr>err := err st @ ''Usage: '' @ hd argv @ '' <program.bas>'' @ [CHR 0x0A]\<rparr>)
      else
        (case opt_load_program (argv ! 1) (fs (argv ! 1)) st of
           Inl e \<Rightarrow> Some e
         | Inr st1 \<Rightarrow> do {
             st2 \<leftarrow> opt_run_program fuel st1;
             Some (0, opt_cleanup_program st2)
           }))"

section \<open>Example inputs\<close>

text \<open>A host for the examples: \<open>%g\<close> of a whole number, a constant generator, zeroed memory.\<close>

definition demo_host_g :: "real \<Rightarrow> string" where
  "demo_host_g x = dec_int (trunc_zero x)"

definition demo_state :: "line list \<Rightarrow> state" where
  "demo_state ls =
     (initial_state [] demo_host_g (\<lambda>s k. 0) (\<lambda>i. zero_value))\<lparr>program_lines := ls\<rparr>"

definition three_lines :: "line list" where
  "three_lines =
     [\<lparr>number = 10, line_text = ''GOSUB 200''\<rparr>, \<lparr>number = 20, line_text = ''PRINT 1''\<rparr>,
      \<lparr>number = 30, line_text = ''END''\<rparr>]"

text \<open>
  The cache of \<open>basic.c\<close> is either untouched (\<open>-1\<close>, \<open>-1\<close>) or holds a number
  together with the index of the line that carries it.
\<close>

definition cache_ok :: "state \<Rightarrow> bool" where
  "cache_ok st \<longleftrightarrow>
     (last_lookup_num st = -1 \<and> last_lookup_idx st = -1) \<or>
     (0 \<le> last_lookup_idx st \<and> last_lookup_idx st < line_count st \<and>
      number (program_lines st ! nat (last_lookup_idx st)) = last_lookup_num st)"



text \<open>Observers of a finished run, and four small file systems.\<close>

definition exit_code :: "(int \<times> state) option \<Rightarrow> int option" where
  "exit_code r = map_option fst r"

definition final :: "(state \<Rightarrow> 'a) \<Rightarrow> (int \<times> state) option \<Rightarrow> 'a option" where
  "final f r = map_option (f \<circ> snd) r"

definition one_file :: "string \<Rightarrow> string \<Rightarrow> string option" where
  "one_file content path = (if path = ''p.bas'' then Some content else None)"

definition prog_goto_missing :: string where
  "prog_goto_missing = ''10 GOTO 99'' @ [CHR 0x0A]"

definition prog_end :: string where
  "prog_end = ''10 PRINT 1'' @ [CHR 0x0A] @ ''20 END'' @ [CHR 0x0A] @ ''30 PRINT 2'' @ [CHR 0x0A]"

definition prog_neg_half :: string where
  "prog_neg_half = ''10 A(-0.5)=7'' @ [CHR 0x0A] @ ''20 PRINT A(0)'' @ [CHR 0x0A]"

definition prog_stop :: string where
  "prog_stop = ''10 STOP'' @ [CHR 0x0A] @ ''20 PRINT 2'' @ [CHR 0x0A]"

definition prog_fall_off :: string where
  "prog_fall_off = ''10 PRINT 1'' @ [CHR 0x0A]"

definition prog_no_number :: string where
  "prog_no_number = ''PRINT 1'' @ [CHR 0x0A]"

definition prog_for_1_to_0 :: string where
  "prog_for_1_to_0 =
     ''10 FOR I=1 TO 0'' @ [CHR 0x0A] @ ''20 PRINT 7'' @ [CHR 0x0A] @ ''30 NEXT I'' @ [CHR 0x0A]"

definition start :: state where
  "start = initial_state [] demo_host_g (\<lambda>s k. 0) (\<lambda>i. zero_value)"

text \<open>The start state once the numeric scalar \<open>I\<close> exists.\<close>

definition start_with_I :: state where
  "start_with_I = start\<lparr>vars := [new_var CHR ''I'' CHR '' '' False False 0 make_str]\<rparr>"

text \<open>A state in which \<open>A$\<close> holds the string \<open>s\<close> and \<open>N\<close> the integer \<open>n\<close>.\<close>

definition str_num_state :: "string \<Rightarrow> int \<Rightarrow> state" where
  "str_num_state s n =
     start\<lparr>vars := [(new_var CHR ''A'' CHR '' '' True False 0 make_str)\<lparr>scalar := make_str s\<rparr>,
                    (new_var CHR ''N'' CHR '' '' False False 0 make_str)
                      \<lparr>scalar := make_num (of_int n)\<rparr>]\<rparr>"

text \<open>The loader gave up: no file argument, or \<open>load_program\<close> called \<open>exit\<close>.\<close>

definition load_failed :: "string list \<Rightarrow> (string \<Rightarrow> string option) \<Rightarrow> state \<Rightarrow> bool" where
  "load_failed argv fs st \<longleftrightarrow>
     length argv < 2 \<or> isl (load_program (argv ! 1) (fs (argv ! 1)) st)"

definition opt_load_failed :: "string list \<Rightarrow> (string \<Rightarrow> string option) \<Rightarrow> state \<Rightarrow> bool" where
  "opt_load_failed argv fs st \<longleftrightarrow>
     length argv < 2 \<or> isl (opt_load_program (argv ! 1) (fs (argv ! 1)) st)"

text \<open>The state a successful \<open>load_program\<close> hands to \<open>run_program\<close>.\<close>

definition loaded :: "string list \<Rightarrow> (string \<Rightarrow> string option) \<Rightarrow> state \<Rightarrow> state" where
  "loaded argv fs st =
     (case load_program (argv ! 1) (fs (argv ! 1)) st of Inr st1 \<Rightarrow> st1 | Inl e \<Rightarrow> snd e)"

definition opt_loaded :: "string list \<Rightarrow> (string \<Rightarrow> string option) \<Rightarrow> state \<Rightarrow> state" where
  "opt_loaded argv fs st =
     (case opt_load_program (argv ! 1) (fs (argv ! 1)) st of Inr st1 \<Rightarrow> st1 | Inl e \<Rightarrow> snd e)"

section \<open>What the claims say, in the terms of the model\<close>

text \<open>A number whose truncation toward zero is an \<open>int\<close>.\<close>

definition fits_int :: "real \<Rightarrow> bool" where
  "fits_int x \<longleftrightarrow> INT_MIN \<le> trunc_zero x \<and> trunc_zero x \<le> INT_MAX"

text \<open>The relational operator at the cursor, two-character operators first.\<close>

definition rel_op :: "string \<Rightarrow> string option" where
  "rel_op p =
     (if peek p = CHR ''<'' \<and> peek (tl p) = CHR ''>'' then Some ''<>''
      else if peek p = CHR ''<'' \<and> peek (tl p) = CHR ''='' then Some ''<=''
      else if peek p = CHR ''>'' \<and> peek (tl p) = CHR ''='' then Some ''>=''
      else if peek p = CHR ''<'' then Some ''<''
      else if peek p = CHR ''>'' then Some ''>''
      else if peek p = CHR ''='' then Some ''=''
      else None)"

text \<open>
  When a comparison holds: numerically for two numbers, by \<open>strcmp\<close> order for
  two strings.
\<close>

definition rel_holds :: "string \<Rightarrow> value \<Rightarrow> value \<Rightarrow> bool" where
  "rel_holds op l r \<longleftrightarrow>
     (if type l = VAL_STR \<and> type r = VAL_STR then
        (op = ''<>'' \<and> c_strcmp (str l) (str r) \<noteq> 0) \<or> (op = ''<'' \<and> c_strcmp (str l) (str r) < 0)
        \<or> (op = ''>'' \<and> c_strcmp (str l) (str r) > 0) \<or> (op = ''='' \<and> c_strcmp (str l) (str r) = 0)
      else
        (op = ''<>'' \<and> num l \<noteq> num r) \<or> (op = ''<='' \<and> num l \<le> num r)
        \<or> (op = ''>='' \<and> num l \<ge> num r) \<or> (op = ''<'' \<and> num l < num r)
        \<or> (op = ''>'' \<and> num l > num r) \<or> (op = ''='' \<and> num l = num r))"

definition prog_print_cmp :: string where
  "prog_print_cmp = ''10 PRINT 1<2'' @ [CHR 0x0A]"








text \<open>
  An array reference \<open>v(x)\<close>, for the variable named \<open>n1 n2\<close> (a string
  variable when \<open>s\<close>) and the integer \<open>k\<close> the subscript is coerced to, from the
  state \<open>st\<close> in which the subscript has been evaluated.  A negative \<open>k\<close> is the
  error ``Negative array index''.  Otherwise the slot is element \<open>k\<close> of the
  variable and no error is raised (unless the variable is new and the table
  is full); on first array use the array gets \<open>max (k + 1) 11\<close> zeroed
  elements, and an array that exists is grown to that size when it is
  smaller, its added elements zeroed when \<open>zero_tail\<close>.  The slot referred to
  is reset to an empty value of the variable's type when its tag disagrees
  with the name.
\<close>

definition named :: "char \<Rightarrow> char \<Rightarrow> bool \<Rightarrow> var \<Rightarrow> bool" where
  "named n1 n2 s v \<longleftrightarrow> name1 v = n1 \<and> name2 v = n2 \<and> is_string v = s"

definition fix_type :: "bool \<Rightarrow> (string \<Rightarrow> value) \<Rightarrow> value \<Rightarrow> value" where
  "fix_type s mk v =
     (if s \<and> type v \<noteq> VAL_STR then mk []
      else if \<not> s \<and> type v \<noteq> VAL_NUM then make_num 0 else v)"

definition subscript_outcome ::
    "(string \<Rightarrow> state \<Rightarrow> state) \<Rightarrow> (string \<Rightarrow> value) \<Rightarrow> int \<Rightarrow> bool \<Rightarrow>
     char \<Rightarrow> char \<Rightarrow> bool \<Rightarrow> int \<Rightarrow> state \<Rightarrow> slot option \<Rightarrow> state \<Rightarrow> bool" where
  "subscript_outcome errf mk limit zero_tail n1 n2 s k st r st' \<longleftrightarrow>
     (let want = max (k + 1) 11; vs = vars st in
      if k < 0 then r = None \<and> st' = errf ''Negative array index'' st
      else if \<forall>j < length vs. \<not> named n1 n2 s (vs ! j) then
        (if limit \<le> int (length vs) then r = None \<and> st' = errf ''Variable table full'' st
         else r = Some (Elem (length vs) (nat k)) \<and> halted st' = halted st \<and> err st' = err st
              \<and> length (vars st') = Suc (length vs)
              \<and> named n1 n2 s (vars st' ! length vs)
              \<and> is_array (vars st' ! length vs) \<and> size (vars st' ! length vs) = want
              \<and> array (vars st' ! length vs)
                  = (replicate (nat want) zero_value)[nat k := fix_type s mk zero_value])
      else \<exists>j < length vs. named n1 n2 s (vs ! j) \<and> (\<forall>i < j. \<not> named n1 n2 s (vs ! i))
             \<and> r = Some (Elem j (nat k)) \<and> halted st' = halted st \<and> err st' = err st
             \<and> length (vars st') = length vs
             \<and> is_array (vars st' ! j)
             \<and> (if \<not> is_array (vs ! j) then
                   size (vars st' ! j) = want
                   \<and> array (vars st' ! j)
                       = (replicate (nat want) zero_value)[nat k := fix_type s mk zero_value]
                 else size (vars st' ! j) = max (size (vs ! j)) want
                   \<and> (zero_tail \<longrightarrow>
                        array (vars st' ! j) =
                          (let xs = array (vs ! j) @ replicate (nat (want - size (vs ! j))) zero_value
                           in xs[nat k := fix_type s mk (xs ! nat k)]))))"



section \<open>Unfolding sets for evaluation\<close>

lemmas lex_defs = skip_spaces_def skip_digits_def skip_opt_sign_def skip_frac_exp_def peek_def
  is_blank_def c_isalpha_def c_isdigit_def c_isspace_def c_toupper_def c_atof_def c_atoi_def
  take_sign_def digits_val_def digit_val_def kw_prefix_def read_identifier_def is_ident_char_def
  name_equals_def uppercase_name_def next_ident_def quoted_def close_paren_def trim_newline_def
  c_fgets_def skip_bom_def to_int_def c_rem_def c_bool_def Let_def
  c_strtol_def digits_int_def wrap_int_def trunc_zero_def to_uint_def INT_MIN_def INT_MAX_def LONG_MIN_def
  LONG_MAX_def

lemmas state_defs = set_pos_def put_char_def set_var_def new_var_def zero_value_def make_num_def
  print_value_def print_spaces_def tab_to_def line_count_def var_count_def gosub_top_def
  for_top_def find_line_index_def opt_find_line_index_def sort_program_def initial_state_def
  demo_state_def start_def one_file_def exit_code_def final_def loop_continues_def DEFAULT_ARRAY_SIZE_def
  PRINT_WIDTH_def select_slot_def neg_one_if_def statement_rem_def

lemmas classic_defs = starts_with_kw_def starts_with_kw_dollar_def parse_number_literal_def
  make_str_def runtime_error_def ensure_num_def ensure_str_def find_or_create_var_def
  is_function_name_def eval_function1_def eval_function_def get_var_reference_def eval_term_def eval_expr_def
  eval_comparison_def eval_and_expr_def eval_condition_def statement_print_def
  statement_input_def statement_let_def statement_goto_def statement_gosub_def
  statement_return_def statement_if_def statement_for_def statement_next_def statement_dim_def
  statement_sleep_def execute_statement_def run_step_def run_program_def
  add_or_replace_line_def load_program_def main_def load_lines.simps
  MAX_LINES_def MAX_LINE_LEN_def MAX_VARS_def MAX_GOSUB_def MAX_FOR_def MAX_STR_LEN_def

lemmas fn_defs = fn_left_def fn_right_def fn_mid_def fn_instr_def concat_values_def

lemmas opt_defs = opt_starts_with_kw_def opt_parse_number_literal_def opt_make_str_def
  opt_runtime_error_def opt_ensure_num_def opt_ensure_str_def opt_find_or_create_var_def
  opt_is_function_name_def opt_concat_values_def opt_eval_function_def opt_get_var_reference_def
  opt_eval_term_def opt_eval_condition_def opt_statement_print_def opt_statement_input_def
  opt_statement_let_def opt_statement_goto_def opt_statement_gosub_def opt_statement_return_def
  opt_statement_if_def opt_statement_for_def opt_statement_next_def opt_statement_dim_def
  opt_statement_end_def opt_execute_statement_def opt_run_step_def opt_run_program_def
  opt_add_or_replace_line_def opt_load_program_def opt_cleanup_program_def opt_main_def
  opt_load_lines.simps opt_find_loop.simps
  OPT_MAX_LINES_def OPT_MAX_LINE_LEN_def OPT_MAX_VARS_def OPT_MAX_GOSUB_def OPT_MAX_FOR_def
  OPT_MAX_STR_LEN_def


section \<open>Small facts for evaluation\<close>

lemma demo_host_g_small [simp]:
  "demo_host_g 1 = ''1''" "demo_host_g 2 = ''2''" "demo_host_g 7 = ''7''" "demo_host_g 12 = ''12''"
  "demo_host_g (- 1) = ''-1''" "demo_host_g 0 = ''0''"
  by (simp_all add: demo_host_g_def dec_int_def trunc_zero_def dec_nat.simps)

lemma demo_host_g_more [simp]:
  "demo_host_g 3 = ''3''" "demo_host_g 4 = ''4''" "demo_host_g 5 = ''5''"
  by (simp_all add: demo_host_g_def dec_int_def trunc_zero_def dec_nat.simps)

lemma dec_int_10 [simp]: "dec_int 10 = ''10''"
  by (simp add: dec_int_def dec_nat.simps)

lemma halted_runtime_error [simp]: "halted (runtime_error m st)"
  by (simp add: runtime_error_def)

lemma halted_ensure_num [simp]: "halted (ensure_num v st) \<longleftrightarrow> type v \<noteq> VAL_NUM \<or> halted st"
  by (simp add: ensure_num_def)

lemma halted_ensure_str [simp]: "halted (ensure_str v st) \<longleftrightarrow> type v \<noteq> VAL_STR \<or> halted st"
  by (simp add: ensure_str_def)

lemma ensure_num_id [simp]: "type v = VAL_NUM \<Longrightarrow> ensure_num v st = st"
  by (simp add: ensure_num_def)

lemma ensure_str_id [simp]: "type v = VAL_STR \<Longrightarrow> ensure_str v st = st"
  by (simp add: ensure_str_def)

lemma trunc_zero_of_int [simp]: "trunc_zero (of_int n) = n"
  by (simp add: trunc_zero_def)

lemma to_int_in_range:
  "INT_MIN \<le> trunc_zero x \<Longrightarrow> trunc_zero x \<le> INT_MAX \<Longrightarrow> to_int x = trunc_zero x"
  by (simp add: to_int_def)

lemma to_int_of_int: "INT_MIN \<le> n \<Longrightarrow> n \<le> INT_MAX \<Longrightarrow> to_int (of_int n) = n"
  by (simp add: to_int_def)

lemma to_int_of_int_add1:
  "INT_MIN \<le> n + 1 \<Longrightarrow> n + 1 \<le> INT_MAX \<Longrightarrow> to_int (of_int n + 1) = n + 1"
  using to_int_of_int[of "n + 1"] by simp

lemma wrap_int_id: "INT_MIN \<le> n \<Longrightarrow> n \<le> INT_MAX \<Longrightarrow> wrap_int n = n"
  by (simp add: wrap_int_def INT_MIN_def INT_MAX_def)

lemma wrap_int_range: "INT_MIN \<le> wrap_int n \<and> wrap_int n \<le> INT_MAX"
  using pos_mod_bound[of 4294967296 "n + 2147483648"] pos_mod_sign[of 4294967296 "n + 2147483648"]
  by (simp add: wrap_int_def INT_MIN_def INT_MAX_def)

lemma type_fn [simp]:
  "type (fn_left a b) = VAL_STR" "type (fn_mid a b c) = VAL_STR" "type (fn_right a b) = VAL_STR"
  "type (make_str s) = VAL_STR" "type (make_num x) = VAL_NUM"
  by (simp_all add: fn_left_def fn_mid_def fn_right_def make_str_def make_num_def Let_def)

text \<open>The fuel equations for numerals, so that a numeral fuel unfolds step by step.\<close>

lemmas fuel_numeral =
  eval_or_expr.simps(2)[of "pred_numeral k", folded numeral_eq_Suc]
  eval_factor.simps(2)[of _ "pred_numeral k", folded numeral_eq_Suc]
  eval_power.simps(2)[of _ "pred_numeral k", folded numeral_eq_Suc]
  eval_term_loop.simps(2)[of _ _ "pred_numeral k", folded numeral_eq_Suc]
  eval_expr_loop.simps(2)[of _ _ "pred_numeral k", folded numeral_eq_Suc]
  eval_and_loop.simps(2)[of _ _ "pred_numeral k", folded numeral_eq_Suc]
  eval_or_loop.simps(2)[of _ _ "pred_numeral k", folded numeral_eq_Suc]
  statement_print_loop.simps(2)[of _ "pred_numeral k", folded numeral_eq_Suc]
  statement_input_loop.simps(2)[of _ "pred_numeral k", folded numeral_eq_Suc]
  statement_dim_loop.simps(2)[of _ "pred_numeral k", folded numeral_eq_Suc]
  run_loop.simps(2)[of _ "pred_numeral k", folded numeral_eq_Suc]
  for k

lemmas opt_fuel_numeral =
  opt_eval_expr.simps(2)[of "pred_numeral k", folded numeral_eq_Suc]
  opt_eval_factor.simps(2)[of _ "pred_numeral k", folded numeral_eq_Suc]
  opt_eval_power.simps(2)[of _ "pred_numeral k", folded numeral_eq_Suc]
  opt_eval_term_loop.simps(2)[of _ _ "pred_numeral k", folded numeral_eq_Suc]
  opt_eval_expr_loop.simps(2)[of _ _ "pred_numeral k", folded numeral_eq_Suc]
  opt_statement_print_loop.simps(2)[of _ "pred_numeral k", folded numeral_eq_Suc]
  opt_statement_input_loop.simps(2)[of _ "pred_numeral k", folded numeral_eq_Suc]
  opt_statement_dim_loop.simps(2)[of _ "pred_numeral k", folded numeral_eq_Suc]
  opt_run_loop.simps(2)[of _ "pred_numeral k", folded numeral_eq_Suc]
  for k

section \<open>Line lookup: the cached binary search agrees with the scan\<close>

lemma scan_notin: "n \<notin> number ` set ls \<Longrightarrow> find_line_scan ls i n = -1"
  by (induction ls arbitrary: i) auto

lemma scan_in:
  "distinct (map number ls) \<Longrightarrow> k < length ls \<Longrightarrow> number (ls ! k) = n \<Longrightarrow>
   find_line_scan ls i n = i + int k"
proof (induction ls arbitrary: i k)
  case Nil
  then show ?case by simp
next
  case (Cons l ls)
  show ?case
  proof (cases k)
    case 0
    with Cons.prems show ?thesis by simp
  next
    case (Suc j)
    with Cons.prems have "number l \<noteq> n" by force
    with Cons Suc show ?thesis by simp
  qed
qed

lemma opt_find_loop_found:
  "sorted_wrt (<) (map number (program_lines st)) \<Longrightarrow> 0 \<le> low \<Longrightarrow> high < line_count st \<Longrightarrow>
   low \<le> int k \<Longrightarrow> int k \<le> high \<Longrightarrow> number (program_lines st ! k) = n \<Longrightarrow>
   opt_find_loop n low high st = (int k, st\<lparr>last_lookup_num := n, last_lookup_idx := int k\<rparr>)"
proof (induction n low high st rule: opt_find_loop.induct)
  case (1 n low high st)
  let ?ls = "program_lines st"
  let ?mid = "(low + high) div 2"
  have range: "low \<le> ?mid" "?mid \<le> high" "0 \<le> ?mid" "nat ?mid < length ?ls"
    using "1.prems" by (auto simp: line_count_def)
  have klen: "k < length ?ls" using "1.prems" by (auto simp: line_count_def)
  have mono: "\<And>i j. i < j \<Longrightarrow> j < length ?ls \<Longrightarrow> number (?ls ! i) < number (?ls ! j)"
    using "1.prems"(1) by (auto simp: sorted_wrt_iff_nth_less)
  show ?case
  proof (cases "number (?ls ! nat ?mid) = n")
    case True
    have "nat ?mid = k"
    proof (rule ccontr)
      assume "nat ?mid \<noteq> k"
      then consider "nat ?mid < k" | "k < nat ?mid" by linarith
      then show False
        using mono[of "nat ?mid" k] mono[of k "nat ?mid"] True "1.prems"(6) klen range by cases auto
    qed
    then have "?mid = int k" using range by linarith
    with True "1.prems" show ?thesis
      by (subst opt_find_loop.simps) (simp add: Let_def)
  next
    case False
    show ?thesis
    proof (cases "number (?ls ! nat ?mid) < n")
      case True
      have "nat ?mid < k"
      proof (rule ccontr)
        assume "\<not> nat ?mid < k"
        then have "k < nat ?mid" using False "1.prems"(6) by (cases "nat ?mid = k") auto
        then show False using mono[of k "nat ?mid"] True "1.prems"(6) range by auto
      qed
      then have "?mid + 1 \<le> int k" by linarith
      with "1.IH"(1)[OF _ refl False True] "1.prems" range False True show ?thesis
        by (subst opt_find_loop.simps) (simp add: Let_def)
    next
      case nlt: False
      have "k < nat ?mid"
      proof (rule ccontr)
        assume "\<not> k < nat ?mid"
        then have "nat ?mid < k" using False "1.prems"(6) by (cases "nat ?mid = k") auto
        then show False using mono[of "nat ?mid" k] nlt False "1.prems"(6) klen by auto
      qed
      then have "int k \<le> ?mid - 1" by linarith
      with "1.IH"(2)[OF _ refl False nlt] "1.prems" range False nlt show ?thesis
        by (subst opt_find_loop.simps) (simp add: Let_def)
    qed
  qed
qed

lemma opt_find_loop_missing:
  "n \<notin> number ` set (program_lines st) \<Longrightarrow> 0 \<le> low \<Longrightarrow> high < line_count st \<Longrightarrow>
   opt_find_loop n low high st = (-1, st)"
proof (induction n low high st rule: opt_find_loop.induct)
  case (1 n low high st)
  show ?case
  proof (cases "low \<le> high")
    case False
    then show ?thesis by (subst opt_find_loop.simps) simp
  next
    case True
    let ?mid = "(low + high) div 2"
    have range: "low \<le> ?mid" "?mid \<le> high" "0 \<le> ?mid" "nat ?mid < length (program_lines st)"
      using "1.prems" True by (auto simp: line_count_def)
    then have ne: "number (program_lines st ! nat ?mid) \<noteq> n"
      using "1.prems"(1) by (metis image_eqI nth_mem)
    show ?thesis
    proof (cases "number (program_lines st ! nat ?mid) < n")
      case lt: True
      with "1.IH"(1)[OF True refl ne lt] "1.prems" range True ne show ?thesis
        by (subst opt_find_loop.simps) (simp add: Let_def)
    next
      case nlt: False
      with "1.IH"(2)[OF True refl ne nlt] "1.prems" range True ne show ?thesis
        by (subst opt_find_loop.simps) (simp add: Let_def)
    qed
  qed
qed

lemma loaded_store_distinct:
  assumes "loaded_store ls"
  shows "distinct (map number ls)"
proof -
  have srt: "sorted_wrt (<) (map number ls)" using assms by (simp add: loaded_store_def)
  have "\<And>i j. i < j \<Longrightarrow> j < length ls \<Longrightarrow> number (ls ! i) \<noteq> number (ls ! j)"
    using srt by (fastforce simp: sorted_wrt_iff_nth_less)
  then have "\<And>i j. i < length ls \<Longrightarrow> j < length ls \<Longrightarrow> i \<noteq> j
               \<Longrightarrow> number (ls ! i) \<noteq> number (ls ! j)"
    by (metis nat_neq_iff)
  then show ?thesis by (simp add: distinct_conv_nth)
qed

lemma opt_find_line_index_step:
  assumes "loaded_store (program_lines st)" and "cache_ok st"
  shows "fst (opt_find_line_index n st) = find_line_index n st \<and>
         cache_ok (snd (opt_find_line_index n st)) \<and>
         program_lines (snd (opt_find_line_index n st)) = program_lines st"
proof -
  let ?ls = "program_lines st"
  have srt: "sorted_wrt (<) (map number ?ls)" and nonneg: "\<forall>l \<in> set ?ls. 0 \<le> number l"
    using assms(1) by (auto simp: loaded_store_def list_all_iff)
  have dist: "distinct (map number ?ls)"
  proof -
    have "\<And>i j. i < j \<Longrightarrow> j < length ?ls \<Longrightarrow> number (?ls ! i) \<noteq> number (?ls ! j)"
      using srt by (fastforce simp: sorted_wrt_iff_nth_less)
    then have "\<And>i j. i < length ?ls \<Longrightarrow> j < length ?ls \<Longrightarrow> i \<noteq> j
                 \<Longrightarrow> number (?ls ! i) \<noteq> number (?ls ! j)"
      by (metis nat_neq_iff)
    then show ?thesis by (simp add: distinct_conv_nth)
  qed
  show ?thesis
  proof (cases "n = last_lookup_num st")
    case True
    show ?thesis
    proof (cases "last_lookup_num st = -1 \<and> last_lookup_idx st = -1")
      case fresh: True
      then have "n \<notin> number ` set ?ls" using nonneg True by auto
      then show ?thesis using True fresh assms(2)
        by (simp add: opt_find_line_index_def find_line_index_def scan_notin)
    next
      case False
      then have c: "0 \<le> last_lookup_idx st" "last_lookup_idx st < line_count st"
        "number (?ls ! nat (last_lookup_idx st)) = n"
        using assms(2) True by (auto simp: cache_ok_def)
      then have "find_line_scan ?ls 0 n = 0 + int (nat (last_lookup_idx st))"
        by (intro scan_in[OF dist]) (auto simp: line_count_def)
      then show ?thesis using True c assms(2)
        by (simp add: opt_find_line_index_def find_line_index_def)
    qed
  next
    case False
    show ?thesis
    proof (cases "n \<in> number ` set ?ls")
      case True
      then obtain k where k: "k < length ?ls" "number (?ls ! k) = n"
        by (auto simp: in_set_conv_nth)
      have "opt_find_loop n 0 (line_count st - 1) st =
            (int k, st\<lparr>last_lookup_num := n, last_lookup_idx := int k\<rparr>)"
        using k srt by (intro opt_find_loop_found) (auto simp: line_count_def)
      moreover have "find_line_scan ?ls 0 n = 0 + int k"
        using k by (intro scan_in[OF dist]) auto
      ultimately show ?thesis using False k
        by (simp add: opt_find_line_index_def find_line_index_def cache_ok_def line_count_def)
    next
      case nin: False
      then have "opt_find_loop n 0 (line_count st - 1) st = (-1, st)"
        by (intro opt_find_loop_missing) (auto simp: line_count_def)
      then show ?thesis using False nin assms(2)
        by (simp add: opt_find_line_index_def find_line_index_def scan_notin)
    qed
  qed
qed

lemma opt_lookups_general:
  "loaded_store (program_lines st) \<Longrightarrow> cache_ok st \<Longrightarrow>
   fst (opt_lookups ns st) = map (\<lambda>n. find_line_index n st) ns"
proof (induction ns arbitrary: st)
  case Nil
  then show ?case by simp
next
  case (Cons n ns)
  obtain r st1 where r: "opt_find_line_index n st = (r, st1)" by (cases "opt_find_line_index n st")
  from opt_find_line_index_step[OF Cons.prems, of n] r
  have s: "r = find_line_index n st" "cache_ok st1" "program_lines st1 = program_lines st" by auto
  have "fst (opt_lookups ns st1) = map (\<lambda>n. find_line_index n st1) ns"
    using Cons.IH[of st1] s Cons.prems by simp
  moreover have "\<And>m. find_line_index m st1 = find_line_index m st"
    using s by (simp add: find_line_index_def)
  ultimately show ?case using r s by (simp add: split_beta)
qed

text \<open>
  C9.  On a store as a successful load leaves it (strictly increasing line
  numbers, all within 0..65535), starting from the untouched cache, every
  sequence of lookups through the cached binary search of \<open>basic.c\<close> returns
  what the linear scan of the classic build returns; and the scan returns the
  index of the line carrying the number when there is one (there is at most
  one) and \<open>-1\<close> otherwise.
\<close>

theorem C9_lookup_refines_scan:
  assumes "loaded_store (program_lines st)"
      and "last_lookup_num st = - 1" and "last_lookup_idx st = - 1"
  shows "fst (opt_lookups ns st) = map (\<lambda>n. find_line_index n st) ns
       \<and> (\<forall>n. (if n \<in> number ` set (program_lines st)
               then 0 \<le> find_line_index n st \<and> find_line_index n st < line_count st
                    \<and> number (program_lines st ! nat (find_line_index n st)) = n
                    \<and> (\<forall>k < length (program_lines st).
                          number (program_lines st ! k) = n \<longrightarrow> int k = find_line_index n st)
               else find_line_index n st = - 1))"
proof -
  let ?ls = "program_lines st"
  have "cache_ok st" using assms(2,3) by (simp add: cache_ok_def)
  then have first: "fst (opt_lookups ns st) = map (\<lambda>n. find_line_index n st) ns"
    using assms(1) by (rule opt_lookups_general[rotated])
  have dist: "distinct (map number ?ls)"
    using assms(1) by (rule loaded_store_distinct)
  have second: "\<And>n. n \<in> number ` set ?ls \<Longrightarrow>
        0 \<le> find_line_index n st \<and> find_line_index n st < line_count st
        \<and> number (?ls ! nat (find_line_index n st)) = n
        \<and> (\<forall>k < length ?ls. number (?ls ! k) = n \<longrightarrow> int k = find_line_index n st)"
  proof -
    fix n assume "n \<in> number ` set ?ls"
    then obtain k where k: "k < length ?ls" "number (?ls ! k) = n"
      by (auto simp: in_set_conv_nth)
    have idx: "find_line_index n st = int k"
      using scan_in[OF dist k, of 0] by (simp add: find_line_index_def)
    have uniq: "\<forall>j < length ?ls. number (?ls ! j) = n \<longrightarrow> int j = find_line_index n st"
      using scan_in[OF dist, of _ n 0] by (simp add: find_line_index_def)
    have "0 \<le> find_line_index n st \<and> find_line_index n st < line_count st
        \<and> number (?ls ! nat (find_line_index n st)) = n"
      using k by (simp add: idx line_count_def)
    with uniq show "0 \<le> find_line_index n st \<and> find_line_index n st < line_count st
        \<and> number (?ls ! nat (find_line_index n st)) = n
        \<and> (\<forall>k < length ?ls. number (?ls ! k) = n \<longrightarrow> int k = find_line_index n st)"
      by blast
  qed
  have third: "\<And>n. n \<notin> number ` set ?ls \<Longrightarrow> find_line_index n st = - 1"
    by (simp add: find_line_index_def scan_notin)
  from first second third show ?thesis by simp
qed

theorem C9_lookup_refines_scan_witness:
  "loaded_store (program_lines (demo_state three_lines))
   \<and> fst (opt_lookups [20, 20, 15, 30, - 1, 10] (demo_state three_lines)) = [1, 1, - 1, 2, - 1, 0]
   \<and> map (\<lambda>n. find_line_index n (demo_state three_lines)) [20, 20, 15, 30, - 1, 10]
       = [1, 1, - 1, 2, - 1, 0]"
proof -
  have l: "loaded_store (program_lines (demo_state three_lines))"
    by (simp add: loaded_store_def demo_state_def three_lines_def)
  have c: "last_lookup_num (demo_state three_lines) = - 1"
          "last_lookup_idx (demo_state three_lines) = - 1"
    by (simp_all add: demo_state_def initial_state_def)
  have m: "map (\<lambda>n. find_line_index n (demo_state three_lines)) [20, 20, 15, 30, - 1, 10]
           = [1, 1, - 1, 2, - 1, 0]"
    by (simp add: find_line_index_def demo_state_def three_lines_def)
  from C9_lookup_refines_scan[OF l c, of "[20, 20, 15, 30, - 1, 10]"] l m show ?thesis
    by simp
qed

section \<open>GOSUB to a missing line\<close>

lemma find_line_index_missing:
  "n \<notin> number ` set (program_lines st) \<Longrightarrow> find_line_index n st = - 1"
  by (simp add: find_line_index_def scan_notin)

lemma opt_find_line_index_missing:
  assumes "n \<notin> number ` set (program_lines st)" and "cache_ok st"
  shows "opt_find_line_index n st = (- 1, st)"
proof (cases "n = last_lookup_num st")
  case True
  have "last_lookup_num st = - 1 \<and> last_lookup_idx st = - 1"
  proof (rule ccontr)
    assume "\<not> ?thesis"
    with assms(2) have "0 \<le> last_lookup_idx st" "last_lookup_idx st < line_count st"
      "number (program_lines st ! nat (last_lookup_idx st)) = n"
      using True by (auto simp: cache_ok_def)
    then have "n \<in> number ` set (program_lines st)"
      by (metis image_eqI line_count_def nat_less_iff nth_mem)
    with assms(1) show False by contradiction
  qed
  with True show ?thesis by (cases st) (simp add: opt_find_line_index_def)
next
  case False
  with assms(1) show ?thesis
    by (simp add: opt_find_line_index_def opt_find_loop_missing line_count_def)
qed

text \<open>
  The target of GOSUB is the \<open>int\<close> that \<open>atoi\<close> returns: on the lines 10, 20, 30
  \<open>GOSUB 4294967316\<close> finds line 20 and jumps there.
\<close>

lemma gosub_target_is_int:
  "c_atoi (skip_spaces '' 4294967316'') = 20"
  "current_line (statement_gosub '' 4294967316'' (demo_state three_lines)) = 1"
  "\<not> halted (statement_gosub '' 4294967316'' (demo_state three_lines))"
  "current_line (opt_statement_gosub '' 4294967316'' (demo_state three_lines)) = 1"
  "\<not> halted (opt_statement_gosub '' 4294967316'' (demo_state three_lines))"
  by (simp_all add: lex_defs state_defs classic_defs opt_defs three_lines_def)

text \<open>
  C10.  When \<open>GOSUB n\<close> finds room on the stack but no line numbered \<open>n\<close>
  (\<open>n\<close> being the \<open>int\<close> that \<open>atoi\<close> reads at the cursor), the return frame
  (current line index, cursor after the number) is pushed before the error is
  reported: after the failed statement the stack is one entry deeper, the run
  is halted with ``Target line not found'', and \<open>current_line\<close> is \<open>-1\<close>.
  Both builds.
\<close>

theorem C10_gosub_pushes_before_error:
  assumes "c_atoi (skip_spaces p) \<notin> number ` set (program_lines st)"
  shows "(gosub_top st < MAX_GOSUB \<longrightarrow>
            gosub_stack (statement_gosub p st) =
              gosub_stack st @ [\<lparr>g_line_index = current_line st,
                                  g_position = skip_digits (skip_spaces p)\<rparr>]
          \<and> gosub_top (statement_gosub p st) = gosub_top st + 1
          \<and> halted (statement_gosub p st)
          \<and> err (statement_gosub p st) = err st @ ''Error: Target line not found'' @ [CHR 0x0A]
          \<and> current_line (statement_gosub p st) = - 1)
       \<and> (gosub_top st < OPT_MAX_GOSUB \<and> cache_ok st \<longrightarrow>
            gosub_stack (opt_statement_gosub p st) =
              gosub_stack st @ [\<lparr>g_line_index = current_line st,
                                  g_position = skip_digits (skip_spaces p)\<rparr>]
          \<and> gosub_top (opt_statement_gosub p st) = gosub_top st + 1
          \<and> halted (opt_statement_gosub p st)
          \<and> err (opt_statement_gosub p st) = err st @ ''Error: Target line not found'' @ [CHR 0x0A]
          \<and> current_line (opt_statement_gosub p st) = - 1)"
proof (intro conjI impI)
  let ?n = "c_atoi (skip_spaces p)"
  let ?fr = "\<lparr>g_line_index = current_line st, g_position = skip_digits (skip_spaces p)\<rparr>"
  let ?st2 = "(set_pos (skip_digits (skip_spaces p)) st)\<lparr>gosub_stack := gosub_stack st @ [?fr]\<rparr>"
  have miss: "find_line_index ?n ?st2 = - 1"
    using assms by (intro find_line_index_missing) (simp add: set_pos_def)
  {
    assume top: "gosub_top st < MAX_GOSUB"
    have eq: "statement_gosub p st
            = runtime_error ''Target line not found'' (?st2\<lparr>current_line := - 1\<rparr>)"
      using top miss by (simp add: statement_gosub_def Let_def set_pos_def)
    show "gosub_stack (statement_gosub p st) = gosub_stack st @ [?fr]"
      by (simp add: eq runtime_error_def set_pos_def)
    show "gosub_top (statement_gosub p st) = gosub_top st + 1"
      by (simp add: eq runtime_error_def set_pos_def gosub_top_def)
    show "halted (statement_gosub p st)" by (simp add: eq runtime_error_def)
    show "err (statement_gosub p st) = err st @ ''Error: Target line not found'' @ [CHR 0x0A]"
      by (simp add: eq runtime_error_def set_pos_def)
    show "current_line (statement_gosub p st) = - 1" by (simp add: eq runtime_error_def)
  }
  {
    assume "gosub_top st < OPT_MAX_GOSUB \<and> cache_ok st"
    then have top: "gosub_top st < OPT_MAX_GOSUB" and c: "cache_ok st" by simp_all
    have c2: "cache_ok ?st2" using c by (simp add: cache_ok_def set_pos_def line_count_def)
    have omiss: "opt_find_line_index ?n ?st2 = (- 1, ?st2)"
      using assms c2 by (intro opt_find_line_index_missing) (simp_all add: set_pos_def)
    have eq: "opt_statement_gosub p st
            = opt_runtime_error ''Target line not found'' (?st2\<lparr>current_line := - 1\<rparr>)"
      using top omiss by (simp add: opt_statement_gosub_def Let_def set_pos_def)
    show "gosub_stack (opt_statement_gosub p st) = gosub_stack st @ [?fr]"
      by (simp add: eq opt_runtime_error_def set_pos_def)
    show "gosub_top (opt_statement_gosub p st) = gosub_top st + 1"
      by (simp add: eq opt_runtime_error_def set_pos_def gosub_top_def)
    show "halted (opt_statement_gosub p st)" by (simp add: eq opt_runtime_error_def)
    show "err (opt_statement_gosub p st) = err st @ ''Error: Target line not found'' @ [CHR 0x0A]"
      by (simp add: eq opt_runtime_error_def set_pos_def)
    show "current_line (opt_statement_gosub p st) = - 1" by (simp add: eq opt_runtime_error_def)
  }
qed

theorem C10_gosub_pushes_before_error_witness:
  "c_atoi (skip_spaces '' 200'') \<notin> number ` set (program_lines (demo_state three_lines))
   \<and> gosub_top (demo_state three_lines) < MAX_GOSUB
   \<and> gosub_top (demo_state three_lines) < OPT_MAX_GOSUB \<and> cache_ok (demo_state three_lines)
   \<and> gosub_stack (statement_gosub '' 200'' (demo_state three_lines))
       = [\<lparr>g_line_index = 0, g_position = []\<rparr>]
   \<and> halted (statement_gosub '' 200'' (demo_state three_lines))
   \<and> gosub_stack (opt_statement_gosub '' 200'' (demo_state three_lines))
       = [\<lparr>g_line_index = 0, g_position = []\<rparr>]
   \<and> halted (opt_statement_gosub '' 200'' (demo_state three_lines))"
proof -
  have h: "c_atoi (skip_spaces '' 200'') \<notin> number ` set (program_lines (demo_state three_lines))"
    by (simp add: lex_defs state_defs three_lines_def)
  have g: "gosub_top (demo_state three_lines) < MAX_GOSUB"
          "gosub_top (demo_state three_lines) < OPT_MAX_GOSUB" "cache_ok (demo_state three_lines)"
    by (simp_all add: state_defs MAX_GOSUB_def OPT_MAX_GOSUB_def cache_ok_def)
  have e: "gosub_stack (demo_state three_lines) = []" "current_line (demo_state three_lines) = 0"
          "skip_digits (skip_spaces '' 200'') = []"
    by (simp_all add: lex_defs state_defs)
  from C10_gosub_pushes_before_error[OF h] g e h show ?thesis by simp
qed

section \<open>NEXT\<close>












section \<open>Exit code\<close>

lemma load_lines_exit_1: "load_lines f st = Inl (c, st') \<Longrightarrow> c = 1"
proof (induction f st rule: load_lines.induct)
  case (1 f st)
  show ?case
  proof (cases "c_fgets MAX_LINE_LEN f")
    case None
    with "1.prems" show ?thesis by (simp add: load_lines.simps)
  next
    case (Some a)
    obtain raw rest where a: "a = (raw, rest)" by (cases a)
    let ?p = "skip_bom (skip_spaces (trim_newline raw))"
    show ?thesis
    proof (cases "peek ?p = CHR 0x00")
      case True
      with "1.prems" "1.IH"(1)[OF Some a[symmetric] refl refl True] Some a show ?thesis
        by (simp add: load_lines.simps[of f])
    next
      case False
      show ?thesis
      proof (cases "c_isdigit (peek ?p)")
        case d: True
        with "1.prems" "1.IH"(2)[OF Some a[symmetric] refl refl False _ refl refl] Some a False
        show ?thesis by (simp add: load_lines.simps[of f] Let_def)
      next
        case nd: False
        with "1.prems" Some a False show ?thesis by (simp add: load_lines.simps[of f] Let_def)
      qed
    qed
  qed
qed

lemma load_program_exit_1: "load_program path file st = Inl (c, st') \<Longrightarrow> c = 1"
  by (auto simp: load_program_def split: option.splits sum.splits dest: load_lines_exit_1)

lemma opt_load_lines_exit_1: "opt_load_lines f st = Inl (c, st') \<Longrightarrow> c = 1"
proof (induction f st rule: opt_load_lines.induct)
  case (1 f st)
  show ?case
  proof (cases "c_fgets OPT_MAX_LINE_LEN f")
    case None
    with "1.prems" show ?thesis by (simp add: opt_load_lines.simps)
  next
    case (Some a)
    obtain raw rest where a: "a = (raw, rest)" by (cases a)
    let ?p = "skip_bom (skip_spaces (trim_newline raw))"
    show ?thesis
    proof (cases "length raw \<ge> OPT_MAX_LINE_LEN - 1 \<and> raw ! (OPT_MAX_LINE_LEN - 2) \<noteq> CHR 0x0A")
      case long: True
      with "1.prems" Some a show ?thesis by (simp add: opt_load_lines.simps[of f])
    next
      case short: False
      show ?thesis
      proof (cases "peek ?p = CHR 0x00")
        case True
        with "1.prems" "1.IH"(1)[OF Some a[symmetric] short refl refl True] Some a short show ?thesis
          by (auto simp: opt_load_lines.simps[of f] Let_def split: if_splits)
      next
        case False
        show ?thesis
        proof (cases "c_isdigit (peek ?p)")
          case nd: False
          with "1.prems" Some a False short show ?thesis
            by (auto simp: opt_load_lines.simps[of f] Let_def split: if_splits)
        next
          case d: True
          show ?thesis
          proof (cases "c_atoi ?p < 0 \<or> c_atoi ?p > 65535")
            case True
            with "1.prems" Some a False short d show ?thesis
              by (auto simp: opt_load_lines.simps[of f] Let_def split: if_splits)
          next
            case inr: False
            with "1.prems" "1.IH"(2)[OF Some a[symmetric] short refl refl False _ refl _ refl] Some a
              False short d
            show ?thesis by (auto simp: opt_load_lines.simps[of f] Let_def split: if_splits)
          qed
        qed
      qed
    qed
  qed
qed

lemma opt_load_program_exit_1: "opt_load_program path file st = Inl (c, st') \<Longrightarrow> c = 1"
  by (auto simp: opt_load_program_def split: option.splits sum.splits dest: opt_load_lines_exit_1)

lemma main_exit_code:
  assumes "main fuel argv fs st = Some (c, st')"
  shows "c = (if load_failed argv fs st then 1 else 0)"
proof (cases "length argv < 2")
  case True
  with assms show ?thesis by (simp add: main_def load_failed_def)
next
  case False
  show ?thesis
  proof (cases "load_program (argv ! 1) (fs (argv ! 1)) st")
    case (Inl e)
    obtain c0 s0 where e: "e = (c0, s0)" by (cases e)
    with Inl have "c0 = 1" by (auto dest: load_program_exit_1)
    with assms False Inl e show ?thesis by (simp add: main_def load_failed_def)
  next
    case (Inr st1)
    with assms False show ?thesis
      by (auto simp: main_def load_failed_def split: bind_splits)
  qed
qed

lemma opt_main_exit_code:
  assumes "opt_main fuel argv fs st = Some (c, st')"
  shows "c = (if opt_load_failed argv fs st then 1 else 0)"
proof (cases "length argv < 2")
  case True
  with assms show ?thesis by (simp add: opt_main_def opt_load_failed_def)
next
  case False
  show ?thesis
  proof (cases "opt_load_program (argv ! 1) (fs (argv ! 1)) st")
    case (Inl e)
    obtain c0 s0 where e: "e = (c0, s0)" by (cases e)
    with Inl have "c0 = 1" by (auto dest: opt_load_program_exit_1)
    with assms False Inl e show ?thesis by (simp add: opt_main_def opt_load_failed_def)
  next
    case (Inr st1)
    with assms False show ?thesis
      by (auto simp: opt_main_def opt_load_failed_def split: bind_splits)
  qed
qed


lemma main_load_failed:
  assumes "load_failed argv fs st"
  shows "exit_code (main fuel argv fs st) = Some 1"
proof (cases "length argv < 2")
  case True
  then show ?thesis by (simp add: main_def exit_code_def)
next
  case False
  with assms obtain e where e: "load_program (argv ! 1) (fs (argv ! 1)) st = Inl e"
    by (auto simp: load_failed_def isl_def)
  obtain c0 s0 where c: "e = (c0, s0)" by (cases e)
  with e have "c0 = 1" by (auto dest: load_program_exit_1)
  with False e c show ?thesis by (simp add: main_def exit_code_def)
qed

lemma opt_main_load_failed:
  assumes "opt_load_failed argv fs st"
  shows "exit_code (opt_main fuel argv fs st) = Some 1"
proof (cases "length argv < 2")
  case True
  then show ?thesis by (simp add: opt_main_def exit_code_def)
next
  case False
  with assms obtain e where e: "opt_load_program (argv ! 1) (fs (argv ! 1)) st = Inl e"
    by (auto simp: opt_load_failed_def isl_def)
  obtain c0 s0 where c: "e = (c0, s0)" by (cases e)
  with e have "c0 = 1" by (auto dest: opt_load_program_exit_1)
  with False e c show ?thesis by (simp add: opt_main_def exit_code_def)
qed

lemma main_loaded:
  assumes "\<not> load_failed argv fs st"
  shows "exit_code (main fuel argv fs st)
           = map_option (\<lambda>st'. 0) (run_program fuel (loaded argv fs st))"
proof -
  from assms have l: "\<not> length argv < 2" and
    "\<not> isl (load_program (argv ! 1) (fs (argv ! 1)) st)"
    by (simp_all add: load_failed_def)
  then obtain st1 where s: "load_program (argv ! 1) (fs (argv ! 1)) st = Inr st1"
    by (cases "load_program (argv ! 1) (fs (argv ! 1)) st") simp_all
  show ?thesis
    using l s by (cases "run_program fuel st1") (simp_all add: main_def exit_code_def loaded_def)
qed

lemma opt_main_loaded:
  assumes "\<not> opt_load_failed argv fs st"
  shows "exit_code (opt_main fuel argv fs st)
           = map_option (\<lambda>st'. 0) (opt_run_program fuel (opt_loaded argv fs st))"
proof -
  from assms have l: "\<not> length argv < 2" and
    "\<not> isl (opt_load_program (argv ! 1) (fs (argv ! 1)) st)"
    by (simp_all add: opt_load_failed_def)
  then obtain st1 where s: "opt_load_program (argv ! 1) (fs (argv ! 1)) st = Inr st1"
    by (cases "opt_load_program (argv ! 1) (fs (argv ! 1)) st") simp_all
  show ?thesis
    using l s
    by (cases "opt_run_program fuel st1") (simp_all add: opt_main_def exit_code_def opt_loaded_def)
qed

text \<open>
  C2, as the code has it.  When the loader gives up (no file argument, or
  \<open>load_program\<close> called \<open>exit(1)\<close>: file not openable, line without a number,
  and in \<open>basic.c\<close> line too long or number out of range) the process exits
  with code 1.  Once the program is loaded the exit code is 0 as soon as the
  run ends, however it ends (END, STOP, falling off the last line, or a
  runtime error); a run that outlasts the fuel has no exit code.  Both
  builds.
\<close>

theorem C2_exit_code:
  "exit_code (main fuel argv fs st)
     = (if load_failed argv fs st then Some 1
        else map_option (\<lambda>st'. 0) (run_program fuel (loaded argv fs st)))
 \<and> exit_code (opt_main fuel argv fs st)
     = (if opt_load_failed argv fs st then Some 1
        else map_option (\<lambda>st'. 0) (opt_run_program fuel (opt_loaded argv fs st)))"
  by (simp add: main_load_failed opt_main_load_failed main_loaded opt_main_loaded)

lemma run_end:
  "exit_code (main 5 [''basic'', ''p.bas''] (one_file prog_end) start) = Some 0"
  "final out (main 5 [''basic'', ''p.bas''] (one_file prog_end) start) = Some (''1'' @ [CHR 0x0A])"
  "final err (main 5 [''basic'', ''p.bas''] (one_file prog_end) start) = Some []"
  "exit_code (opt_main 5 [''basic'', ''p.bas''] (one_file prog_end) start) = Some 0"
  "final err (opt_main 5 [''basic'', ''p.bas''] (one_file prog_end) start) = Some []"
  by (simp_all add: eval_nat_numeral prog_end_def lex_defs state_defs classic_defs opt_defs)

lemma run_stop:
  "exit_code (main 5 [''basic'', ''p.bas''] (one_file prog_stop) start) = Some 0"
  "final out (main 5 [''basic'', ''p.bas''] (one_file prog_stop) start) = Some []"
  "final err (main 5 [''basic'', ''p.bas''] (one_file prog_stop) start) = Some []"
  "exit_code (opt_main 5 [''basic'', ''p.bas''] (one_file prog_stop) start) = Some 0"
  "final err (opt_main 5 [''basic'', ''p.bas''] (one_file prog_stop) start) = Some []"
  by (simp_all add: eval_nat_numeral prog_stop_def lex_defs state_defs classic_defs opt_defs)

lemma run_fall_off:
  "exit_code (main 5 [''basic'', ''p.bas''] (one_file prog_fall_off) start) = Some 0"
  "final out (main 5 [''basic'', ''p.bas''] (one_file prog_fall_off) start)
     = Some (''1'' @ [CHR 0x0A])"
  "final err (main 5 [''basic'', ''p.bas''] (one_file prog_fall_off) start) = Some []"
  "exit_code (opt_main 5 [''basic'', ''p.bas''] (one_file prog_fall_off) start) = Some 0"
  "final err (opt_main 5 [''basic'', ''p.bas''] (one_file prog_fall_off) start) = Some []"
  by (simp_all add: eval_nat_numeral prog_fall_off_def lex_defs state_defs classic_defs opt_defs)

lemma run_no_number:
  "exit_code (main 5 [''basic'', ''p.bas''] (one_file prog_no_number) start) = Some 1"
  "exit_code (main 5 [''basic'', ''q.bas''] (one_file prog_no_number) start) = Some 1"
  "exit_code (main 5 [''basic''] (one_file prog_no_number) start) = Some 1"
  "exit_code (opt_main 5 [''basic'', ''p.bas''] (one_file prog_no_number) start) = Some 1"
  by (simp_all add: eval_nat_numeral prog_no_number_def lex_defs state_defs classic_defs opt_defs)

lemma load_failed_examples:
  "\<not> load_failed [''basic'', ''p.bas''] (one_file prog_end) start"
  "\<not> opt_load_failed [''basic'', ''p.bas''] (one_file prog_end) start"
  "load_failed [''basic'', ''p.bas''] (one_file prog_no_number) start"
  "opt_load_failed [''basic'', ''p.bas''] (one_file prog_no_number) start"
  "load_failed [''basic'', ''q.bas''] (one_file prog_end) start"
  "load_failed [''basic''] (one_file prog_end) start"
  by (simp_all add: load_failed_def opt_load_failed_def prog_end_def prog_no_number_def
        lex_defs state_defs classic_defs opt_defs)

text \<open>
  The line number is the \<open>int\<close> that \<open>atoi\<close> returns: \<open>basic.c\<close> loads the line
  \<open>4294967306 PRINT 5\<close> as line 10, and refuses \<open>70000 PRINT 5\<close> and
  \<open>2147483648 PRINT 5\<close> (which \<open>atoi\<close> turns into \<open>INT_MIN\<close>).
\<close>

lemma opt_load_line_number:
  "\<not> opt_load_failed [''basic'', ''p.bas''] (one_file (''4294967306 PRINT 5'' @ [CHR 0x0A])) start"
  "final out (opt_main 5 [''basic'', ''p.bas''] (one_file (''4294967306 PRINT 5'' @ [CHR 0x0A])) start)
     = Some (''5'' @ [CHR 0x0A])"
  "exit_code (opt_main 5 [''basic'', ''p.bas''] (one_file (''4294967306 PRINT 5'' @ [CHR 0x0A])) start)
     = Some 0"
  "opt_load_failed [''basic'', ''p.bas''] (one_file (''70000 PRINT 5'' @ [CHR 0x0A])) start"
  "opt_load_failed [''basic'', ''p.bas''] (one_file (''2147483648 PRINT 5'' @ [CHR 0x0A])) start"
  by (simp_all add: eval_nat_numeral opt_load_failed_def lex_defs state_defs opt_defs)

theorem C2_exit_code_witness:
  "\<not> load_failed [''basic'', ''p.bas''] (one_file prog_end) start
   \<and> exit_code (main 5 [''basic'', ''p.bas''] (one_file prog_end) start) = Some 0
   \<and> map_option (\<lambda>st'. 0::int) (run_program 5 (loaded [''basic'', ''p.bas''] (one_file prog_end) start))
       = Some 0
   \<and> \<not> opt_load_failed [''basic'', ''p.bas''] (one_file prog_end) start
   \<and> exit_code (opt_main 5 [''basic'', ''p.bas''] (one_file prog_end) start) = Some 0
   \<and> load_failed [''basic'', ''p.bas''] (one_file prog_no_number) start
   \<and> exit_code (main 5 [''basic'', ''p.bas''] (one_file prog_no_number) start) = Some 1
   \<and> opt_load_failed [''basic'', ''p.bas''] (one_file prog_no_number) start
   \<and> exit_code (opt_main 5 [''basic'', ''p.bas''] (one_file prog_no_number) start) = Some 1
   \<and> load_failed [''basic''] (one_file prog_end) start
   \<and> exit_code (main 5 [''basic''] (one_file prog_end) start) = Some 1"
  using C2_exit_code[of 5 "[''basic'', ''p.bas'']" "one_file prog_end" start]
        C2_exit_code[of 5 "[''basic'', ''p.bas'']" "one_file prog_no_number" start]
        C2_exit_code[of 5 "[''basic'']" "one_file prog_end" start]
        run_end(1,4) load_failed_examples
  by simp

text \<open>
  The claim's last part fails: \<open>10 GOTO 99\<close> stops on the runtime error
  ``Target line not found'' and the process still exits with code 0.
\<close>

theorem C2_runtime_error_exits_0:
  "exit_code (main 5 [''basic'', ''p.bas''] (one_file prog_goto_missing) start) = Some 0
   \<and> final halted (main 5 [''basic'', ''p.bas''] (one_file prog_goto_missing) start) = Some True
   \<and> final err (main 5 [''basic'', ''p.bas''] (one_file prog_goto_missing) start)
       = Some (''Error: Target line not found'' @ [CHR 0x0A])
   \<and> exit_code (opt_main 5 [''basic'', ''p.bas''] (one_file prog_goto_missing) start) = Some 0
   \<and> final halted (opt_main 5 [''basic'', ''p.bas''] (one_file prog_goto_missing) start) = Some True
   \<and> final err (opt_main 5 [''basic'', ''p.bas''] (one_file prog_goto_missing) start)
       = Some (''Error: Target line not found'' @ [CHR 0x0A])"
  by (simp add: eval_nat_numeral prog_goto_missing_def lex_defs state_defs classic_defs opt_defs)

section \<open>Print column\<close>

lemma print_value_num:
  "type v = VAL_NUM \<Longrightarrow>
   print_col (print_value v st) = print_col st + int (length (host_g st (num v)))"
  by (simp add: print_value_def Let_def)

text \<open>
  C3 fails on the code.  \<open>print_value\<close> wraps the column for every character
  of a string and \<open>print_spaces\<close> for every space, but for a number it adds the
  length of the text without the test.  \<open>PRINT TAB(79);12;\<close> leaves the column
  at 81 in both builds, and a program made of that one line ends there.
\<close>

theorem C3_number_passes_width:
  "map_option print_col (execute_statement 5 ''PRINT TAB(79);12;'' start) = Some 81
   \<and> map_option halted (execute_statement 5 ''PRINT TAB(79);12;'' start) = Some False
   \<and> map_option print_col (opt_execute_statement 5 ''PRINT TAB(79);12;'' start) = Some 81
   \<and> map_option halted (opt_execute_statement 5 ''PRINT TAB(79);12;'' start) = Some False
   \<and> \<not> (81 < PRINT_WIDTH)"
  by (simp add: eval_nat_numeral lex_defs state_defs classic_defs opt_defs)

section \<open>Comparisons\<close>

lemma eval_comparison_result:
  assumes l: "eval_expr ev n (skip_spaces p) st = Some (l, p1, st1)"
      and op: "rel_op (skip_spaces p1) = Some op"
      and r: "eval_expr ev n (drop (length op) (skip_spaces p1)) st1 = Some (r, p3, st2)"
  shows "\<exists>v st'. eval_comparison ev n p st = Some (v, p3, st')
           \<and> (v = make_num (- 1) \<or> v = make_num 0)
           \<and> (\<not> halted st' \<longrightarrow> st' = st2 \<and> type l = type r
                 \<and> (v = make_num (- 1) \<longleftrightarrow> rel_holds op l r))"
proof -
  have ne: "make_num (- 1) \<noteq> make_num 0" by (simp add: make_num_def)
  from op consider (ne) "op = ''<>''" | (le) "op = ''<=''" | (ge) "op = ''>=''"
    | (lt) "op = ''<''" | (gt) "op = ''>''" | (eq) "op = ''=''"
    by (auto simp: rel_op_def split: if_splits)
  then show ?thesis
  proof cases
    case ne
    with op have c: "peek (skip_spaces p1) = CHR ''<''" "peek (tl (skip_spaces p1)) = CHR ''>''"
      by (auto simp: rel_op_def split: if_splits)
    have r2: "eval_expr ev n (drop 2 (skip_spaces p1)) st1 = Some (r, p3, st2)"
      using r ne by (simp add: numeral_2_eq_2)
    show ?thesis using l r2 c ne
      by (cases "type l"; cases "type r")
         (auto simp: eval_comparison_def Let_def neg_one_if_def rel_holds_def make_num_def)
  next
    case le
    with op have c: "peek (skip_spaces p1) = CHR ''<''" "peek (tl (skip_spaces p1)) = CHR ''=''"
      by (auto simp: rel_op_def split: if_splits)
    have r2: "eval_expr ev n (drop 2 (skip_spaces p1)) st1 = Some (r, p3, st2)"
      using r le by (simp add: numeral_2_eq_2)
    show ?thesis using l r2 c le
      by (cases "type l"; cases "type r")
         (auto simp: eval_comparison_def Let_def neg_one_if_def rel_holds_def make_num_def)
  next
    case ge
    with op have c: "peek (skip_spaces p1) = CHR ''>''" "peek (tl (skip_spaces p1)) = CHR ''=''"
      by (auto simp: rel_op_def split: if_splits)
    have r2: "eval_expr ev n (drop 2 (skip_spaces p1)) st1 = Some (r, p3, st2)"
      using r ge by (simp add: numeral_2_eq_2)
    show ?thesis using l r2 c ge
      by (cases "type l"; cases "type r")
         (auto simp: eval_comparison_def Let_def neg_one_if_def rel_holds_def make_num_def)
  next
    case lt
    with op have c: "peek (skip_spaces p1) = CHR ''<''" "peek (tl (skip_spaces p1)) \<noteq> CHR ''>''"
      "peek (tl (skip_spaces p1)) \<noteq> CHR ''=''"
      by (auto simp: rel_op_def split: if_splits)
    have r2: "eval_expr ev n (tl (skip_spaces p1)) st1 = Some (r, p3, st2)"
      using r lt by (simp add: drop_Suc)
    show ?thesis using l r2 c lt
      by (cases "type l"; cases "type r")
         (auto simp: eval_comparison_def Let_def neg_one_if_def rel_holds_def make_num_def)
  next
    case gt
    with op have c: "peek (skip_spaces p1) = CHR ''>''" "peek (tl (skip_spaces p1)) \<noteq> CHR ''=''"
      by (auto simp: rel_op_def split: if_splits)
    have r2: "eval_expr ev n (tl (skip_spaces p1)) st1 = Some (r, p3, st2)"
      using r gt by (simp add: drop_Suc)
    show ?thesis using l r2 c gt
      by (cases "type l"; cases "type r")
         (auto simp: eval_comparison_def Let_def neg_one_if_def rel_holds_def make_num_def)
  next
    case eq
    with op have c: "peek (skip_spaces p1) = CHR ''=''"
      by (auto simp: rel_op_def split: if_splits)
    have r2: "eval_expr ev n (tl (skip_spaces p1)) st1 = Some (r, p3, st2)"
      using r eq by (simp add: drop_Suc)
    show ?thesis using l r2 c eq
      by (cases "type l"; cases "type r")
         (auto simp: eval_comparison_def Let_def neg_one_if_def rel_holds_def make_num_def)
  qed
qed

lemma opt_eval_condition_truth:
  "opt_eval_condition n p st = Some (c, p', st') \<Longrightarrow> c = 0 \<or> c = 1"
  by (auto simp: opt_eval_condition_def c_bool_def Let_def split: bind_splits if_splits)


text \<open>
  C1, as the code has it.  Classic build: whenever the two operands of a
  relational operator evaluate, \<open>eval_comparison\<close> returns a number that is
  exactly \<open>-1\<close> or \<open>0\<close>, and when no error was raised it is \<open>-1\<close> exactly
  when the comparison holds; the value is an ordinary expression value
  (\<open>PRINT 1<2; 2<1; (1<2)+5\<close> prints \<open>-1\<close>, \<open>0\<close> and \<open>4\<close>).  \<open>basic.c\<close>: comparisons
  are read by \<open>eval_condition\<close> only, whose result is the C truth value 0 or 1.
\<close>

theorem C1_comparison_value:
  "(eval_expr ev n (skip_spaces p) st = Some (l, p1, st1)
      \<and> rel_op (skip_spaces p1) = Some op
      \<and> eval_expr ev n (drop (length op) (skip_spaces p1)) st1 = Some (r, p3, st2)
    \<longrightarrow> (\<exists>v st'. eval_comparison ev n p st = Some (v, p3, st')
           \<and> (v = make_num (- 1) \<or> v = make_num 0)
           \<and> (\<not> halted st' \<longrightarrow> st' = st2 \<and> type l = type r
                 \<and> (v = make_num (- 1) \<longleftrightarrow> rel_holds op l r))))
 \<and> map_option out (execute_statement 6 ''PRINT 1<2; 2<1; (1<2)+5'' start)
      = Some (''-104'' @ [CHR 0x0A])
 \<and> map_option halted (execute_statement 6 ''PRINT 1<2; 2<1; (1<2)+5'' start) = Some False
 \<and> (opt_eval_condition n p st = Some (c, p', st') \<longrightarrow> c = 0 \<or> c = 1)"
proof (intro conjI impI)
  assume "eval_expr ev n (skip_spaces p) st = Some (l, p1, st1)
      \<and> rel_op (skip_spaces p1) = Some op
      \<and> eval_expr ev n (drop (length op) (skip_spaces p1)) st1 = Some (r, p3, st2)"
  then show "\<exists>v st'. eval_comparison ev n p st = Some (v, p3, st')
           \<and> (v = make_num (- 1) \<or> v = make_num 0)
           \<and> (\<not> halted st' \<longrightarrow> st' = st2 \<and> type l = type r
                 \<and> (v = make_num (- 1) \<longleftrightarrow> rel_holds op l r))"
    using eval_comparison_result[of ev n p st l p1 st1 op r p3 st2] by blast
next
  show "map_option out (execute_statement 6 ''PRINT 1<2; 2<1; (1<2)+5'' start)
      = Some (''-104'' @ [CHR 0x0A])"
    by (simp add: eval_nat_numeral lex_defs state_defs classic_defs)
next
  show "map_option halted (execute_statement 6 ''PRINT 1<2; 2<1; (1<2)+5'' start) = Some False"
    by (simp add: eval_nat_numeral lex_defs state_defs classic_defs)
next
  assume "opt_eval_condition n p st = Some (c, p', st')"
  then show "c = 0 \<or> c = 1" by (rule opt_eval_condition_truth)
qed

theorem C1_comparison_value_witness:
  "eval_expr (eval_or_expr 3) 3 (skip_spaces ''1 < 2'') start = Some (make_num 1, ''< 2'', start)
   \<and> rel_op (skip_spaces ''< 2'') = Some ''<''
   \<and> eval_expr (eval_or_expr 3) 3 (drop (length ''<'') (skip_spaces ''< 2'')) start
       = Some (make_num 2, [], start)
   \<and> eval_comparison (eval_or_expr 3) 3 ''1 < 2'' start = Some (make_num (- 1), [], start)
   \<and> rel_holds ''<'' (make_num 1) (make_num 2)
   \<and> opt_eval_condition 3 ''1 < 2'' start = Some (1, [], start)"
proof -
  have e: "eval_expr (eval_or_expr 3) 3 (skip_spaces ''1 < 2'') start = Some (make_num 1, ''< 2'', start)"
      "rel_op (skip_spaces ''< 2'') = Some ''<''"
      "eval_expr (eval_or_expr 3) 3 (drop (length ''<'') (skip_spaces ''< 2'')) start
         = Some (make_num 2, [], start)"
      "eval_comparison (eval_or_expr 3) 3 ''1 < 2'' start = Some (make_num (- 1), [], start)"
      "rel_holds ''<'' (make_num 1) (make_num 2)"
    by (simp_all add: eval_nat_numeral rel_op_def rel_holds_def lex_defs state_defs classic_defs)
  have o: "opt_eval_condition 3 ''1 < 2'' start = Some (1, [], start)"
    by (simp add: eval_nat_numeral lex_defs state_defs opt_defs)
  from C1_comparison_value[where ev = "eval_or_expr 3" and n = 3 and p = "''1 < 2''"
          and st = start and l = "make_num 1" and ?p1.0 = "''< 2''" and ?st1.0 = start
          and op = "''<''" and r = "make_num 2" and ?p3.0 = "[]" and ?st2.0 = start
          and c = 1 and p' = "[]" and st' = start] e o
  show ?thesis by simp
qed

theorem C1_basic_c_comparison:
  "map_option fst (opt_eval_condition 5 ''1<2'' start) = Some 1
   \<and> map_option fst (opt_eval_expr 5 ''1<2'' start) = Some (make_num 1)
   \<and> map_option (fst \<circ> snd) (opt_eval_expr 5 ''1<2'' start) = Some ''<2''
   \<and> final out (opt_main 5 [''basic'', ''p.bas''] (one_file prog_print_cmp) start)
       = Some (''1'' @ [CHR 0x0A])
   \<and> final err (opt_main 5 [''basic'', ''p.bas''] (one_file prog_print_cmp) start)
       = Some (''Error at line 10: Unknown statement'' @ [CHR 0x0A])"
  by (simp add: eval_nat_numeral prog_print_cmp_def lex_defs state_defs opt_defs)


section \<open>AND and OR\<close>



text \<open>
  Outside the range of \<open>int\<close> the conversion, not the truncation, decides:
  \<open>4294967297 AND 1\<close> is 0 and \<open>4294967296 OR 1\<close> is \<open>-2147483647\<close>.
\<close>

lemma and_or_outside_int:
  "map_option fst (eval_or_expr 5 ''4294967297 AND 1'' start) = Some (make_num 0)"
  "map_option fst (eval_or_expr 5 ''4294967296 OR 1'' start) = Some (make_num (- 2147483647))"
  "\<not> fits_int 4294967297"
  by (simp_all add: fuel_numeral lex_defs state_defs classic_defs fits_int_def)





section \<open>LEFT$ and MID$\<close>

lemma left_mid_concat:
  assumes "length s \<le> MAX_STR_LEN - 1" and "0 \<le> n" and "n \<le> int (length s)"
  shows "concat_values (fn_left (make_str s) (make_num (of_int n)))
           (fn_mid (make_str s) (make_num (of_int n + 1)) None) = make_str s"
proof -
  have s: "str (make_str s) = s" using assms(1) by (simp add: make_str_def)
  have nn: "nat n \<le> length s" using assms by linarith
  have t: "to_int (of_int n) = n" "to_int (of_int n + 1) = n + 1"
    using assms
    by (simp_all add: to_int_of_int to_int_of_int_add1 INT_MIN_def INT_MAX_def MAX_STR_LEN_def)
  have l: "fn_left (make_str s) (make_num (of_int n)) = make_str (take (nat n) s)"
    using assms by (simp add: fn_left_def s make_num_def Let_def t)
  have m: "fn_mid (make_str s) (make_num (of_int n + 1)) None = make_str (drop (nat n) s)"
    using assms by (auto simp add: fn_mid_def s make_num_def Let_def make_str_def t)
  have "take (MAX_STR_LEN - 1) (take (nat n) s) @
          take (MAX_STR_LEN - length (take (MAX_STR_LEN - 1) (take (nat n) s)) - 1)
               (take (MAX_STR_LEN - 1) (drop (nat n) s)) = s"
    using assms(1) nn by (simp add: MAX_STR_LEN_def min_def)
  then show ?thesis
    unfolding l m using assms(1) by (simp add: concat_values_def make_str_def)
qed

lemma left_mid_expression:
  "eval_or_expr 5 ''LEFT$(A$,N)+MID$(A$,N+1)'' (str_num_state s n)
     = Some (concat_values (fn_left (make_str s) (make_num (of_int n)))
               (fn_mid (make_str s) (make_num (of_int n + 1)) None), [], str_num_state s n)"
  by (simp add: fuel_numeral str_num_state_def lex_defs state_defs classic_defs)

text \<open>
  C8.  For a string \<open>s\<close> within the capacity (at most \<open>MAX_STR_LEN - 1\<close> = 255
  characters) and an integer \<open>n\<close> with \<open>0 \<le> n \<le> LEN(s)\<close>, what \<open>+\<close> makes of
  \<open>LEFT$(s, n)\<close> and \<open>MID$(s, n + 1)\<close> is \<open>s\<close>; and in a state where \<open>A$\<close> holds
  \<open>s\<close> and \<open>N\<close> holds \<open>n\<close>, the expression \<open>LEFT$(A$,N)+MID$(A$,N+1)\<close> evaluates
  to \<open>s\<close>, consumes the whole text and raises no error.
\<close>

theorem C8_left_mid_is_whole:
  assumes "length s \<le> MAX_STR_LEN - 1" and "0 \<le> n" and "n \<le> int (length s)"
  shows "concat_values (fn_left (make_str s) (make_num (of_int n)))
           (fn_mid (make_str s) (make_num (of_int n + 1)) None) = make_str s
       \<and> eval_or_expr 5 ''LEFT$(A$,N)+MID$(A$,N+1)'' (str_num_state s n)
           = Some (make_str s, [], str_num_state s n)"
  using left_mid_concat[OF assms] left_mid_expression[of s n] by simp

theorem C8_left_mid_is_whole_witness:
  "length ''HELLO'' \<le> MAX_STR_LEN - 1 \<and> (0::int) \<le> 2 \<and> (2::int) \<le> int (length ''HELLO'')
   \<and> fn_left (make_str ''HELLO'') (make_num 2) = make_str ''HE''
   \<and> fn_mid (make_str ''HELLO'') (make_num 3) None = make_str ''LLO''
   \<and> eval_or_expr 5 ''LEFT$(A$,N)+MID$(A$,N+1)'' (str_num_state ''HELLO'' 2)
       = Some (make_str ''HELLO'', [], str_num_state ''HELLO'' 2)"
proof -
  have h: "length ''HELLO'' \<le> MAX_STR_LEN - 1" "(0::int) \<le> 2" "(2::int) \<le> int (length ''HELLO'')"
    by (simp_all add: MAX_STR_LEN_def)
  have f: "fn_left (make_str ''HELLO'') (make_num 2) = make_str ''HE''"
          "fn_mid (make_str ''HELLO'') (make_num 3) None = make_str ''LLO''"
    by (simp_all add: fn_defs make_str_def make_num_def to_int_def trunc_zero_def INT_MIN_def
          INT_MAX_def MAX_STR_LEN_def Let_def)
  from C8_left_mid_is_whole[OF h] f h show ?thesis by simp
qed

section \<open>Array subscripts\<close>

lemma trunc_zero_neg: "trunc_zero y < 0 \<longleftrightarrow> y \<le> - 1"
  by (auto simp: trunc_zero_def)

lemma trunc_zero_floor: "0 \<le> y \<Longrightarrow> trunc_zero y = \<lfloor>y\<rfloor>"
  by (simp add: trunc_zero_def)

lemma find_var_none:
  "find_var vs i n1 n2 s = None \<longleftrightarrow> (\<forall>j < length vs. \<not> named n1 n2 s (vs ! j))"
proof (induction vs arbitrary: i)
  case Nil
  then show ?case by simp
next
  case (Cons v vs)
  show ?case
    by (simp add: Cons.IH All_less_Suc2 named_def)
qed

lemma find_var_some:
  "find_var vs i n1 n2 s = Some m \<Longrightarrow>
   \<exists>j < length vs. m = i + j \<and> named n1 n2 s (vs ! j) \<and> (\<forall>k < j. \<not> named n1 n2 s (vs ! k))"
proof (induction vs arbitrary: i)
  case Nil
  then show ?case by simp
next
  case (Cons v vs)
  show ?case
  proof (cases "named n1 n2 s v")
    case True
    with Cons.prems show ?thesis by (intro exI[of _ 0]) (simp add: named_def)
  next
    case False
    with Cons.prems have "find_var vs (Suc i) n1 n2 s = Some m"
      by (auto simp: named_def split: if_splits)
    from Cons.IH[OF this] obtain j where j: "j < length vs" "m = Suc i + j"
      "named n1 n2 s (vs ! j)" "\<forall>k < j. \<not> named n1 n2 s (vs ! k)" by blast
    show ?thesis
    proof (intro exI[of _ "Suc j"] conjI)
      show "Suc j < length (v # vs)" using j by simp
      show "m = i + Suc j" using j by simp
      show "named n1 n2 s ((v # vs) ! Suc j)" using j by simp
      show "\<forall>k < Suc j. \<not> named n1 n2 s ((v # vs) ! k)"
        using j(4) False by (simp add: All_less_Suc2)
    qed
  qed
qed

lemma select_slot_array:
  assumes "0 \<le> k" and "k < size (vars st ! i)"
  shows "select_slot i True s k mk st =
           (Elem i (nat k),
            st\<lparr>vars := (vars st)[i := (vars st ! i)
                   \<lparr>array := (array (vars st ! i))[nat k := fix_type s mk (array (vars st ! i) ! nat k)]\<rparr>]\<rparr>)"
  using assms by (simp add: select_slot_def fix_type_def set_var_def Let_def)

lemma replicate_update_same: "(replicate n z)[k := z] = replicate n z"
  by (induction n arbitrary: k) (auto split: nat.splits)

lemma fix_type_zero: "fix_type False mk zero_value = zero_value"
  by (simp add: fix_type_def zero_value_def)

lemma subscript_classic:
  assumes k0: "0 \<le> k"
  shows "case find_or_create_var n1 n2 s True (max (k + 1) 11) st of
           (None, st3) \<Rightarrow>
             subscript_outcome runtime_error make_str MAX_VARS False n1 n2 s k st None st3
         | (Some i, st3) \<Rightarrow>
             subscript_outcome runtime_error make_str MAX_VARS False n1 n2 s k st
               (Some (fst (select_slot i True s k make_str st3)))
               (snd (select_slot i True s k make_str st3))"
proof (cases "find_var (vars st) 0 n1 n2 s")
  case None
  then have none: "\<forall>j < length (vars st). \<not> named n1 n2 s (vars st ! j)"
    by (simp add: find_var_none)
  show ?thesis
  proof (cases "MAX_VARS \<le> var_count st")
    case True
    with None none k0 show ?thesis
      by (simp add: find_or_create_var_def subscript_outcome_def var_count_def)
  next
    case False
    let ?v = "new_var n1 n2 s True (max (k + 1) 11) make_str"
    let ?st3 = "st\<lparr>vars := vars st @ [?v]\<rparr>"
    have f: "find_or_create_var n1 n2 s True (max (k + 1) 11) st = (Some (length (vars st)), ?st3)"
      using None False by (simp add: find_or_create_var_def)
    have sz: "k < size (vars ?st3 ! length (vars st))"
      by (simp add: new_var_def)
    have nk: "nat k < nat (max (k + 1) 11)" using k0 by (auto simp: max_def)
    note sel = select_slot_array[OF k0 sz, of s make_str]
    show ?thesis
      apply (simp only: f prod.case option.case sel fst_conv snd_conv)
      using none False k0 nk
      apply (simp add: subscript_outcome_def var_count_def new_var_def named_def Let_def)
      done
  qed
next
  case (Some m)
  from find_var_some[OF Some] obtain j where j: "j < length (vars st)" "m = j"
    "named n1 n2 s (vars st ! j)" "\<forall>i < j. \<not> named n1 n2 s (vars st ! i)" by auto
  have some: "\<not> (\<forall>j < length (vars st). \<not> named n1 n2 s (vars st ! j))"
    using j(1,3) by blast
  let ?v = "vars st ! j"
  let ?want = "max (k + 1) 11"
  have nk: "nat k < nat ?want" using k0 by (auto simp: max_def)
  have nk0: "\<not> k < 0" using k0 by simp
  show ?thesis
  proof (cases "is_array ?v")
    case False
    let ?st3 = "set_var j (?v\<lparr>is_array := True, size := ?want,
                                 array := replicate (nat ?want) zero_value\<rparr>) st"
    have f: "find_or_create_var n1 n2 s True ?want st = (Some j, ?st3)"
      using Some j(2) False by (simp add: find_or_create_var_def Let_def)
    have sz: "k < size (vars ?st3 ! j)" using j(1) by (simp add: set_var_def)
    note sel = select_slot_array[OF k0 sz, of s make_str]
    have out: "subscript_outcome runtime_error make_str MAX_VARS False n1 n2 s k st
                 (Some (Elem j (nat k)))
                 (snd (select_slot j True s k make_str ?st3))"
      unfolding subscript_outcome_def Let_def
      apply (simp only: some nk0 if_False)
      apply (rule exI[of _ j])
      apply (simp only: sel snd_conv)
      using j k0 nk False apply (simp add: set_var_def)
      done
    then show ?thesis by (simp only: f prod.case option.case sel fst_conv snd_conv)
  next
    case arr: True
    show ?thesis
    proof (cases "?want > size ?v")
      case True
      let ?st3 = "set_var j (?v\<lparr>array := array ?v @ map (host_fresh st) [nat (size ?v)..<nat ?want],
                                   size := ?want\<rparr>) st"
      have f: "find_or_create_var n1 n2 s True ?want st = (Some j, ?st3)"
        using Some j(2) arr True by (simp add: find_or_create_var_def Let_def)
      have sz: "k < size (vars ?st3 ! j)" using j(1) by (simp add: set_var_def)
      note sel = select_slot_array[OF k0 sz, of s make_str]
      have out: "subscript_outcome runtime_error make_str MAX_VARS False n1 n2 s k st
                   (Some (Elem j (nat k)))
                   (snd (select_slot j True s k make_str ?st3))"
        unfolding subscript_outcome_def Let_def
        apply (simp only: some nk0 if_False)
        apply (rule exI[of _ j])
        apply (simp only: sel snd_conv)
        using j k0 nk arr True apply (simp add: set_var_def)
        done
      then show ?thesis by (simp only: f prod.case option.case sel fst_conv snd_conv)
    next
      case False
      have f: "find_or_create_var n1 n2 s True ?want st = (Some j, st)"
        using Some j(2) arr False by (simp add: find_or_create_var_def Let_def)
      have sz: "k < size (vars st ! j)" using False by simp
      note sel = select_slot_array[OF k0 sz, of s make_str]
      have out: "subscript_outcome runtime_error make_str MAX_VARS False n1 n2 s k st
                   (Some (Elem j (nat k)))
                   (snd (select_slot j True s k make_str st))"
        unfolding subscript_outcome_def Let_def
        apply (simp only: some nk0 if_False)
        apply (rule exI[of _ j])
        apply (simp only: sel snd_conv)
        using j k0 nk arr False apply simp
        done
      then show ?thesis by (simp only: f prod.case option.case sel fst_conv snd_conv)
    qed
  qed
qed

lemma subscript_opt:
  assumes k0: "0 \<le> k"
  shows "case opt_find_or_create_var n1 n2 s True (max (k + 1) 11) st of
           (None, st3) \<Rightarrow>
             subscript_outcome opt_runtime_error opt_make_str OPT_MAX_VARS True n1 n2 s k st None st3
         | (Some i, st3) \<Rightarrow>
             subscript_outcome opt_runtime_error opt_make_str OPT_MAX_VARS True n1 n2 s k st
               (Some (fst (select_slot i True s k opt_make_str st3)))
               (snd (select_slot i True s k opt_make_str st3))"
proof (cases "find_var (vars st) 0 n1 n2 s")
  case None
  then have none: "\<forall>j < length (vars st). \<not> named n1 n2 s (vars st ! j)"
    by (simp add: find_var_none)
  show ?thesis
  proof (cases "OPT_MAX_VARS \<le> var_count st")
    case True
    with None none k0 show ?thesis
      by (simp add: opt_find_or_create_var_def subscript_outcome_def var_count_def)
  next
    case False
    let ?v = "new_var n1 n2 s True (max (k + 1) 11) opt_make_str"
    let ?st3 = "st\<lparr>vars := vars st @ [?v]\<rparr>"
    have f: "opt_find_or_create_var n1 n2 s True (max (k + 1) 11) st = (Some (length (vars st)), ?st3)"
      using None False by (simp add: opt_find_or_create_var_def)
    have sz: "k < size (vars ?st3 ! length (vars st))"
      by (simp add: new_var_def)
    have nk: "nat k < nat (max (k + 1) 11)" using k0 by (auto simp: max_def)
    note sel = select_slot_array[OF k0 sz, of s opt_make_str]
    show ?thesis
      apply (simp only: f prod.case option.case sel fst_conv snd_conv)
      using none False k0 nk
      apply (simp add: subscript_outcome_def var_count_def new_var_def named_def Let_def)
      done
  qed
next
  case (Some m)
  from find_var_some[OF Some] obtain j where j: "j < length (vars st)" "m = j"
    "named n1 n2 s (vars st ! j)" "\<forall>i < j. \<not> named n1 n2 s (vars st ! i)" by auto
  have some: "\<not> (\<forall>j < length (vars st). \<not> named n1 n2 s (vars st ! j))"
    using j(1,3) by blast
  let ?v = "vars st ! j"
  let ?want = "max (k + 1) 11"
  have nk: "nat k < nat ?want" using k0 by (auto simp: max_def)
  have nk0: "\<not> k < 0" using k0 by simp
  show ?thesis
  proof (cases "is_array ?v")
    case False
    let ?st3 = "set_var j (?v\<lparr>is_array := True, size := ?want,
                                 array := replicate (nat ?want) zero_value\<rparr>) st"
    have f: "opt_find_or_create_var n1 n2 s True ?want st = (Some j, ?st3)"
      using Some j(2) False by (simp add: opt_find_or_create_var_def Let_def)
    have sz: "k < size (vars ?st3 ! j)" using j(1) by (simp add: set_var_def)
    note sel = select_slot_array[OF k0 sz, of s opt_make_str]
    have out: "subscript_outcome opt_runtime_error opt_make_str OPT_MAX_VARS True n1 n2 s k st
                 (Some (Elem j (nat k)))
                 (snd (select_slot j True s k opt_make_str ?st3))"
      unfolding subscript_outcome_def Let_def
      apply (simp only: some nk0 if_False)
      apply (rule exI[of _ j])
      apply (simp only: sel snd_conv)
      using j k0 nk False apply (simp add: set_var_def)
      done
    then show ?thesis by (simp only: f prod.case option.case sel fst_conv snd_conv)
  next
    case arr: True
    show ?thesis
    proof (cases "?want > size ?v")
      case True
      let ?st3 = "set_var j (?v\<lparr>array := array ?v @ replicate (nat (?want - size ?v)) zero_value,
                                   size := ?want\<rparr>) st"
      have f: "opt_find_or_create_var n1 n2 s True ?want st = (Some j, ?st3)"
        using Some j(2) arr True by (simp add: opt_find_or_create_var_def Let_def)
      have sz: "k < size (vars ?st3 ! j)" using j(1) by (simp add: set_var_def)
      note sel = select_slot_array[OF k0 sz, of s opt_make_str]
      have out: "subscript_outcome opt_runtime_error opt_make_str OPT_MAX_VARS True n1 n2 s k st
                   (Some (Elem j (nat k)))
                   (snd (select_slot j True s k opt_make_str ?st3))"
        unfolding subscript_outcome_def Let_def
        apply (simp only: some nk0 if_False)
        apply (rule exI[of _ j])
        apply (simp only: sel snd_conv)
        using j k0 nk arr True apply (simp add: set_var_def)
        done
      then show ?thesis by (simp only: f prod.case option.case sel fst_conv snd_conv)
    next
      case False
      have f: "opt_find_or_create_var n1 n2 s True ?want st = (Some j, st)"
        using Some j(2) arr False by (simp add: opt_find_or_create_var_def Let_def)
      have sz: "k < size (vars st ! j)" using False by simp
      note sel = select_slot_array[OF k0 sz, of s opt_make_str]
      have out: "subscript_outcome opt_runtime_error opt_make_str OPT_MAX_VARS True n1 n2 s k st
                   (Some (Elem j (nat k)))
                   (snd (select_slot j True s k opt_make_str st))"
        unfolding subscript_outcome_def Let_def
        apply (simp only: some nk0 if_False)
        apply (rule exI[of _ j])
        apply (simp only: sel snd_conv)
        using j k0 nk arr False apply simp
        done
      then show ?thesis by (simp only: f prod.case option.case sel fst_conv snd_conv)
    qed
  qed
qed


lemma gvr_classic:
  assumes "c_isalpha (peek (skip_spaces p))"
      and "read_identifier (skip_spaces p) 16 = (nb, p2)"
      and "uppercase_name nb = (n1, n2, s)"
      and "peek (skip_spaces p2) = CHR ''(''"
      and "ev (tl (skip_spaces p2)) st = Some (x, p4, st1)"
      and "type x = VAL_NUM"
      and "peek (skip_spaces p4) = CHR '')''"
      and "INT_MIN \<le> trunc_zero (num x + 0.00001)"
      and "trunc_zero (num x + 0.00001) < INT_MAX"
  shows "\<exists>r st'. get_var_reference ev p st = Some ((r, True, s), tl (skip_spaces p4), st')
           \<and> subscript_outcome runtime_error make_str MAX_VARS False n1 n2 s
                (trunc_zero (num x + 0.00001)) st1 r st'"
proof -
  let ?k = "trunc_zero (num x + 0.00001)"
  have ti: "to_int (num x + 1 / 100000) = trunc_zero (num x + 1 / 100000)"
    using assms(8,9) by (simp add: to_int_in_range)
  have sz: "(if trunc_zero (num x + 1 / 100000) + 1 < DEFAULT_ARRAY_SIZE then DEFAULT_ARRAY_SIZE
             else trunc_zero (num x + 1 / 100000) + 1) = max (trunc_zero (num x + 1 / 100000) + 1) 11"
    by (simp add: DEFAULT_ARRAY_SIZE_def max_def)
  show ?thesis
  proof (cases "?k < 0")
    case True
    have "get_var_reference ev p st =
            Some ((None, True, s), tl (skip_spaces p4), runtime_error ''Negative array index'' st1)"
      using assms(1-7) True by (simp add: get_var_reference_def Let_def ti)
    then show ?thesis using True by (simp add: subscript_outcome_def)
  next
    case False
    then have k0: "0 \<le> ?k" by simp
    obtain r0 st3 where f: "find_or_create_var n1 n2 s True (max (?k + 1) 11) st1 = (r0, st3)"
      by (cases "find_or_create_var n1 n2 s True (max (?k + 1) 11) st1")
    show ?thesis
    proof (cases r0)
      case None
      have g: "get_var_reference ev p st = Some ((None, True, s), tl (skip_spaces p4), st3)"
        using assms(1-7) False f None by (simp add: get_var_reference_def Let_def ti sz)
      from subscript_classic[OF k0, of n1 n2 s st1] f None
      have "subscript_outcome runtime_error make_str MAX_VARS False n1 n2 s ?k st1 None st3"
        by simp
      with g show ?thesis by simp
    next
      case (Some i)
      obtain valp st4 where sl: "select_slot i True s ?k make_str st3 = (valp, st4)"
        by (cases "select_slot i True s ?k make_str st3")
      have g: "get_var_reference ev p st = Some ((Some valp, True, s), tl (skip_spaces p4), st4)"
        using assms(1-7) False f Some sl by (simp add: get_var_reference_def Let_def ti sz)
      from subscript_classic[OF k0, of n1 n2 s st1] f Some sl
      have "subscript_outcome runtime_error make_str MAX_VARS False n1 n2 s ?k st1 (Some valp) st4"
        by simp
      with g show ?thesis by simp
    qed
  qed
qed

lemma gvr_opt:
  assumes "c_isalpha (peek (skip_spaces p))"
      and "read_identifier (skip_spaces p) 8 = (nb, p2)"
      and "uppercase_name nb = (n1, n2, s)"
      and "peek (skip_spaces p2) = CHR ''(''"
      and "ev (tl (skip_spaces p2)) st = Some (x, p4, st1)"
      and "type x = VAL_NUM"
      and "peek (skip_spaces p4) = CHR '')''"
      and "INT_MIN \<le> trunc_zero (num x + 0.00001)"
      and "trunc_zero (num x + 0.00001) < INT_MAX"
  shows "\<exists>r st'. opt_get_var_reference ev p st = Some ((r, True, s), tl (skip_spaces p4), st')
           \<and> subscript_outcome opt_runtime_error opt_make_str OPT_MAX_VARS True n1 n2 s
                (trunc_zero (num x + 0.00001)) st1 r st'"
proof -
  let ?k = "trunc_zero (num x + 0.00001)"
  have ti: "to_int (num x + 1 / 100000) = trunc_zero (num x + 1 / 100000)"
    using assms(8,9) by (simp add: to_int_in_range)
  have sz: "(if trunc_zero (num x + 1 / 100000) + 1 < DEFAULT_ARRAY_SIZE then DEFAULT_ARRAY_SIZE
             else trunc_zero (num x + 1 / 100000) + 1) = max (trunc_zero (num x + 1 / 100000) + 1) 11"
    by (simp add: DEFAULT_ARRAY_SIZE_def max_def)
  show ?thesis
  proof (cases "?k < 0")
    case True
    have "opt_get_var_reference ev p st =
            Some ((None, True, s), tl (skip_spaces p4), opt_runtime_error ''Negative array index'' st1)"
      using assms(1-7) True by (simp add: opt_get_var_reference_def opt_ensure_num_def Let_def ti)
    then show ?thesis using True by (simp add: subscript_outcome_def)
  next
    case False
    then have k0: "0 \<le> ?k" by simp
    obtain r0 st3 where f: "opt_find_or_create_var n1 n2 s True (max (?k + 1) 11) st1 = (r0, st3)"
      by (cases "opt_find_or_create_var n1 n2 s True (max (?k + 1) 11) st1")
    show ?thesis
    proof (cases r0)
      case None
      have g: "opt_get_var_reference ev p st = Some ((None, True, s), tl (skip_spaces p4), st3)"
        using assms(1-7) False f None by (simp add: opt_get_var_reference_def opt_ensure_num_def Let_def ti sz)
      from subscript_opt[OF k0, of n1 n2 s st1] f None
      have "subscript_outcome opt_runtime_error opt_make_str OPT_MAX_VARS True n1 n2 s ?k st1 None st3"
        by simp
      with g show ?thesis by simp
    next
      case (Some i)
      obtain valp st4 where sl: "select_slot i True s ?k opt_make_str st3 = (valp, st4)"
        by (cases "select_slot i True s ?k opt_make_str st3")
      have g: "opt_get_var_reference ev p st = Some ((Some valp, True, s), tl (skip_spaces p4), st4)"
        using assms(1-7) False f Some sl by (simp add: opt_get_var_reference_def opt_ensure_num_def Let_def ti sz)
      from subscript_opt[OF k0, of n1 n2 s st1] f Some sl
      have "subscript_outcome opt_runtime_error opt_make_str OPT_MAX_VARS True n1 n2 s ?k st1 (Some valp) st4"
        by simp
      with g show ?thesis by simp
    qed
  qed
qed

text \<open>
  C7, as the code has it.  In an array reference \<open>v(x)\<close> whose subscript
  evaluates to a number \<open>x\<close> and is followed by \<open>)\<close>, the subscript is coerced
  to the integer \<open>k\<close> obtained from \<open>x + 0.00001\<close> by truncation toward zero
  (taken to fit an \<open>int\<close> below \<open>INT_MAX\<close>); \<open>k\<close> is the floor when
  \<open>x + 0.00001\<close> is not negative, and \<open>k\<close> is negative exactly when
  \<open>x + 0.00001 \<le> -1\<close>.  The reference fails with ``Negative array index''
  exactly when \<open>k\<close> is negative; otherwise it is element \<open>k\<close>, the array
  gets \<open>max (k + 1) 11\<close> zeroed elements on first array use, and an existing
  array smaller than \<open>max (k + 1) 11\<close> is grown to that size, with a zeroed
  tail in \<open>basic.c\<close>.  Both builds.
\<close>

theorem C7_subscript_truncates:
  "(c_isalpha (peek (skip_spaces p)) \<and> read_identifier (skip_spaces p) 16 = (nb, p2)
      \<and> uppercase_name nb = (n1, n2, s) \<and> peek (skip_spaces p2) = CHR ''(''
      \<and> ev (tl (skip_spaces p2)) st = Some (x, p4, st1) \<and> type x = VAL_NUM
      \<and> peek (skip_spaces p4) = CHR '')''
      \<and> INT_MIN \<le> trunc_zero (num x + 0.00001) \<and> trunc_zero (num x + 0.00001) < INT_MAX
    \<longrightarrow> (\<exists>r st'. get_var_reference ev p st = Some ((r, True, s), tl (skip_spaces p4), st')
           \<and> subscript_outcome runtime_error make_str MAX_VARS False n1 n2 s
                (trunc_zero (num x + 0.00001)) st1 r st'))
 \<and> (c_isalpha (peek (skip_spaces p)) \<and> read_identifier (skip_spaces p) 8 = (nb, p2)
      \<and> uppercase_name nb = (n1, n2, s) \<and> peek (skip_spaces p2) = CHR ''(''
      \<and> ev (tl (skip_spaces p2)) st = Some (x, p4, st1) \<and> type x = VAL_NUM
      \<and> peek (skip_spaces p4) = CHR '')''
      \<and> INT_MIN \<le> trunc_zero (num x + 0.00001) \<and> trunc_zero (num x + 0.00001) < INT_MAX
    \<longrightarrow> (\<exists>r st'. opt_get_var_reference ev p st = Some ((r, True, s), tl (skip_spaces p4), st')
           \<and> subscript_outcome opt_runtime_error opt_make_str OPT_MAX_VARS True n1 n2 s
                (trunc_zero (num x + 0.00001)) st1 r st'))
 \<and> (trunc_zero (num x + 0.00001) < 0 \<longleftrightarrow> num x + 0.00001 \<le> - 1)
 \<and> (0 \<le> num x + 0.00001 \<longrightarrow> trunc_zero (num x + 0.00001) = \<lfloor>num x + 0.00001\<rfloor>)"
proof (intro conjI impI)
  assume "c_isalpha (peek (skip_spaces p)) \<and> read_identifier (skip_spaces p) 16 = (nb, p2)
      \<and> uppercase_name nb = (n1, n2, s) \<and> peek (skip_spaces p2) = CHR ''(''
      \<and> ev (tl (skip_spaces p2)) st = Some (x, p4, st1) \<and> type x = VAL_NUM
      \<and> peek (skip_spaces p4) = CHR '')''
      \<and> INT_MIN \<le> trunc_zero (num x + 0.00001) \<and> trunc_zero (num x + 0.00001) < INT_MAX"
  then show "\<exists>r st'. get_var_reference ev p st = Some ((r, True, s), tl (skip_spaces p4), st')
           \<and> subscript_outcome runtime_error make_str MAX_VARS False n1 n2 s
                (trunc_zero (num x + 0.00001)) st1 r st'"
    using gvr_classic[of p nb p2 n1 n2 s ev st x p4 st1] by blast
next
  assume "c_isalpha (peek (skip_spaces p)) \<and> read_identifier (skip_spaces p) 8 = (nb, p2)
      \<and> uppercase_name nb = (n1, n2, s) \<and> peek (skip_spaces p2) = CHR ''(''
      \<and> ev (tl (skip_spaces p2)) st = Some (x, p4, st1) \<and> type x = VAL_NUM
      \<and> peek (skip_spaces p4) = CHR '')''
      \<and> INT_MIN \<le> trunc_zero (num x + 0.00001) \<and> trunc_zero (num x + 0.00001) < INT_MAX"
  then show "\<exists>r st'. opt_get_var_reference ev p st = Some ((r, True, s), tl (skip_spaces p4), st')
           \<and> subscript_outcome opt_runtime_error opt_make_str OPT_MAX_VARS True n1 n2 s
                (trunc_zero (num x + 0.00001)) st1 r st'"
    using gvr_opt[of p nb p2 n1 n2 s ev st x p4 st1] by blast
next
  show "trunc_zero (num x + 0.00001) < 0 \<longleftrightarrow> num x + 0.00001 \<le> - 1"
    by (rule trunc_zero_neg)
next
  assume "0 \<le> num x + 0.00001"
  then show "trunc_zero (num x + 0.00001) = \<lfloor>num x + 0.00001\<rfloor>" by (rule trunc_zero_floor)
qed

text \<open>
  The claim's floor fails: for \<open>x = -0.5\<close> the floor of \<open>x + 0.00001\<close> is \<open>-1\<close>,
  yet \<open>A(-0.5)\<close> is element 0 of \<open>A\<close> and no error is raised; the program
  \<open>10 A(-0.5)=7\<close>, \<open>20 PRINT A(0)\<close> prints 7.  Both builds.
\<close>

theorem C7_neg_half_is_element_0:
  "\<lfloor>(- 0.5::real) + 0.00001\<rfloor> < 0
   \<and> map_option (fst \<circ> fst) (get_var_reference (eval_or_expr 4) ''A(-0.5)'' start)
       = Some (Some (Elem 0 0))
   \<and> map_option (halted \<circ> snd \<circ> snd) (get_var_reference (eval_or_expr 4) ''A(-0.5)'' start)
       = Some False
   \<and> map_option (fst \<circ> fst) (opt_get_var_reference (opt_eval_expr 4) ''A(-0.5)'' start)
       = Some (Some (Elem 0 0))
   \<and> map_option (halted \<circ> snd \<circ> snd) (opt_get_var_reference (opt_eval_expr 4) ''A(-0.5)'' start)
       = Some False
   \<and> final out (main 5 [''basic'', ''p.bas''] (one_file prog_neg_half) start) = Some (''7'' @ [CHR 0x0A])
   \<and> final err (main 5 [''basic'', ''p.bas''] (one_file prog_neg_half) start) = Some []
   \<and> final out (opt_main 5 [''basic'', ''p.bas''] (one_file prog_neg_half) start)
       = Some (''7'' @ [CHR 0x0A])
   \<and> final err (opt_main 5 [''basic'', ''p.bas''] (one_file prog_neg_half) start) = Some []"
  by (simp add: fuel_numeral opt_fuel_numeral prog_neg_half_def lex_defs state_defs classic_defs
        opt_defs floor_eq_iff)

text \<open>
  Outside the range of \<open>int\<close> the conversion decides: \<open>A(3000000000)\<close> stops on
  ``Negative array index''.
\<close>

lemma subscript_outside_int:
  "map_option (err \<circ> snd \<circ> snd) (get_var_reference (eval_or_expr 4) ''A(3000000000)'' start)
     = Some (''Error: Negative array index'' @ [CHR 0x0A])"
  by (simp add: fuel_numeral lex_defs state_defs classic_defs)


theorem C7_subscript_truncates_witness:
  "c_isalpha (peek (skip_spaces ''A(3.7)''))
   \<and> read_identifier (skip_spaces ''A(3.7)'') 16 = (''A'', ''(3.7)'')
   \<and> read_identifier (skip_spaces ''A(3.7)'') 8 = (''A'', ''(3.7)'')
   \<and> uppercase_name ''A'' = (CHR ''A'', CHR '' '', False)
   \<and> peek (skip_spaces ''(3.7)'') = CHR ''(''
   \<and> eval_or_expr 4 (tl (skip_spaces ''(3.7)'')) start = Some (make_num 3.7, '')'', start)
   \<and> opt_eval_expr 4 (tl (skip_spaces ''(3.7)'')) start = Some (make_num 3.7, '')'', start)
   \<and> type (make_num 3.7) = VAL_NUM \<and> peek (skip_spaces '')'') = CHR '')''
   \<and> trunc_zero (num (make_num 3.7) + 0.00001) = 3 \<and> INT_MIN \<le> 3 \<and> 3 < INT_MAX
   \<and> (\<exists>r st'. get_var_reference (eval_or_expr 4) ''A(3.7)'' start = Some ((r, True, False), [], st')
         \<and> subscript_outcome runtime_error make_str MAX_VARS False CHR ''A'' CHR '' '' False 3
              start r st')
   \<and> (\<exists>r st'. opt_get_var_reference (opt_eval_expr 4) ''A(3.7)'' start
                  = Some ((r, True, False), [], st')
         \<and> subscript_outcome opt_runtime_error opt_make_str OPT_MAX_VARS True CHR ''A'' CHR '' ''
              False 3 start r st')
   \<and> map_option (fst \<circ> fst) (get_var_reference (eval_or_expr 4) ''A(3.7)'' start)
       = Some (Some (Elem 0 3))
   \<and> map_option (size \<circ> hd \<circ> vars \<circ> snd \<circ> snd) (get_var_reference (eval_or_expr 4) ''A(3.7)'' start)
       = Some 11
   \<and> eval_or_expr 4 (tl (skip_spaces ''(-2)'')) start = Some (make_num (- 2), '')'', start)
   \<and> trunc_zero (num (make_num (- 2)) + 0.00001) = - 1
   \<and> (\<exists>r st'. get_var_reference (eval_or_expr 4) ''A(-2)'' start = Some ((r, True, False), [], st')
         \<and> subscript_outcome runtime_error make_str MAX_VARS False CHR ''A'' CHR '' '' False (- 1)
              start r st')
   \<and> map_option (err \<circ> snd \<circ> snd) (get_var_reference (eval_or_expr 4) ''A(-2)'' start)
       = Some (''Error: Negative array index'' @ [CHR 0x0A])"
proof -
  have h: "c_isalpha (peek (skip_spaces ''A(3.7)''))"
    "read_identifier (skip_spaces ''A(3.7)'') 16 = (''A'', ''(3.7)'')"
    "read_identifier (skip_spaces ''A(3.7)'') 8 = (''A'', ''(3.7)'')"
    "uppercase_name ''A'' = (CHR ''A'', CHR '' '', False)"
    "peek (skip_spaces ''(3.7)'') = CHR ''(''"
    "type (make_num 3.7) = VAL_NUM" "peek (skip_spaces '')'') = CHR '')''"
    "trunc_zero (num (make_num 3.7) + 0.00001) = 3" "INT_MIN \<le> 3" "3 < INT_MAX"
    "trunc_zero (num (make_num (- 2)) + 0.00001) = - 1"
    "c_isalpha (peek (skip_spaces ''A(-2)''))"
    "read_identifier (skip_spaces ''A(-2)'') 16 = (''A'', ''(-2)'')"
    "peek (skip_spaces ''(-2)'') = CHR ''(''"
    "type (make_num (- 2)) = VAL_NUM"
    "INT_MIN \<le> - 1" "- 1 < INT_MAX" "tl (skip_spaces '')'') = []"
    by (simp_all add: lex_defs make_num_def floor_eq_iff)
  have e: "eval_or_expr 4 (tl (skip_spaces ''(3.7)'')) start = Some (make_num 3.7, '')'', start)"
    "eval_or_expr 4 (tl (skip_spaces ''(-2)'')) start = Some (make_num (- 2), '')'', start)"
    by (simp_all add: fuel_numeral lex_defs state_defs classic_defs)
  have eo: "opt_eval_expr 4 (tl (skip_spaces ''(3.7)'')) start = Some (make_num 3.7, '')'', start)"
    by (simp add: opt_fuel_numeral lex_defs state_defs opt_defs)
  have c: "map_option (fst \<circ> fst) (get_var_reference (eval_or_expr 4) ''A(3.7)'' start)
       = Some (Some (Elem 0 3))"
    "map_option (size \<circ> hd \<circ> vars \<circ> snd \<circ> snd) (get_var_reference (eval_or_expr 4) ''A(3.7)'' start)
       = Some 11"
    "map_option (err \<circ> snd \<circ> snd) (get_var_reference (eval_or_expr 4) ''A(-2)'' start)
       = Some (''Error: Negative array index'' @ [CHR 0x0A])"
    by (simp_all add: fuel_numeral lex_defs state_defs classic_defs floor_eq_iff)
  from C7_subscript_truncates[where p = "''A(3.7)''" and nb = "''A''" and ?p2.0 = "''(3.7)''"
         and ?n1.0 = "CHR ''A''" and ?n2.0 = "CHR '' ''" and s = False and ev = "eval_or_expr 4"
         and st = start and x = "make_num 3.7" and ?p4.0 = "'')''" and ?st1.0 = start]
       C7_subscript_truncates[where p = "''A(3.7)''" and nb = "''A''" and ?p2.0 = "''(3.7)''"
         and ?n1.0 = "CHR ''A''" and ?n2.0 = "CHR '' ''" and s = False and ev = "opt_eval_expr 4"
         and st = start and x = "make_num 3.7" and ?p4.0 = "'')''" and ?st1.0 = start]
       C7_subscript_truncates[where p = "''A(-2)''" and nb = "''A''" and ?p2.0 = "''(-2)''"
         and ?n1.0 = "CHR ''A''" and ?n2.0 = "CHR '' ''" and s = False and ev = "eval_or_expr 4"
         and st = start and x = "make_num (- 2)" and ?p4.0 = "'')''" and ?st1.0 = start]
       h e eo c
  show ?thesis by simp
qed

section \<open>FOR\<close>

lemma owner_of_scalar:
  "j < length vs \<Longrightarrow> owner_of vs i (Scalar (i + j)) = Some (i + j)"
proof (induction vs arbitrary: i j)
  case Nil
  then show ?case by simp
next
  case (Cons v vs)
  show ?case
  proof (cases j)
    case 0
    then show ?thesis by simp
  next
    case (Suc m)
    with Cons.prems have "m < length vs" by simp
    from Cons.IH[OF this, of "Suc i"] Suc show ?thesis by simp
  qed
qed

lemma owner_of_scalar_0: "j < length vs \<Longrightarrow> owner_of vs 0 (Scalar j) = Some j"
  using owner_of_scalar[of j vs 0] by simp

lemma for_opt:
  assumes room: "for_top st < OPT_MAX_FOR"
      and ref: "opt_get_var_reference (opt_eval_expr n) p st
                  = Some ((Some (Scalar j), False, False), p1, st1)"
      and eq: "peek (skip_spaces p1) = CHR ''=''"
      and sv: "opt_eval_expr n (tl (skip_spaces p1)) st1 = Some (startv, p3, st2)"
      and svn: "type startv = VAL_NUM"
      and to: "opt_starts_with_kw (skip_spaces p3) ''TO''"
      and ev: "opt_eval_expr n (drop 2 (skip_spaces p3)) st2 = Some (endv, p5, st4)"
      and evn: "type endv = VAL_NUM"
      and step: "if opt_starts_with_kw (skip_spaces p5) ''STEP''
                 then opt_eval_expr n (drop 4 (skip_spaces p5)) st4 = Some (stepv, p7, st6)
                      \<and> type stepv = VAL_NUM
                 else stepv = make_num 1 \<and> p7 = skip_spaces p5 \<and> st6 = st4"
      and j: "j < length (vars st6)"
  shows "opt_statement_for n p st =
           Some (set_pos p7
             ((set_slot (Scalar j) startv st6)
              \<lparr>for_stack := for_stack st6 @
                 [\<lparr>f_name1 = name1 (vars st6 ! j), f_name2 = name2 (vars st6 ! j),
                   f_is_string = False, f_end_value = num endv, f_step = num stepv,
                   f_line_index = current_line st6, f_resume_pos = p7,
                   f_var = Some (Scalar j)\<rparr>]\<rparr>))"
proof -
  have own: "owner_of (vars (set_slot (Scalar j) startv st6)) 0 (Scalar j) = Some j"
    using j by (intro owner_of_scalar_0) (simp add: set_var_def)
  have nm: "name1 (vars (set_slot (Scalar j) startv st6) ! j) = name1 (vars st6 ! j)"
           "name2 (vars (set_slot (Scalar j) startv st6) ! j) = name2 (vars st6 ! j)"
           "for_stack (set_slot (Scalar j) startv st6) = for_stack st6"
           "current_line (set_slot (Scalar j) startv st6) = current_line st6"
    using j by (simp_all add: set_var_def)
  show ?thesis
  proof (cases "opt_starts_with_kw (skip_spaces p5) ''STEP''")
    case True
    with step have s: "opt_eval_expr n (drop 4 (skip_spaces p5)) st4 = Some (stepv, p7, st6)"
      "type stepv = VAL_NUM" by simp_all
    show ?thesis
      using room ref eq sv svn to ev evn True s
      by (simp add: opt_statement_for_def opt_ensure_num_def Let_def own nm del: set_slot.simps)
  next
    case False
    with step have s: "stepv = make_num 1" "p7 = skip_spaces p5" "st6 = st4" by simp_all
    show ?thesis
      using room ref eq sv svn to ev evn False own nm unfolding s
      by (simp add: opt_statement_for_def opt_ensure_num_def Let_def del: set_slot.simps)
  qed
qed


lemma for_classic:
  assumes room: "for_top st < MAX_FOR"
      and ref: "get_var_reference (eval_or_expr n) p st
                  = Some ((Some (Scalar j), False, False), p1, st1)"
      and eq: "peek (skip_spaces p1) = CHR ''=''"
      and sv: "eval_or_expr n (tl (skip_spaces p1)) st1 = Some (startv, p3, st2)"
      and svn: "type startv = VAL_NUM"
      and to: "starts_with_kw (skip_spaces p3) ''TO''"
      and ev: "eval_or_expr n (drop 2 (skip_spaces p3)) st2 = Some (endv, p5, st4)"
      and evn: "type endv = VAL_NUM"
      and step: "if starts_with_kw (skip_spaces p5) ''STEP''
                 then eval_or_expr n (drop 4 (skip_spaces p5)) st4 = Some (stepv, p7, st6)
                      \<and> type stepv = VAL_NUM
                 else stepv = make_num 1 \<and> p7 = skip_spaces p5 \<and> st6 = st4"
      and j: "j < length (vars st6)"
  shows "statement_for n p st =
           Some (set_pos p7
             ((set_slot (Scalar j) startv st6)
              \<lparr>for_stack := for_stack st6 @
                 [\<lparr>f_name1 = name1 (vars st6 ! j), f_name2 = name2 (vars st6 ! j),
                   f_is_string = False, f_end_value = num endv, f_step = num stepv,
                   f_line_index = current_line st6, f_resume_pos = p7,
                   f_var = Some (Scalar j)\<rparr>]\<rparr>))"
proof -
  have own: "owner_of (vars (set_slot (Scalar j) startv st6)) 0 (Scalar j) = Some j"
    using j by (intro owner_of_scalar_0) (simp add: set_var_def)
  have nm: "name1 (vars (set_slot (Scalar j) startv st6) ! j) = name1 (vars st6 ! j)"
           "name2 (vars (set_slot (Scalar j) startv st6) ! j) = name2 (vars st6 ! j)"
           "for_stack (set_slot (Scalar j) startv st6) = for_stack st6"
           "current_line (set_slot (Scalar j) startv st6) = current_line st6"
           "vars (set_slot (Scalar j) startv st6) \<noteq> []"
    using j by (auto simp: set_var_def)
  show ?thesis
  proof (cases "starts_with_kw (skip_spaces p5) ''STEP''")
    case True
    with step have s: "eval_or_expr n (drop 4 (skip_spaces p5)) st4 = Some (stepv, p7, st6)"
      "type stepv = VAL_NUM" by simp_all
    show ?thesis
      using room ref eq sv svn to ev evn True s
      by (simp add: statement_for_def Let_def var_count_def own nm del: set_slot.simps)
  next
    case False
    with step have s: "stepv = make_num 1" "p7 = skip_spaces p5" "st6 = st4" by simp_all
    show ?thesis
      using room ref eq sv svn to ev evn False own nm unfolding s
      by (simp add: statement_for_def Let_def var_count_def del: set_slot.simps)
  qed
qed


lemma for_1_to_0_runs:
  "final out (opt_main 6 [''basic'', ''p.bas''] (one_file prog_for_1_to_0) start) = Some (''7'' @ [CHR 0x0A])
 \<and> final err (opt_main 6 [''basic'', ''p.bas''] (one_file prog_for_1_to_0) start) = Some []
 \<and> final for_stack (opt_main 6 [''basic'', ''p.bas''] (one_file prog_for_1_to_0) start) = Some []
 \<and> exit_code (opt_main 6 [''basic'', ''p.bas''] (one_file prog_for_1_to_0) start) = Some 0
 \<and> final out (main 6 [''basic'', ''p.bas''] (one_file prog_for_1_to_0) start) = Some (''7'' @ [CHR 0x0A])
 \<and> final err (main 6 [''basic'', ''p.bas''] (one_file prog_for_1_to_0) start) = Some []
 \<and> final for_stack (main 6 [''basic'', ''p.bas''] (one_file prog_for_1_to_0) start) = Some []
 \<and> exit_code (main 6 [''basic'', ''p.bas''] (one_file prog_for_1_to_0) start) = Some 0"
  by (simp add: eval_nat_numeral prog_for_1_to_0_def lex_defs state_defs classic_defs opt_defs)

text \<open>
  C4.  FOR makes no initial boundary check.  Whenever the text after FOR
  reads \<open>v = start TO end [STEP s]\<close> with a numeric scalar \<open>v\<close> and numeric
  expressions, and the FOR stack has room, the statement stores \<open>start\<close> in
  \<open>v\<close> and pushes the frame (end value, step, default 1, current line,
  cursor after the statement), raises no error and leaves the cursor right
  after the statement, so that the body is what runs next: no hypothesis
  relates \<open>start\<close> to \<open>end\<close>.  The program \<open>10 FOR I=1 TO 0\<close>, \<open>20 PRINT 7\<close>,
  \<open>30 NEXT I\<close> prints 7 exactly once and ends with an empty FOR stack.  Both
  builds.
\<close>

theorem C4_for_no_initial_check:
  "(for_top st < OPT_MAX_FOR
      \<and> opt_get_var_reference (opt_eval_expr n) p st
            = Some ((Some (Scalar j), False, False), p1, st1)
      \<and> peek (skip_spaces p1) = CHR ''=''
      \<and> opt_eval_expr n (tl (skip_spaces p1)) st1 = Some (startv, p3, st2)
      \<and> type startv = VAL_NUM
      \<and> opt_starts_with_kw (skip_spaces p3) ''TO''
      \<and> opt_eval_expr n (drop 2 (skip_spaces p3)) st2 = Some (endv, p5, st4)
      \<and> type endv = VAL_NUM
      \<and> (if opt_starts_with_kw (skip_spaces p5) ''STEP''
          then opt_eval_expr n (drop 4 (skip_spaces p5)) st4 = Some (stepv, p7, st6)
               \<and> type stepv = VAL_NUM
          else stepv = make_num 1 \<and> p7 = skip_spaces p5 \<and> st6 = st4)
      \<and> j < length (vars st6)
    \<longrightarrow> (\<exists>st'. opt_statement_for n p st = Some st'
           \<and> scalar (vars st' ! j) = startv
           \<and> for_stack st' = for_stack st6 @
                 [\<lparr>f_name1 = name1 (vars st6 ! j), f_name2 = name2 (vars st6 ! j),
                   f_is_string = False, f_end_value = num endv, f_step = num stepv,
                   f_line_index = current_line st6, f_resume_pos = p7,
                   f_var = Some (Scalar j)\<rparr>]
           \<and> current_line st' = current_line st6 \<and> statement_pos st' = Some p7
           \<and> halted st' = halted st6 \<and> err st' = err st6))
 \<and> (for_top st < MAX_FOR
      \<and> get_var_reference (eval_or_expr n) p st
            = Some ((Some (Scalar j), False, False), p1, st1)
      \<and> peek (skip_spaces p1) = CHR ''=''
      \<and> eval_or_expr n (tl (skip_spaces p1)) st1 = Some (startv, p3, st2)
      \<and> type startv = VAL_NUM
      \<and> starts_with_kw (skip_spaces p3) ''TO''
      \<and> eval_or_expr n (drop 2 (skip_spaces p3)) st2 = Some (endv, p5, st4)
      \<and> type endv = VAL_NUM
      \<and> (if starts_with_kw (skip_spaces p5) ''STEP''
          then eval_or_expr n (drop 4 (skip_spaces p5)) st4 = Some (stepv, p7, st6)
               \<and> type stepv = VAL_NUM
          else stepv = make_num 1 \<and> p7 = skip_spaces p5 \<and> st6 = st4)
      \<and> j < length (vars st6)
    \<longrightarrow> (\<exists>st'. statement_for n p st = Some st'
           \<and> scalar (vars st' ! j) = startv
           \<and> for_stack st' = for_stack st6 @
                 [\<lparr>f_name1 = name1 (vars st6 ! j), f_name2 = name2 (vars st6 ! j),
                   f_is_string = False, f_end_value = num endv, f_step = num stepv,
                   f_line_index = current_line st6, f_resume_pos = p7,
                   f_var = Some (Scalar j)\<rparr>]
           \<and> current_line st' = current_line st6 \<and> statement_pos st' = Some p7
           \<and> halted st' = halted st6 \<and> err st' = err st6))
 \<and> final out (opt_main 6 [''basic'', ''p.bas''] (one_file prog_for_1_to_0) start) = Some (''7'' @ [CHR 0x0A])
 \<and> final err (opt_main 6 [''basic'', ''p.bas''] (one_file prog_for_1_to_0) start) = Some []
 \<and> final for_stack (opt_main 6 [''basic'', ''p.bas''] (one_file prog_for_1_to_0) start) = Some []
 \<and> exit_code (opt_main 6 [''basic'', ''p.bas''] (one_file prog_for_1_to_0) start) = Some 0
 \<and> final out (main 6 [''basic'', ''p.bas''] (one_file prog_for_1_to_0) start) = Some (''7'' @ [CHR 0x0A])
 \<and> final err (main 6 [''basic'', ''p.bas''] (one_file prog_for_1_to_0) start) = Some []
 \<and> final for_stack (main 6 [''basic'', ''p.bas''] (one_file prog_for_1_to_0) start) = Some []
 \<and> exit_code (main 6 [''basic'', ''p.bas''] (one_file prog_for_1_to_0) start) = Some 0"
proof (intro conjI impI)
  assume h: "for_top st < OPT_MAX_FOR
      \<and> opt_get_var_reference (opt_eval_expr n) p st
            = Some ((Some (Scalar j), False, False), p1, st1)
      \<and> peek (skip_spaces p1) = CHR ''=''
      \<and> opt_eval_expr n (tl (skip_spaces p1)) st1 = Some (startv, p3, st2)
      \<and> type startv = VAL_NUM
      \<and> opt_starts_with_kw (skip_spaces p3) ''TO''
      \<and> opt_eval_expr n (drop 2 (skip_spaces p3)) st2 = Some (endv, p5, st4)
      \<and> type endv = VAL_NUM
      \<and> (if opt_starts_with_kw (skip_spaces p5) ''STEP''
          then opt_eval_expr n (drop 4 (skip_spaces p5)) st4 = Some (stepv, p7, st6)
               \<and> type stepv = VAL_NUM
          else stepv = make_num 1 \<and> p7 = skip_spaces p5 \<and> st6 = st4)
      \<and> j < length (vars st6)"
  then have j: "j < length (vars st6)" by simp
  have "opt_statement_for n p st =
           Some (set_pos p7
             ((set_slot (Scalar j) startv st6)
              \<lparr>for_stack := for_stack st6 @
                 [\<lparr>f_name1 = name1 (vars st6 ! j), f_name2 = name2 (vars st6 ! j),
                   f_is_string = False, f_end_value = num endv, f_step = num stepv,
                   f_line_index = current_line st6, f_resume_pos = p7,
                   f_var = Some (Scalar j)\<rparr>]\<rparr>))"
    using h for_opt[of st n p j p1 st1 startv p3 st2 endv p5 st4 stepv p7 st6] by blast
  then show "\<exists>st'. opt_statement_for n p st = Some st'
           \<and> scalar (vars st' ! j) = startv
           \<and> for_stack st' = for_stack st6 @
                 [\<lparr>f_name1 = name1 (vars st6 ! j), f_name2 = name2 (vars st6 ! j),
                   f_is_string = False, f_end_value = num endv, f_step = num stepv,
                   f_line_index = current_line st6, f_resume_pos = p7,
                   f_var = Some (Scalar j)\<rparr>]
           \<and> current_line st' = current_line st6 \<and> statement_pos st' = Some p7
           \<and> halted st' = halted st6 \<and> err st' = err st6"
    using j by (simp add: set_pos_def set_var_def)
next
  assume h: "for_top st < MAX_FOR
      \<and> get_var_reference (eval_or_expr n) p st
            = Some ((Some (Scalar j), False, False), p1, st1)
      \<and> peek (skip_spaces p1) = CHR ''=''
      \<and> eval_or_expr n (tl (skip_spaces p1)) st1 = Some (startv, p3, st2)
      \<and> type startv = VAL_NUM
      \<and> starts_with_kw (skip_spaces p3) ''TO''
      \<and> eval_or_expr n (drop 2 (skip_spaces p3)) st2 = Some (endv, p5, st4)
      \<and> type endv = VAL_NUM
      \<and> (if starts_with_kw (skip_spaces p5) ''STEP''
          then eval_or_expr n (drop 4 (skip_spaces p5)) st4 = Some (stepv, p7, st6)
               \<and> type stepv = VAL_NUM
          else stepv = make_num 1 \<and> p7 = skip_spaces p5 \<and> st6 = st4)
      \<and> j < length (vars st6)"
  then have j: "j < length (vars st6)" by simp
  have "statement_for n p st =
           Some (set_pos p7
             ((set_slot (Scalar j) startv st6)
              \<lparr>for_stack := for_stack st6 @
                 [\<lparr>f_name1 = name1 (vars st6 ! j), f_name2 = name2 (vars st6 ! j),
                   f_is_string = False, f_end_value = num endv, f_step = num stepv,
                   f_line_index = current_line st6, f_resume_pos = p7,
                   f_var = Some (Scalar j)\<rparr>]\<rparr>))"
    using h for_classic[of st n p j p1 st1 startv p3 st2 endv p5 st4 stepv p7 st6] by blast
  then show "\<exists>st'. statement_for n p st = Some st'
           \<and> scalar (vars st' ! j) = startv
           \<and> for_stack st' = for_stack st6 @
                 [\<lparr>f_name1 = name1 (vars st6 ! j), f_name2 = name2 (vars st6 ! j),
                   f_is_string = False, f_end_value = num endv, f_step = num stepv,
                   f_line_index = current_line st6, f_resume_pos = p7,
                   f_var = Some (Scalar j)\<rparr>]
           \<and> current_line st' = current_line st6 \<and> statement_pos st' = Some p7
           \<and> halted st' = halted st6 \<and> err st' = err st6"
    using j by (simp add: set_pos_def set_var_def)
qed (simp_all add: for_1_to_0_runs)

theorem C4_for_no_initial_check_witness:
  "for_top start < OPT_MAX_FOR \<and> for_top start < MAX_FOR
   \<and> opt_get_var_reference (opt_eval_expr 4) '' I=1 TO 0'' start
       = Some ((Some (Scalar 0), False, False), ''=1 TO 0'', start_with_I)
   \<and> get_var_reference (eval_or_expr 4) '' I=1 TO 0'' start
       = Some ((Some (Scalar 0), False, False), ''=1 TO 0'', start_with_I)
   \<and> peek (skip_spaces ''=1 TO 0'') = CHR ''=''
   \<and> opt_eval_expr 4 (tl (skip_spaces ''=1 TO 0'')) start_with_I
       = Some (make_num 1, ''TO 0'', start_with_I)
   \<and> eval_or_expr 4 (tl (skip_spaces ''=1 TO 0'')) start_with_I
       = Some (make_num 1, ''TO 0'', start_with_I)
   \<and> opt_starts_with_kw (skip_spaces ''TO 0'') ''TO''
   \<and> starts_with_kw (skip_spaces ''TO 0'') ''TO''
   \<and> opt_eval_expr 4 (drop 2 (skip_spaces ''TO 0'')) start_with_I
       = Some (make_num 0, [], start_with_I)
   \<and> eval_or_expr 4 (drop 2 (skip_spaces ''TO 0'')) start_with_I
       = Some (make_num 0, [], start_with_I)
   \<and> \<not> opt_starts_with_kw (skip_spaces []) ''STEP'' \<and> \<not> starts_with_kw (skip_spaces []) ''STEP''
   \<and> (0::nat) < length (vars start_with_I)
   \<and> num (make_num 1) > num (make_num 0)
   \<and> map_option (num \<circ> scalar \<circ> hd \<circ> vars) (opt_statement_for 4 '' I=1 TO 0'' start) = Some 1
   \<and> map_option for_stack (opt_statement_for 4 '' I=1 TO 0'' start)
       = Some [\<lparr>f_name1 = CHR ''I'', f_name2 = CHR '' '', f_is_string = False, f_end_value = 0,
                f_step = 1, f_line_index = 0, f_resume_pos = [], f_var = Some (Scalar 0)\<rparr>]
   \<and> map_option halted (opt_statement_for 4 '' I=1 TO 0'' start) = Some False
   \<and> map_option statement_pos (opt_statement_for 4 '' I=1 TO 0'' start) = Some (Some [])
   \<and> map_option for_stack (statement_for 4 '' I=1 TO 0'' start)
       = Some [\<lparr>f_name1 = CHR ''I'', f_name2 = CHR '' '', f_is_string = False, f_end_value = 0,
                f_step = 1, f_line_index = 0, f_resume_pos = [], f_var = Some (Scalar 0)\<rparr>]
   \<and> map_option halted (statement_for 4 '' I=1 TO 0'' start) = Some False"
proof -
  have h: "for_top start < OPT_MAX_FOR" "for_top start < MAX_FOR"
    "opt_get_var_reference (opt_eval_expr 4) '' I=1 TO 0'' start
       = Some ((Some (Scalar 0), False, False), ''=1 TO 0'', start_with_I)"
    "get_var_reference (eval_or_expr 4) '' I=1 TO 0'' start
       = Some ((Some (Scalar 0), False, False), ''=1 TO 0'', start_with_I)"
    "peek (skip_spaces ''=1 TO 0'') = CHR ''=''"
    "opt_eval_expr 4 (tl (skip_spaces ''=1 TO 0'')) start_with_I
       = Some (make_num 1, ''TO 0'', start_with_I)"
    "eval_or_expr 4 (tl (skip_spaces ''=1 TO 0'')) start_with_I
       = Some (make_num 1, ''TO 0'', start_with_I)"
    "opt_starts_with_kw (skip_spaces ''TO 0'') ''TO''"
    "starts_with_kw (skip_spaces ''TO 0'') ''TO''"
    "opt_eval_expr 4 (drop 2 (skip_spaces ''TO 0'')) start_with_I
       = Some (make_num 0, [], start_with_I)"
    "eval_or_expr 4 (drop 2 (skip_spaces ''TO 0'')) start_with_I
       = Some (make_num 0, [], start_with_I)"
    "\<not> opt_starts_with_kw (skip_spaces []) ''STEP''" "\<not> starts_with_kw (skip_spaces []) ''STEP''"
    "(0::nat) < length (vars start_with_I)"
    "num (make_num 1) > num (make_num 0)"
    "skip_spaces [] = []"
    "vars start_with_I ! 0 = new_var CHR ''I'' CHR '' '' False False 0 make_str"
    "for_stack start_with_I = []" "current_line start_with_I = 0" "\<not> halted start_with_I"
    by (simp_all add: fuel_numeral opt_fuel_numeral start_with_I_def lex_defs state_defs
          classic_defs opt_defs OPT_MAX_FOR_def MAX_FOR_def)
  have c: "map_option (num \<circ> scalar \<circ> hd \<circ> vars) (opt_statement_for 4 '' I=1 TO 0'' start) = Some 1"
    "map_option for_stack (opt_statement_for 4 '' I=1 TO 0'' start)
       = Some [\<lparr>f_name1 = CHR ''I'', f_name2 = CHR '' '', f_is_string = False, f_end_value = 0,
                f_step = 1, f_line_index = 0, f_resume_pos = [], f_var = Some (Scalar 0)\<rparr>]"
    "map_option halted (opt_statement_for 4 '' I=1 TO 0'' start) = Some False"
    "map_option statement_pos (opt_statement_for 4 '' I=1 TO 0'' start) = Some (Some [])"
    "map_option for_stack (statement_for 4 '' I=1 TO 0'' start)
       = Some [\<lparr>f_name1 = CHR ''I'', f_name2 = CHR '' '', f_is_string = False, f_end_value = 0,
                f_step = 1, f_line_index = 0, f_resume_pos = [], f_var = Some (Scalar 0)\<rparr>]"
    "map_option halted (statement_for 4 '' I=1 TO 0'' start) = Some False"
    by (simp_all add: fuel_numeral opt_fuel_numeral lex_defs state_defs classic_defs opt_defs)
  from C4_for_no_initial_check[where st = start and n = 4 and p = "'' I=1 TO 0''" and j = 0
         and ?p1.0 = "''=1 TO 0''" and ?st1.0 = start_with_I and startv = "make_num 1"
         and ?p3.0 = "''TO 0''" and ?st2.0 = start_with_I and endv = "make_num 0"
         and ?p5.0 = "[]" and ?st4.0 = start_with_I and stepv = "make_num 1" and ?p7.0 = "[]"
         and ?st6.0 = start_with_I]
       h c
  show ?thesis by simp
qed

end
